theory Spec2Isabelle
  imports Complex_Main
begin

section \<open>JavaScript values\<close>

text \<open>
  The values a remote read can hand back, and the values the code computes from them.
  A JavaScript number is a finite value, NaN or an infinity. A finite value is named by
  the rational it stands for; which rationals are doubles, and how a result is rounded
  to one, is the runtime's business (below).
\<close>

datatype number = Finite rat | NaN | PosInfinity | NegInfinity

datatype jsval =
    JUndefined
  | JNull
  | JBool bool
  | JNum number
  | JBigInt int
  | JStr string
  | JArr "jsval list"
  | JObj "(string \<times> jsval) list"

datatype error = TypeError | RangeError | SyntaxError | CallFailed | Error string

text \<open>
  The conversions and the arithmetic of the JavaScript runtime are taken as parameters:
  the grammar of \<^verbatim>\<open>BigInt(string)\<close>, \<^verbatim>\<open>Number(string)\<close>, \<^verbatim>\<open>parseInt\<close>, the printing of
  numbers, the rounding of \<^verbatim>\<open>Number(bigint)\<close> to the nearest double and the rounded sum of
  two numbers belong to the language, not to this repository. \<open>StringToBigInt\<close> is
  \<open>None\<close> where \<^verbatim>\<open>BigInt\<close> throws a SyntaxError.
\<close>

record runtime =
  StringToBigInt :: "string \<Rightarrow> int option"
  StringToNumber :: "string \<Rightarrow> number"
  NumberToString :: "number \<Rightarrow> string"
  BigIntToString :: "int \<Rightarrow> string"
  parseInt :: "string \<Rightarrow> number"
  BigIntToNumber :: "int \<Rightarrow> number"
  NumberAdd :: "number \<Rightarrow> number \<Rightarrow> number"

fun numTruthy :: "number \<Rightarrow> bool" where
  "numTruthy (Finite r) = (r \<noteq> 0)"
| "numTruthy NaN = False"
| "numTruthy PosInfinity = True"
| "numTruthy NegInfinity = True"

fun truthy :: "jsval \<Rightarrow> bool" where
  "truthy JUndefined = False"
| "truthy JNull = False"
| "truthy (JBool b) = b"
| "truthy (JNum n) = numTruthy n"
| "truthy (JBigInt i) = (i \<noteq> 0)"
| "truthy (JStr s) = (s \<noteq> [])"
| "truthy (JArr xs) = True"
| "truthy (JObj kvs) = True"

fun typeof :: "jsval \<Rightarrow> string" where
  "typeof JUndefined = ''undefined''"
| "typeof JNull = ''object''"
| "typeof (JBool b) = ''boolean''"
| "typeof (JNum n) = ''number''"
| "typeof (JBigInt i) = ''bigint''"
| "typeof (JStr s) = ''string''"
| "typeof (JArr xs) = ''object''"
| "typeof (JObj kvs) = ''object''"

fun isArray :: "jsval \<Rightarrow> bool" where
  "isArray (JArr xs) = True"
| "isArray v = False"

fun joinComma :: "string list \<Rightarrow> string" where
  "joinComma [] = []"
| "joinComma [s] = s"
| "joinComma (s # t # ss) = s @ '','' @ joinComma (t # ss)"

text \<open>\<^verbatim>\<open>String(v)\<close>: an array prints its elements joined by commas, with null and undefined
  elements empty; a plain object prints as \<^verbatim>\<open>[object Object]\<close>.\<close>

fun jsToString :: "runtime \<Rightarrow> jsval \<Rightarrow> string" where
  "jsToString rt JUndefined = ''undefined''"
| "jsToString rt JNull = ''null''"
| "jsToString rt (JBool b) = (if b then ''true'' else ''false'')"
| "jsToString rt (JNum n) = NumberToString rt n"
| "jsToString rt (JBigInt i) = BigIntToString rt i"
| "jsToString rt (JStr s) = s"
| "jsToString rt (JArr xs) =
     joinComma (map (\<lambda>x. if x = JUndefined \<or> x = JNull then [] else jsToString rt x) xs)"
| "jsToString rt (JObj kvs) = ''[object Object]''"

text \<open>The method call \<^verbatim>\<open>v.toString()\<close>: a TypeError on null and undefined.\<close>

definition toStringMethod :: "runtime \<Rightarrow> jsval \<Rightarrow> error + string" where
  "toStringMethod rt v =
     (if v = JUndefined \<or> v = JNull then Inl TypeError else Inr (jsToString rt v))"

text \<open>\<^verbatim>\<open>Number(v)\<close>.\<close>

fun toNumber :: "runtime \<Rightarrow> jsval \<Rightarrow> number" where
  "toNumber rt JUndefined = NaN"
| "toNumber rt JNull = Finite 0"
| "toNumber rt (JBool b) = (if b then Finite 1 else Finite 0)"
| "toNumber rt (JNum n) = n"
| "toNumber rt (JBigInt i) = BigIntToNumber rt i"
| "toNumber rt (JStr s) = StringToNumber rt s"
| "toNumber rt (JArr xs) = StringToNumber rt (jsToString rt (JArr xs))"
| "toNumber rt (JObj kvs) = StringToNumber rt (jsToString rt (JObj kvs))"

fun isNaN :: "number \<Rightarrow> bool" where
  "isNaN NaN = True"
| "isNaN n = False"

text \<open>\<^verbatim>\<open>n < k\<close> and \<^verbatim>\<open>n > k\<close> for a number \<open>n\<close> and a finite constant \<open>k\<close>;
  every comparison with NaN is false.\<close>

fun numLess :: "number \<Rightarrow> rat \<Rightarrow> bool" where
  "numLess (Finite r) k = (r < k)"
| "numLess NaN k = False"
| "numLess PosInfinity k = False"
| "numLess NegInfinity k = True"

fun numGreater :: "number \<Rightarrow> rat \<Rightarrow> bool" where
  "numGreater (Finite r) k = (r > k)"
| "numGreater NaN k = False"
| "numGreater PosInfinity k = True"
| "numGreater NegInfinity k = False"

text \<open>\<^verbatim>\<open>BigInt(n)\<close> for a number: a RangeError unless \<open>n\<close> is a whole number.\<close>

fun numberToBigInt :: "number \<Rightarrow> error + int" where
  "numberToBigInt (Finite r) = (if r = of_int \<lfloor>r\<rfloor> then Inr \<lfloor>r\<rfloor> else Inl RangeError)"
| "numberToBigInt n = Inl RangeError"

text \<open>\<^verbatim>\<open>BigInt(s)\<close> for a string: a SyntaxError where the string is no integer literal.\<close>

definition stringToBigInt :: "runtime \<Rightarrow> string \<Rightarrow> error + int" where
  "stringToBigInt rt s = (case StringToBigInt rt s of None \<Rightarrow> Inl SyntaxError | Some i \<Rightarrow> Inr i)"

text \<open>\<^verbatim>\<open>x * b\<close> and \<^verbatim>\<open>x - b\<close> where \<open>b\<close> is a BigInt: every other kind of \<open>x\<close> becomes a
  Number, and mixing a Number with a BigInt is a TypeError.\<close>

fun mulBigInt :: "jsval \<Rightarrow> int \<Rightarrow> error + jsval" where
  "mulBigInt (JBigInt a) b = Inr (JBigInt (a * b))"
| "mulBigInt v b = Inl TypeError"

fun subBigInt :: "jsval \<Rightarrow> int \<Rightarrow> error + jsval" where
  "subBigInt (JBigInt a) b = Inr (JBigInt (a - b))"
| "subBigInt v b = Inl TypeError"

text \<open>\<^verbatim>\<open>a + b\<close>: arrays and objects are first turned into strings; a string operand
  makes it a concatenation; two BigInts and two Numbers add; a BigInt mixed with a
  Number is a TypeError.\<close>

fun isStringy :: "jsval \<Rightarrow> bool" where
  "isStringy (JStr s) = True"
| "isStringy (JArr xs) = True"
| "isStringy (JObj kvs) = True"
| "isStringy v = False"

fun isBigInt :: "jsval \<Rightarrow> bool" where
  "isBigInt (JBigInt i) = True"
| "isBigInt v = False"

definition jsAdd :: "runtime \<Rightarrow> jsval \<Rightarrow> jsval \<Rightarrow> error + jsval" where
  "jsAdd rt a b =
     (if isStringy a \<or> isStringy b then Inr (JStr (jsToString rt a @ jsToString rt b))
      else case (a, b) of
          (JBigInt x, JBigInt y) \<Rightarrow> Inr (JBigInt (x + y))
        | _ \<Rightarrow> if isBigInt a \<or> isBigInt b then Inl TypeError
               else Inr (JNum (NumberAdd rt (toNumber rt a) (toNumber rt b))))"

text \<open>Property access \<^verbatim>\<open>v.k\<close> for a data property \<open>k\<close> on a value that is not null or
  undefined: only a plain object has one.\<close>

fun getField :: "jsval \<Rightarrow> string \<Rightarrow> jsval" where
  "getField (JObj kvs) k = (case map_of kvs k of Some v \<Rightarrow> v | None \<Rightarrow> JUndefined)"
| "getField v k = JUndefined"

text \<open>\<^verbatim>\<open>v.length\<close> on a value that is not null or undefined.\<close>

fun jsLength :: "jsval \<Rightarrow> jsval" where
  "jsLength (JArr xs) = JNum (Finite (of_nat (length xs)))"
| "jsLength (JStr s) = JNum (Finite (of_nat (length s)))"
| "jsLength v = getField v ''length''"

text \<open>\<^verbatim>\<open>v > 0\<close>.\<close>

fun gtZero :: "runtime \<Rightarrow> jsval \<Rightarrow> bool" where
  "gtZero rt (JBigInt i) = (i > 0)"
| "gtZero rt v = numGreater (toNumber rt v) 0"

text \<open>\<^verbatim>\<open>s.toLowerCase()\<close> on the ASCII letters (addresses are hexadecimal strings).\<close>

definition lowerChar :: "char \<Rightarrow> char" where
  "lowerChar c =
     (case map_of (zip ''ABCDEFGHIJKLMNOPQRSTUVWXYZ'' ''abcdefghijklmnopqrstuvwxyz'') c of
        Some l \<Rightarrow> l
      | None \<Rightarrow> c)"

definition toLowerCase :: "string \<Rightarrow> string" where
  "toLowerCase s = map lowerChar s"

text \<open>\<^verbatim>\<open>v.toLowerCase()\<close> on an arbitrary value: only strings have the method.\<close>

fun jsToLowerCase :: "jsval \<Rightarrow> error + string" where
  "jsToLowerCase (JStr s) = Inr (toLowerCase s)"
| "jsToLowerCase v = Inl TypeError"

section \<open>Computations: remote reads, exceptions and mutable state\<close>

text \<open>
  An asynchronous computation is a function from the state before to an outcome (a
  thrown error on the left, a value on the right) and the state after. A \<^verbatim>\<open>try\<close>
  block keeps the state changes made before the throw.
\<close>

type_synonym ('s, 'a) prog = "'s \<Rightarrow> (error + 'a) \<times> 's"

definition ret :: "'a \<Rightarrow> ('s, 'a) prog" where
  "ret x = (\<lambda>s. (Inr x, s))"

definition raise :: "error \<Rightarrow> ('s, 'a) prog" where
  "raise e = (\<lambda>s. (Inl e, s))"

definition thenDo :: "('s, 'a) prog \<Rightarrow> ('a \<Rightarrow> ('s, 'b) prog) \<Rightarrow> ('s, 'b) prog" where
  "thenDo m f = (\<lambda>s. case m s of (Inl e, s') \<Rightarrow> (Inl e, s') | (Inr x, s') \<Rightarrow> f x s')"

definition tryCatch :: "('s, 'a) prog \<Rightarrow> (error \<Rightarrow> ('s, 'a) prog) \<Rightarrow> ('s, 'a) prog" where
  "tryCatch m h = (\<lambda>s. case m s of (Inl e, s') \<Rightarrow> h e s' | (Inr x, s') \<Rightarrow> (Inr x, s'))"

text \<open>A pure step that may throw.\<close>

definition lift :: "error + 'a \<Rightarrow> ('s, 'a) prog" where
  "lift r = (\<lambda>s. (r, s))"

text \<open>\<^verbatim>\<open>promise.catch(() => d)\<close> and the settled outcome of a promise.\<close>

definition orDefault :: "('s, 'a) prog \<Rightarrow> 'a \<Rightarrow> ('s, 'a) prog" where
  "orDefault m d = tryCatch m (\<lambda>e. ret d)"

definition settle :: "('s, 'a) prog \<Rightarrow> ('s, error + 'a) prog" where
  "settle m = (\<lambda>s. case m s of (r, s') \<Rightarrow> (Inr r, s'))"

subsection \<open>Remote calls\<close>

text \<open>
  The ABI constants imported from \<^verbatim>\<open>~/lib/nft-standards\<close> are named; an ABI written in
  the call is given by its input and output types.
\<close>

datatype abi =
    ERC165_ABI
  | MANIFOLD_DETECTION_ABI
  | MANIFOLD_EXTENSION_ABI
  | MANIFOLD_ERC721_EXTENSION_ABI
  | MANIFOLD_ERC1155_EXTENSION_ABI
  | PRICE_DISCOVERY_ABI
  | MINT_ABI
  | THIRDWEB_OPENEDITONERC721_ABI
  | THIRDWEB_ERC1155_EXTENSION_ABI
  | Inline "string list" "string list"

datatype call = Call (c_address: jsval) (c_abi: abi) (c_functionName: string) (c_args: "jsval list")

text \<open>
  The chain client answers a call with a value or fails (\<open>None\<close>: revert, timeout,
  undecodable data). Its answer may depend on every call made before, so that any
  pattern of failures over time is a client. Calls that the code dispatches together
  (\<^verbatim>\<open>Promise.all\<close>) are made one after the other, in the order in which the program
  text creates them; each of them is made whatever the others answer.
\<close>

type_synonym client = "call list \<Rightarrow> call \<Rightarrow> jsval option"

definition readContract :: "client \<Rightarrow> call \<Rightarrow> (call list, jsval) prog" where
  "readContract cl c =
     (\<lambda>tr. (case cl tr c of None \<Rightarrow> Inl CallFailed | Some v \<Rightarrow> Inr v, tr @ [c]))"

section \<open>Data model\<close>

datatype provider = Manifold | Opensea | Zora | Generic | Nfts2me | Thirdweb

record MintParams =
  contractAddress :: string
  chainId :: number
  provider :: "provider option"
  amount :: "number option"
  instanceId :: "string option"
  tokenId :: "string option"
  recipient :: "string option"
  merkleProof :: "string list option"

record Claim =
  cost :: jsval
  merkleRoot :: jsval
  erc20 :: jsval
  startDate :: jsval
  endDate :: jsval
  walletMax :: jsval

record ClaimCondition =
  cc_id :: number
  cc_pricePerToken :: jsval
  cc_currency :: jsval
  cc_maxClaimableSupply :: jsval
  cc_merkleRoot :: jsval
  cc_startTimestamp :: number
  cc_quantityLimitPerWallet :: jsval

record NFTContractInfo =
  info_provider :: provider
  isERC1155 :: jsval
  isERC721 :: jsval
  extensionAddress :: "jsval option"
  hasManifoldExtension :: "bool option"
  claim :: "Claim option"
  claimCondition :: "ClaimCondition option"

text \<open>Truthiness of an optional string, number or value field.\<close>

definition strTruthy :: "string option \<Rightarrow> bool" where
  "strTruthy s = (case s of None \<Rightarrow> False | Some t \<Rightarrow> t \<noteq> [])"

definition strOf :: "string option \<Rightarrow> string" where
  "strOf s = (case s of None \<Rightarrow> [] | Some t \<Rightarrow> t)"

definition optTruthy :: "jsval option \<Rightarrow> bool" where
  "optTruthy v = (case v of None \<Rightarrow> False | Some x \<Rightarrow> truthy x)"

text \<open>\<^verbatim>\<open>BigInt(params.amount || 1)\<close>.\<close>

definition amountBigInt :: "MintParams \<Rightarrow> error + int" where
  "amountBigInt p =
     numberToBigInt (case amount p of
        None \<Rightarrow> Finite 1
      | Some n \<Rightarrow> if numTruthy n then n else Finite 1)"

text \<open>The constants of \<^verbatim>\<open>~/lib/nft-standards\<close> that the code reads.\<close>

record standards =
  manifoldExtension :: string
  THIRDWEB_NATIVE_TOKEN :: string
  INTERFACE_ID_ERC721 :: string
  INTERFACE_ID_ERC1155 :: string


section \<open>Provider configurations\<close>

text \<open>
  The templates of \<^verbatim>\<open>PROVIDER_CONFIGS\<close>. The argument builder of a mint configuration
  is only read by the transaction layer and is left out; the value calculator is kept.
\<close>

record PriceDiscovery =
  abis :: "abi list"
  functionNames :: "string list"
  requiresInstanceId :: "bool option"
  requiresAmountParam :: "bool option"

record MintConfig =
  mc_abi :: abi
  mc_functionName :: string
  calculateValue :: "jsval \<Rightarrow> MintParams \<Rightarrow> error + jsval"

record ProviderConfig =
  name :: string
  extensionAddresses :: "string list option"
  priceDiscovery :: PriceDiscovery
  mintConfig :: MintConfig
  requiredParams :: "string list"
  supportsERC20 :: bool

text \<open>\<^verbatim>\<open>price * BigInt(params.amount || 1)\<close>.\<close>

definition timesAmount :: "jsval \<Rightarrow> MintParams \<Rightarrow> error + jsval" where
  "timesAmount price p = (case amountBigInt p of Inl e \<Rightarrow> Inl e | Inr a \<Rightarrow> mulBigInt price a)"

definition PROVIDER_CONFIGS :: "standards \<Rightarrow> provider \<Rightarrow> ProviderConfig" where
  "PROVIDER_CONFIGS std p = (case p of
      Manifold \<Rightarrow>
        \<lparr> name = ''manifold'',
          extensionAddresses = Some [manifoldExtension std],
          priceDiscovery = \<lparr> abis = [MANIFOLD_EXTENSION_ABI], functionNames = [''MINT_FEE''],
            requiresInstanceId = Some True, requiresAmountParam = None \<rparr>,
          mintConfig = \<lparr> mc_abi = MANIFOLD_EXTENSION_ABI, mc_functionName = ''mint'',
            calculateValue = (\<lambda>mintFee params. Inr mintFee) \<rparr>,
          requiredParams = [''contractAddress'', ''chainId''],
          supportsERC20 = True \<rparr>
    | Opensea \<Rightarrow>
        \<lparr> name = ''opensea'',
          extensionAddresses = None,
          priceDiscovery = \<lparr> abis = [PRICE_DISCOVERY_ABI],
            functionNames = [''mintPrice'', ''price'', ''publicMintPrice''],
            requiresInstanceId = None, requiresAmountParam = None \<rparr>,
          mintConfig = \<lparr> mc_abi = MINT_ABI, mc_functionName = ''mint'',
            calculateValue = timesAmount \<rparr>,
          requiredParams = [''contractAddress'', ''chainId''],
          supportsERC20 = False \<rparr>
    | Zora \<Rightarrow>
        \<lparr> name = ''zora'',
          extensionAddresses = None,
          priceDiscovery = \<lparr> abis = [PRICE_DISCOVERY_ABI],
            functionNames = [''mintPrice'', ''price''],
            requiresInstanceId = None, requiresAmountParam = None \<rparr>,
          mintConfig = \<lparr> mc_abi = MINT_ABI, mc_functionName = ''mint'',
            calculateValue = timesAmount \<rparr>,
          requiredParams = [''contractAddress'', ''chainId''],
          supportsERC20 = False \<rparr>
    | Generic \<Rightarrow>
        \<lparr> name = ''generic'',
          extensionAddresses = None,
          priceDiscovery = \<lparr> abis = [PRICE_DISCOVERY_ABI],
            functionNames = [''mintPrice'', ''price'', ''MINT_PRICE'', ''getMintPrice''],
            requiresInstanceId = None, requiresAmountParam = None \<rparr>,
          mintConfig = \<lparr> mc_abi = MINT_ABI, mc_functionName = ''mint'',
            calculateValue = timesAmount \<rparr>,
          requiredParams = [''contractAddress'', ''chainId''],
          supportsERC20 = False \<rparr>
    | Nfts2me \<Rightarrow>
        \<lparr> name = ''nfts2me'',
          extensionAddresses = None,
          priceDiscovery = \<lparr> abis = [Inline [''uint256''] [''uint256'']],
            functionNames = [''mintFee''],
            requiresInstanceId = None, requiresAmountParam = Some True \<rparr>,
          mintConfig = \<lparr> mc_abi = Inline [''uint256''] [], mc_functionName = ''mint'',
            calculateValue = timesAmount \<rparr>,
          requiredParams = [''contractAddress'', ''chainId''],
          supportsERC20 = False \<rparr>
    | Thirdweb \<Rightarrow>
        \<lparr> name = ''thirdweb'',
          extensionAddresses = None,
          priceDiscovery = \<lparr> abis = [THIRDWEB_OPENEDITONERC721_ABI],
            functionNames = [''claimCondition'', ''getClaimConditionById''],
            requiresInstanceId = Some False, requiresAmountParam = None \<rparr>,
          mintConfig = \<lparr> mc_abi = THIRDWEB_OPENEDITONERC721_ABI, mc_functionName = ''claim'',
            calculateValue = timesAmount \<rparr>,
          requiredParams = [''contractAddress'', ''chainId''],
          supportsERC20 = True \<rparr>)"

section \<open>The detector\<close>

definition basicInfo :: "provider \<Rightarrow> jsval \<Rightarrow> jsval \<Rightarrow> NFTContractInfo" where
  "basicInfo p e1155 e721 =
     \<lparr> info_provider = p, isERC1155 = e1155, isERC721 = e721, extensionAddress = None,
       hasManifoldExtension = None, claim = None, claimCondition = None \<rparr>"

definition overrideAddress :: string where
  "overrideAddress = ''0xcd0bafa3bba1b32869343fb69d2778daf4412181''"

text \<open>A probe whose only question is whether the call returns at all.\<close>

definition probe :: "client \<Rightarrow> call \<Rightarrow> (call list, bool) prog" where
  "probe cl c = tryCatch (thenDo (readContract cl c) (\<lambda>v. ret True)) (\<lambda>e. ret False)"

text \<open>A probe that also inspects the value returned.\<close>

definition probeWith :: "client \<Rightarrow> call \<Rightarrow> (jsval \<Rightarrow> bool) \<Rightarrow> (call list, bool) prog" where
  "probeWith cl c check = tryCatch (thenDo (readContract cl c) (\<lambda>v. ret (check v))) (\<lambda>e. ret False)"

fun firstMatch :: "('s, bool) prog list \<Rightarrow> ('s, bool) prog" where
  "firstMatch [] = ret False"
| "firstMatch (m # ms) = thenDo m (\<lambda>b. if b then ret True else firstMatch ms)"

text \<open>Step 4: a non-empty extensions list. \<^verbatim>\<open>extensions.find\<close> exists on arrays only.\<close>

definition manifoldCheck ::
  "runtime \<Rightarrow> standards \<Rightarrow> jsval \<Rightarrow> jsval \<Rightarrow> jsval \<Rightarrow> error + NFTContractInfo option" where
  "manifoldCheck rt std extensions e1155 e721 =
     (if truthy extensions \<and> gtZero rt (jsLength extensions) then
        (case extensions of
           JArr xs \<Rightarrow>
             (let known = (case List.find (\<lambda>ext. case extensionAddresses (PROVIDER_CONFIGS std Manifold) of
                                       None \<Rightarrow> False
                                     | Some as \<Rightarrow> ext \<in> JStr ` set as) xs of
                             Some ext \<Rightarrow> ext | None \<Rightarrow> JUndefined)
              in if truthy known \<or> gtZero rt (jsLength extensions) then
                   Inr (Some \<lparr> info_provider = Manifold, isERC1155 = e1155, isERC721 = e721,
                           extensionAddress = Some (if truthy known then known
                                                    else (case xs of [] \<Rightarrow> JUndefined | x # rest \<Rightarrow> x)),
                           hasManifoldExtension = Some True, claim = None, claimCondition = None \<rparr>)
                 else Inr None)
         | _ \<Rightarrow> Inl TypeError)
      else Inr None)"

text \<open>Step 5: the version query of a self-deployed contract.\<close>

definition n2mCheck :: "client \<Rightarrow> string \<Rightarrow> (call list, bool) prog" where
  "n2mCheck cl addr =
     probeWith cl (Call (JStr addr) (Inline [] [''uint256'']) ''n2mVersion'' []) (\<lambda>version. version \<noteq> JUndefined)"

text \<open>Step 6: the no-argument claim condition of an ERC721 drop, then the confirmatory
  probe whose failure changes nothing.\<close>

definition erc721Pattern :: "client \<Rightarrow> string \<Rightarrow> (call list, bool) prog" where
  "erc721Pattern cl addr =
     tryCatch
       (thenDo (readContract cl (Call (JStr addr) (Inline [] [''uint256'', ''uint256'']) ''claimCondition'' []))
          (\<lambda>r. if isArray r \<and> jsLength r = JNum (Finite 2) then
                 thenDo (probe cl (Call (JStr addr) (Inline [] [''string'', ''string'', ''string'', ''string''])
                                    ''sharedMetadata'' []))
                   (\<lambda>confirmed. ret True)
               else ret False))
       (\<lambda>e. ret False)"

text \<open>Step 7 (d) and (i): named accessors tried in order; the second success classifies.\<close>

fun indicatorLoop :: "client \<Rightarrow> (string \<Rightarrow> call) \<Rightarrow> string list \<Rightarrow> nat \<Rightarrow> (call list, bool) prog" where
  "indicatorLoop cl mk [] found = ret False"
| "indicatorLoop cl mk (f # fs) found =
     thenDo (settle (readContract cl (mk f)))
       (\<lambda>r. case r of
              Inr v \<Rightarrow> if found + 1 \<ge> 2 then ret True else indicatorLoop cl mk fs (found + 1)
            | Inl e \<Rightarrow> indicatorLoop cl mk fs found)"

text \<open>Step 7 (e): drop functions, with a second argument shape for \<^verbatim>\<open>claim\<close> and
  \<^verbatim>\<open>verifyClaim\<close>.\<close>

fun dropLoop :: "client \<Rightarrow> string \<Rightarrow> string list \<Rightarrow> (call list, bool) prog" where
  "dropLoop cl addr [] = ret False"
| "dropLoop cl addr (f # fs) =
     thenDo (settle (readContract cl (Call (JStr addr) (Inline [] [''uint256'']) f [])))
       (\<lambda>r. case r of
              Inr v \<Rightarrow> ret True
            | Inl e \<Rightarrow>
                if f = ''claim'' \<or> f = ''verifyClaim'' then
                  thenDo (settle (readContract cl
                            (Call (JStr addr)
                               (Inline [''address'', ''uint256'', ''uint256'', ''address'', ''uint256''] []) f [])))
                    (\<lambda>r2. case r2 of Inr v \<Rightarrow> ret True | Inl e2 \<Rightarrow> dropLoop cl addr fs)
                else dropLoop cl addr fs)"

text \<open>Step 7 (h): extension-management accessors under two output shapes.\<close>

fun extensionLoop :: "client \<Rightarrow> string \<Rightarrow> string list \<Rightarrow> (call list, bool) prog" where
  "extensionLoop cl addr [] = ret False"
| "extensionLoop cl addr (f # fs) =
     thenDo (settle (readContract cl (Call (JStr addr) (Inline [] [''address[]'']) f [])))
       (\<lambda>r. case r of
              Inr v \<Rightarrow> ret True
            | Inl e \<Rightarrow>
                thenDo (settle (readContract cl (Call (JStr addr) (Inline [''string''] [''address'']) f [])))
                  (\<lambda>r2. case r2 of Inr v \<Rightarrow> ret True | Inl e2 \<Rightarrow> extensionLoop cl addr fs))"

definition zeroAddress :: string where
  "zeroAddress = ''0x0000000000000000000000000000000000000000''"

definition zeroBytes32 :: string where
  "zeroBytes32 = ''0x0000000000000000000000000000000000000000000000000000000000000000''"

definition claimConditionByToken :: "string \<Rightarrow> call" where
  "claimConditionByToken addr =
     Call (JStr addr)
       (Inline [''uint256'']
          [''uint256'', ''uint256'', ''uint256'', ''bytes32'', ''uint256'', ''address'', ''string''])
       ''claimCondition'' [JBigInt 0]"

definition verifyCall :: "string \<Rightarrow> call" where
  "verifyCall addr =
     Call (JStr addr)
       (Inline [''(address,uint256,uint256,uint256,address,uint128,uint128,bytes32)'', ''bytes'']
          [''bool'', ''address''])
       ''verify''
       [JObj [(''to'', JStr zeroAddress), (''tokenId'', JBigInt 0), (''quantity'', JBigInt 1),
              (''pricePerToken'', JBigInt 0), (''currency'', JStr zeroAddress),
              (''validityStartTimestamp'', JBigInt 0), (''validityEndTimestamp'', JBigInt 0),
              (''uid'', JStr zeroBytes32)],
        JStr ''0x'']"

definition mintWithSignatureCall :: "string \<Rightarrow> call" where
  "mintWithSignatureCall addr =
     Call (JStr addr)
       (Inline [''(address,address,uint256,address,uint256,string,uint256,uint256,address,uint128,uint128,bytes32)'',
                ''bytes''] [])
       ''mintWithSignature'' []"

text \<open>Step 7: the ERC1155 patterns in their order; the first match wins.\<close>

definition erc1155Patterns :: "client \<Rightarrow> string \<Rightarrow> (call list, bool) prog" where
  "erc1155Patterns cl addr = firstMatch
     [ probeWith cl (claimConditionByToken addr) (\<lambda>r. truthy r \<and> typeof r = ''object''),
       probeWith cl (Call (JStr addr) (Inline [] [''uint256'']) ''getActiveClaimConditionId'' [])
         (\<lambda>r. typeof r = ''bigint'' \<or> typeof r = ''number''),
       probe cl (verifyCall addr),
       indicatorLoop cl (\<lambda>f. Call (JStr addr) (Inline [] [''string'']) f [])
         [''contractURI'', ''owner'', ''nextTokenIdToMint'', ''totalSupply'',
          ''mintTo'', ''lazyMint'', ''reveal'', ''setClaimConditions''] 0,
       dropLoop cl addr [''claim'', ''setClaimConditions'', ''getActiveClaimConditionId'', ''verifyClaim''],
       probeWith cl (Call (JStr addr) (Inline [''bytes4''] [''bool'']) ''supportsInterface'' [JStr ''0x4e2312e0''])
         truthy,
       probe cl (mintWithSignatureCall addr),
       extensionLoop cl addr
         [''getAllExtensions'', ''addExtension'', ''removeExtension'', ''replaceExtension'',
          ''getMetadataForFunction''],
       indicatorLoop cl (\<lambda>f. Call (JStr addr) (Inline [''bytes''] []) f [])
         [''_initializeOwner'', ''_setupRole'', ''_setupContractURI'', ''_setupDefaultRoyalty'',
          ''_setupPrimarySaleRecipient''] 0,
       thenDo (probe cl (Call (JStr addr) (Inline [''uint256''] [''string'']) ''uri'' [JBigInt 0]))
         (\<lambda>hasUri. if hasUri then
                      probe cl (Call (JStr addr) (Inline [''uint256''] [''uint256'']) ''totalSupply'' [JBigInt 0])
                    else ret False) ]"

text \<open>The three probes of the first batch; each failure is replaced by its default.\<close>

definition erc721Probe :: "standards \<Rightarrow> string \<Rightarrow> call" where
  "erc721Probe std addr = Call (JStr addr) ERC165_ABI ''supportsInterface'' [JStr (INTERFACE_ID_ERC721 std)]"

definition erc1155Probe :: "standards \<Rightarrow> string \<Rightarrow> call" where
  "erc1155Probe std addr = Call (JStr addr) ERC165_ABI ''supportsInterface'' [JStr (INTERFACE_ID_ERC1155 std)]"

definition extensionsProbe :: "string \<Rightarrow> call" where
  "extensionsProbe addr = Call (JStr addr) MANIFOLD_DETECTION_ABI ''getExtensions'' []"

text \<open>Steps 5 to 8, after the first batch and the extensions check: the version query,
  the ERC721 pattern if the ERC721 probe was truthy, the ERC1155 patterns if the ERC1155
  probe was truthy, and the unclassified result when nothing matched.\<close>

definition detectHeuristics :: "client \<Rightarrow> string \<Rightarrow> jsval \<Rightarrow> jsval \<Rightarrow> (call list, NFTContractInfo) prog" where
  "detectHeuristics cl addr e1155 e721 =
     thenDo (n2mCheck cl addr) (\<lambda>isN2m.
       if isN2m then ret (basicInfo Nfts2me e1155 e721) else
     thenDo (if truthy e721 then erc721Pattern cl addr else ret False) (\<lambda>isDrop721.
       if isDrop721 then ret (basicInfo Thirdweb e1155 e721) else
     thenDo (if truthy e1155 then erc1155Patterns cl addr else ret False) (\<lambda>isDrop1155.
       if isDrop1155 then ret (basicInfo Thirdweb e1155 e721)
       else ret (basicInfo Generic e1155 e721))))"

text \<open>The body of the \<^verbatim>\<open>try\<close> block of \<^verbatim>\<open>detectNFTProvider\<close>.\<close>

definition detectCascade ::
  "runtime \<Rightarrow> standards \<Rightarrow> client \<Rightarrow> string \<Rightarrow> (call list, NFTContractInfo) prog" where
  "detectCascade rt std cl addr =
     thenDo (orDefault (readContract cl (erc721Probe std addr)) (JBool False)) (\<lambda>e721.
     thenDo (orDefault (readContract cl (erc1155Probe std addr)) (JBool False)) (\<lambda>e1155.
     thenDo (orDefault (readContract cl (extensionsProbe addr)) JNull) (\<lambda>extensions.
     thenDo (lift (manifoldCheck rt std extensions e1155 e721)) (\<lambda>m.
       case m of
         Some info \<Rightarrow> ret info
       | None \<Rightarrow> detectHeuristics cl addr e1155 e721))))"

text \<open>
  \<^verbatim>\<open>detectNFTProvider\<close>. The client is the one \<^verbatim>\<open>getClientForChain\<close> returns for the
  chain id; that lookup is outside this repository's core and is taken as given.
\<close>

definition detectNFTProvider ::
  "runtime \<Rightarrow> standards \<Rightarrow> client \<Rightarrow> MintParams \<Rightarrow> (call list, NFTContractInfo) prog" where
  "detectNFTProvider rt std cl params =
     (if toLowerCase (contractAddress params) = overrideAddress then
        ret (basicInfo Thirdweb (JBool True) (JBool False))
      else case provider params of
        Some specifiedProvider \<Rightarrow>
          (let config = PROVIDER_CONFIGS std specifiedProvider
           in if specifiedProvider = Manifold \<and>
                 (case extensionAddresses config of Some (a # rest) \<Rightarrow> a \<noteq> [] | _ \<Rightarrow> False) then
                ret \<lparr> info_provider = Manifold, isERC1155 = JBool True, isERC721 = JBool False,
                      extensionAddress = (case extensionAddresses config of
                                            Some (a # rest) \<Rightarrow> Some (JStr a) | _ \<Rightarrow> None),
                      hasManifoldExtension = Some True, claim = None, claimCondition = None \<rparr>
              else ret (basicInfo specifiedProvider (JBool False) (JBool False)))
      | None \<Rightarrow>
          tryCatch (detectCascade rt std cl (contractAddress params))
            (\<lambda>e. ret (basicInfo Generic (JBool False) (JBool False))))"

section \<open>The parameter validator\<close>

record Validation =
  isValid :: bool
  missingParams :: "string list"
  errors :: "string list"

text \<open>\<^verbatim>\<open>!params[param]\<close> for a parameter name.\<close>

definition paramTruthy :: "MintParams \<Rightarrow> string \<Rightarrow> bool" where
  "paramTruthy p k =
     (if k = ''contractAddress'' then contractAddress p \<noteq> []
      else if k = ''chainId'' then numTruthy (chainId p)
      else if k = ''provider'' then provider p \<noteq> None
      else if k = ''amount'' then (case amount p of None \<Rightarrow> False | Some n \<Rightarrow> numTruthy n)
      else if k = ''instanceId'' then strTruthy (instanceId p)
      else if k = ''tokenId'' then strTruthy (tokenId p)
      else if k = ''recipient'' then strTruthy (recipient p)
      else if k = ''merkleProof'' then merkleProof p \<noteq> None
      else False)"

definition manifoldMissingMessage :: string where
  "manifoldMissingMessage =
     ''Manifold NFTs require either instanceId or tokenId. Check the claim page URL for (e.g., /instance/123456) use getClaimForToken to find a specific''"

definition merkleMessage :: string where
  "merkleMessage = ''This NFT requires a merkle proof for minting - not supported yet''"

text \<open>
  \<^verbatim>\<open>validateParameters\<close>; \<open>now\<close> is \<^verbatim>\<open>Math.floor(Date.now() / 1000)\<close>. The two lists are
  built in the order the code pushes to them.
\<close>

definition validateParameters :: "runtime \<Rightarrow> standards \<Rightarrow> rat \<Rightarrow> MintParams \<Rightarrow> NFTContractInfo \<Rightarrow> Validation" where
  "validateParameters rt std now params contractInfo =
     (let config = PROVIDER_CONFIGS std (info_provider contractInfo);
          missing0 = filter (\<lambda>param. \<not> paramTruthy params param) (requiredParams config);
          manifoldMissing = (info_provider contractInfo = Manifold \<and>
                             \<not> strTruthy (instanceId params) \<and> \<not> strTruthy (tokenId params));
          errs1 = (if manifoldMissing then [manifoldMissingMessage] else []);
          missing1 = (if manifoldMissing then [''instanceId or tokenId''] else []);
          errs2 = (if info_provider contractInfo = Manifold \<and> strTruthy (instanceId params) then
                     (case instanceId params of
                        None \<Rightarrow> []
                      | Some i \<Rightarrow>
                          (let instanceIdNum = parseInt rt i
                           in if isNaN instanceIdNum \<or> numLess instanceIdNum 0 then
                                [''Invalid instanceId format: '' @ i @ ''. Must be a positive integer.'']
                              else []))
                   else []);
          errs3 = (if info_provider contractInfo = Manifold then
                     (case claim contractInfo of
                        None \<Rightarrow> []
                      | Some c \<Rightarrow> if truthy (merkleRoot c) \<and> merkleRoot c \<noteq> JStr zeroBytes32
                                  then [merkleMessage] else [])
                   else []);
          errs4 = (if info_provider contractInfo = Thirdweb then
                     (case claimCondition contractInfo of
                        None \<Rightarrow> []
                      | Some c \<Rightarrow> if truthy (cc_merkleRoot c) \<and> cc_merkleRoot c \<noteq> JStr zeroBytes32
                                  then [merkleMessage] else [])
                   else []);
          errs5 = (if info_provider contractInfo = Thirdweb then
                     (case claimCondition contractInfo of
                        None \<Rightarrow> []
                      | Some c \<Rightarrow> if numTruthy (cc_startTimestamp c) \<and>
                                     numGreater (cc_startTimestamp c) now
                                  then [''Claim has not started yet''] else [])
                   else []);
          missing = missing0 @ missing1;
          errs = errs1 @ errs2 @ errs3 @ errs4 @ errs5
      in \<lparr> isValid = (missing = [] \<and> errs = []), missingParams = missing, errors = errs \<rparr>)"


section \<open>Derived provider configuration\<close>

definition getManifoldABI :: "NFTContractInfo option \<Rightarrow> abi" where
  "getManifoldABI contractInfo = (case contractInfo of
      None \<Rightarrow> MANIFOLD_ERC721_EXTENSION_ABI
    | Some ci \<Rightarrow> if truthy (isERC721 ci) then MANIFOLD_ERC721_EXTENSION_ABI
                 else if truthy (isERC1155 ci) then MANIFOLD_ERC1155_EXTENSION_ABI
                 else MANIFOLD_ERC721_EXTENSION_ABI)"

text \<open>The value calculator of the drop-claim configurations: the price times the amount
  for the native currency, zero for an ERC20 currency.\<close>

definition currencyValue :: "standards \<Rightarrow> NFTContractInfo \<Rightarrow> jsval \<Rightarrow> MintParams \<Rightarrow> error + jsval" where
  "currencyValue std ci price params =
     (case (case claimCondition ci of None \<Rightarrow> JUndefined | Some c \<Rightarrow> cc_currency c) of currency \<Rightarrow>
        if \<not> truthy currency then timesAmount price params
        else (case jsToLowerCase currency of
                Inl e \<Rightarrow> Inl e
              | Inr lc \<Rightarrow> if lc = toLowerCase (THIRDWEB_NATIVE_TOKEN std) then timesAmount price params
                          else Inr (JBigInt 0)))"

definition getProviderConfig ::
  "standards \<Rightarrow> provider \<Rightarrow> NFTContractInfo option \<Rightarrow> MintParams option \<Rightarrow> ProviderConfig" where
  "getProviderConfig std p contractInfo params =
     (let baseConfig = PROVIDER_CONFIGS std p
      in if p = Manifold then
           (let manifoldABI = getManifoldABI contractInfo
            in baseConfig \<lparr> priceDiscovery := (priceDiscovery baseConfig) \<lparr> abis := [manifoldABI] \<rparr>,
                            mintConfig := (mintConfig baseConfig) \<lparr> mc_abi := manifoldABI \<rparr> \<rparr>)
         else if p = Thirdweb then
           (case contractInfo of
              None \<Rightarrow> baseConfig
            | Some ci \<Rightarrow>
                if truthy (isERC1155 ci) then
                  (if (case params of None \<Rightarrow> False
                       | Some ps \<Rightarrow> toLowerCase (contractAddress ps) = overrideAddress) then
                     baseConfig
                       \<lparr> mintConfig := \<lparr> mc_abi = THIRDWEB_ERC1155_EXTENSION_ABI, mc_functionName = ''claim'',
                            calculateValue = (\<lambda>price ps.
                               case amountBigInt ps of Inl e \<Rightarrow> Inl e
                               | Inr a \<Rightarrow> Inr (JBigInt (1000000000000000000 * a))) \<rparr>,
                         priceDiscovery := \<lparr> abis = [THIRDWEB_ERC1155_EXTENSION_ABI],
                            functionNames = [''claimCondition''],
                            requiresInstanceId = Some False, requiresAmountParam = None \<rparr> \<rparr>
                   else
                     baseConfig
                       \<lparr> mintConfig := \<lparr> mc_abi = THIRDWEB_ERC1155_EXTENSION_ABI, mc_functionName = ''claim'',
                            calculateValue = currencyValue std ci \<rparr>,
                         priceDiscovery := \<lparr> abis = [THIRDWEB_ERC1155_EXTENSION_ABI],
                            functionNames = [''claimCondition''],
                            requiresInstanceId = Some False, requiresAmountParam = None \<rparr> \<rparr>)
                else if claimCondition ci \<noteq> None then
                  baseConfig \<lparr> mintConfig := (mintConfig baseConfig) \<lparr> calculateValue := currencyValue std ci \<rparr> \<rparr>
                else baseConfig)
         else baseConfig)"

section \<open>The price resolver\<close>

record ERC20Details =
  address :: jsval
  symbol :: jsval
  decimals :: number
  allowance :: jsval
  balance :: jsval

record Quote =
  mintPrice :: "jsval option"
  erc20Details :: "ERC20Details option"
  totalCost :: jsval
  q_claim :: "Claim option"

text \<open>
  The resolver writes to two objects of its caller: \<^verbatim>\<open>params\<close> and \<^verbatim>\<open>contractInfo\<close>.
  They are part of the state, next to the calls made so far. Two more components record
  what happens outside the resolver's own control flow: the reads still to be made by
  promises that the resolver has created and left without awaiting them, and the
  rejections of such promises, which reach no handler.
\<close>

record pstate =
  calls :: "call list"
  st_params :: MintParams
  st_info :: NFTContractInfo
  st_detached :: "call list"
  st_unhandled :: "error list"

definition onCalls :: "(call list, 'a) prog \<Rightarrow> (pstate, 'a) prog" where
  "onCalls m = (\<lambda>s. case m (calls s) of (r, tr) \<Rightarrow> (r, s\<lparr>calls := tr\<rparr>))"

definition read :: "client \<Rightarrow> call \<Rightarrow> (pstate, jsval) prog" where
  "read cl c = onCalls (readContract cl c)"

definition getParams :: "(pstate, MintParams) prog" where
  "getParams = (\<lambda>s. (Inr (st_params s), s))"

definition getInfo :: "(pstate, NFTContractInfo) prog" where
  "getInfo = (\<lambda>s. (Inr (st_info s), s))"

definition setInstanceId :: "string \<Rightarrow> (pstate, unit) prog" where
  "setInstanceId str = (\<lambda>s. (Inr (), s\<lparr>st_params := (st_params s)\<lparr>instanceId := Some str\<rparr>\<rparr>))"

definition setClaim :: "Claim \<Rightarrow> (pstate, unit) prog" where
  "setClaim c = (\<lambda>s. (Inr (), s\<lparr>st_info := (st_info s)\<lparr>claim := Some c\<rparr>\<rparr>))"

definition setClaimCondition :: "ClaimCondition \<Rightarrow> (pstate, unit) prog" where
  "setClaimCondition c = (\<lambda>s. (Inr (), s\<lparr>st_info := (st_info s)\<lparr>claimCondition := Some c\<rparr>\<rparr>))"

definition quote :: "jsval option \<Rightarrow> jsval \<Rightarrow> Quote" where
  "quote price tc = \<lparr> mintPrice = price, erc20Details = None, totalCost = tc, q_claim = None \<rparr>"

text \<open>
  \<^verbatim>\<open>callManifoldWithFallback\<close>: the ABI of the detected standard first, the other one on
  any failure; the error of the second attempt is the one thrown. The function is
  asynchronous: calling it dispatches the read under the primary ABI and hands back a
  promise; the read under the fallback ABI is dispatched later, when the first answer has
  arrived and is a failure. Answers arrive in the order of the calls. A promise is
  therefore either resolved with the first answer, or has the fallback read still to
  make; awaiting it makes that read.
\<close>

datatype promise = Resolved jsval | Fallback call

definition primaryABI :: "NFTContractInfo \<Rightarrow> abi" where
  "primaryABI ci = (if truthy (isERC721 ci) then MANIFOLD_ERC721_EXTENSION_ABI
                    else MANIFOLD_ERC1155_EXTENSION_ABI)"

definition fallbackABI :: "NFTContractInfo \<Rightarrow> abi" where
  "fallbackABI ci = (if truthy (isERC721 ci) then MANIFOLD_ERC1155_EXTENSION_ABI
                     else MANIFOLD_ERC721_EXTENSION_ABI)"

definition callManifoldWithFallback ::
  "client \<Rightarrow> jsval \<Rightarrow> string \<Rightarrow> jsval list \<Rightarrow> NFTContractInfo \<Rightarrow> (pstate, promise) prog" where
  "callManifoldWithFallback cl addr functionName args ci =
     thenDo (settle (read cl (Call addr (primaryABI ci) functionName args))) (\<lambda>primary.
       ret (case primary of
              Inr result \<Rightarrow> Resolved result
            | Inl primaryError \<Rightarrow> Fallback (Call addr (fallbackABI ci) functionName args)))"

definition await :: "client \<Rightarrow> promise \<Rightarrow> (pstate, jsval) prog" where
  "await cl p = (case p of Resolved result \<Rightarrow> ret result | Fallback c \<Rightarrow> read cl c)"

text \<open>
  A promise that is left behind by a throw, with no handler attached: if it still has
  its fallback read to make, that read is made later, and a failure of it is a rejection
  that nobody handles.
\<close>

definition abandon :: "promise \<Rightarrow> (pstate, unit) prog" where
  "abandon p =
     (\<lambda>s. (Inr (), case p of Resolved result \<Rightarrow> s
                     | Fallback c \<Rightarrow> s\<lparr>st_detached := st_detached s @ [c]\<rparr>))"

definition reject :: "error \<Rightarrow> (pstate, unit) prog" where
  "reject e = (\<lambda>s. (Inr (), s\<lparr>st_unhandled := st_unhandled s @ [e]\<rparr>))"

fun runCalls :: "client \<Rightarrow> call list \<Rightarrow> (pstate, unit) prog" where
  "runCalls cl [] = ret ()"
| "runCalls cl (c # cs) =
     thenDo (settle (read cl c)) (\<lambda>r.
     thenDo (case r of Inl e \<Rightarrow> reject e | Inr v \<Rightarrow> ret ()) (\<lambda>u.
       runCalls cl cs))"

definition runDetached :: "client \<Rightarrow> (pstate, unit) prog" where
  "runDetached cl = (\<lambda>s. runCalls cl (st_detached s) (s\<lparr>st_detached := []\<rparr>))"

text \<open>The extension address read from \<^verbatim>\<open>contractInfo\<close> (undefined when absent).\<close>

definition extAddr :: "NFTContractInfo \<Rightarrow> jsval" where
  "extAddr ci = (case extensionAddress ci of None \<Rightarrow> JUndefined | Some a \<Rightarrow> a)"

text \<open>The claim promise: a lookup by instance id if one is given, else by token id, else
  none. The \<^verbatim>\<open>BigInt\<close> conversion of the id throws before anything is dispatched.\<close>

definition claimDispatch ::
  "runtime \<Rightarrow> client \<Rightarrow> MintParams \<Rightarrow> NFTContractInfo \<Rightarrow> (pstate, promise option) prog" where
  "claimDispatch rt cl params ci =
     (if strTruthy (instanceId params) then
        thenDo (lift (stringToBigInt rt (strOf (instanceId params)))) (\<lambda>n.
        thenDo (callManifoldWithFallback cl (extAddr ci) ''getClaim''
                  [JStr (contractAddress params), JBigInt n] ci) (\<lambda>claimPromise.
          ret (Some claimPromise)))
      else if strTruthy (tokenId params) then
        thenDo (lift (stringToBigInt rt (strOf (tokenId params)))) (\<lambda>n.
        thenDo (callManifoldWithFallback cl (extAddr ci) ''getClaimForToken''
                  [JStr (contractAddress params), JBigInt n] ci) (\<lambda>claimPromise.
          ret (Some claimPromise)))
      else ret None)"

text \<open>
  The two lookups of the extension-claim protocol. The fee promise is created first and
  the claim promise second; only then, in \<^verbatim>\<open>Promise.all\<close>, does each of them get its
  \<^verbatim>\<open>catch\<close> that turns a failure into null. So the two reads under the primary ABI come
  first and the fallback reads after them; and a throw of the id conversion leaves the
  fee promise behind without a handler.
\<close>

definition manifoldLookups :: "runtime \<Rightarrow> client \<Rightarrow> (pstate, jsval \<times> jsval) prog" where
  "manifoldLookups rt cl =
     thenDo getParams (\<lambda>params.
     thenDo getInfo (\<lambda>ci.
     thenDo (callManifoldWithFallback cl (extAddr ci) ''MINT_FEE'' [] ci) (\<lambda>mintFeePromise.
     thenDo (tryCatch (claimDispatch rt cl params ci)
               (\<lambda>err. thenDo (abandon mintFeePromise) (\<lambda>u. raise err))) (\<lambda>claimPromise.
     thenDo (orDefault (await cl mintFeePromise) JNull) (\<lambda>mintFee.
     thenDo (case claimPromise of
               None \<Rightarrow> ret JNull
             | Some p \<Rightarrow> orDefault (await cl p) JNull) (\<lambda>claimData.
       ret (mintFee, claimData)))))))"

text \<open>The response of the token-id lookup, \<^verbatim>\<open>[instanceId, claim]\<close>: the second element
  becomes the claim, and the first is written to \<^verbatim>\<open>params.instanceId\<close> when the caller
  gave none.\<close>

definition extractClaim :: "runtime \<Rightarrow> jsval \<Rightarrow> (pstate, jsval) prog" where
  "extractClaim rt claimData =
     thenDo getParams (\<lambda>params.
       case claimData of
         JArr [extractedInstanceId, inner] \<Rightarrow>
           if strTruthy (tokenId params) then
             (if \<not> strTruthy (instanceId params) then
                thenDo (lift (toStringMethod rt extractedInstanceId)) (\<lambda>str.
                thenDo (setInstanceId str) (\<lambda>u. ret inner))
              else ret inner)
           else ret claimData
       | _ \<Rightarrow> ret claimData)"

definition feeOrZero :: "jsval \<Rightarrow> jsval" where
  "feeOrZero mintFee = (if truthy mintFee then mintFee else JBigInt 0)"

text \<open>The checks on the claim before its fields are read; a violation ends the
  protocol with the fee alone.\<close>

definition claimInvalid :: "jsval \<Rightarrow> bool" where
  "claimInvalid c =
     (typeof c \<noteq> ''object'' \<or> getField c ''cost'' = JUndefined
      \<or> filter (\<lambda>prop. getField c prop = JUndefined)
           [''cost'', ''erc20'', ''startDate'', ''endDate'', ''walletMax''] \<noteq> []
      \<or> (typeof (getField c ''cost'') \<noteq> ''bigint'' \<and> typeof (getField c ''cost'') \<noteq> ''number''))"

text \<open>\<^verbatim>\<open>Number(decimals)\<close> and its range check.\<close>

definition validateDecimals :: "runtime \<Rightarrow> jsval \<Rightarrow> error + number" where
  "validateDecimals rt d =
     (let validatedDecimals = toNumber rt d
      in if isNaN validatedDecimals \<or> numLess validatedDecimals 0 \<or> numGreater validatedDecimals 255
         then Inl (Error ''Invalid ERC20 decimals'')
         else Inr validatedDecimals)"

text \<open>
  The four ERC20 reads, dispatched together: all of them are made; a failed symbol or
  decimals read rejects the batch, a failed allowance or balance read counts as zero,
  and without a recipient the last two are not made and are undefined.
\<close>

definition symbolCall :: "jsval \<Rightarrow> call" where
  "symbolCall token = Call token (Inline [] [''string'']) ''symbol'' []"

definition decimalsCall :: "jsval \<Rightarrow> call" where
  "decimalsCall token = Call token (Inline [] [''uint8'']) ''decimals'' []"

definition allowanceCall :: "jsval \<Rightarrow> string \<Rightarrow> jsval \<Rightarrow> call" where
  "allowanceCall token owner spender =
     Call token (Inline [''address'', ''address''] [''uint256'']) ''allowance'' [JStr owner, spender]"

definition balanceOfCall :: "jsval \<Rightarrow> string \<Rightarrow> call" where
  "balanceOfCall token owner =
     Call token (Inline [''address''] [''uint256'']) ''balanceOf'' [JStr owner]"

definition erc20Batch ::
  "runtime \<Rightarrow> client \<Rightarrow> jsval \<Rightarrow> string option \<Rightarrow> jsval \<Rightarrow> (pstate, ERC20Details) prog" where
  "erc20Batch rt cl token rcpt spender =
     thenDo (settle (read cl (symbolCall token))) (\<lambda>sym.
     thenDo (settle (read cl (decimalsCall token))) (\<lambda>dec.
     thenDo (if strTruthy rcpt then
               orDefault (read cl (allowanceCall token (strOf rcpt) spender)) (JBigInt 0)
             else ret JUndefined) (\<lambda>allow.
     thenDo (if strTruthy rcpt then
               orDefault (read cl (balanceOfCall token (strOf rcpt))) (JBigInt 0)
             else ret JUndefined) (\<lambda>bal.
     thenDo (lift sym) (\<lambda>symbolValue.
     thenDo (lift dec) (\<lambda>decimalsValue.
     thenDo (lift (validateDecimals rt decimalsValue)) (\<lambda>validatedDecimals.
       ret \<lparr> address = token, symbol = symbolValue, decimals = validatedDecimals,
             allowance = allow, balance = bal \<rparr>)))))))"

text \<open>The rest of the \<^verbatim>\<open>try\<close> block of the extension-claim branch, from the validation
  of the claim to the quote.\<close>

definition manifoldPrice :: "runtime \<Rightarrow> client \<Rightarrow> jsval \<Rightarrow> jsval \<Rightarrow> (pstate, Quote) prog" where
  "manifoldPrice rt cl mintFee c =
     thenDo getParams (\<lambda>params.
     thenDo getInfo (\<lambda>ci.
       if truthy c \<and> (strTruthy (instanceId params) \<or> strTruthy (tokenId params)) \<and> claimInvalid c then
         ret (quote (Some (feeOrZero mintFee)) (feeOrZero mintFee))
       else if truthy c then
         thenDo (setClaim \<lparr> cost = getField c ''cost'', merkleRoot = getField c ''merkleRoot'',
                            erc20 = getField c ''erc20'', startDate = getField c ''startDate'',
                            endDate = getField c ''endDate'', walletMax = getField c ''walletMax'' \<rparr>) (\<lambda>u.
         thenDo getInfo (\<lambda>ci'.
           if truthy (getField c ''erc20'') \<and> getField c ''erc20'' \<noteq> JStr zeroAddress then
             thenDo (erc20Batch rt cl (getField c ''erc20'') (recipient params)
                       (if optTruthy (extensionAddress ci) then extAddr ci
                        else JStr (contractAddress params))) (\<lambda>details.
               ret \<lparr> mintPrice = Some (feeOrZero mintFee), erc20Details = Some details,
                     totalCost = feeOrZero mintFee, q_claim = claim ci' \<rparr>)
           else
             thenDo (lift (jsAdd rt (feeOrZero mintFee)
                             (if truthy (getField c ''cost'') then getField c ''cost'' else JBigInt 0))) (\<lambda>tc.
               ret \<lparr> mintPrice = Some (feeOrZero mintFee), erc20Details = None,
                     totalCost = tc, q_claim = claim ci' \<rparr>)))
       else
         ret \<lparr> mintPrice = Some (feeOrZero mintFee), erc20Details = None,
               totalCost = feeOrZero mintFee, q_claim = None \<rparr>))"

text \<open>The first part of the \<^verbatim>\<open>try\<close> block of the extension-claim branch: the fee and
  the claim record that the rest of the block works with.\<close>

definition manifoldClaim :: "runtime \<Rightarrow> client \<Rightarrow> (pstate, jsval \<times> jsval) prog" where
  "manifoldClaim rt cl =
     thenDo (manifoldLookups rt cl) (\<lambda>(mintFee, claimData).
     thenDo (extractClaim rt claimData) (\<lambda>c.
       ret (mintFee, c)))"

text \<open>The \<^verbatim>\<open>try\<close> block of the extension-claim branch.\<close>

definition manifoldBody :: "runtime \<Rightarrow> client \<Rightarrow> (pstate, Quote) prog" where
  "manifoldBody rt cl =
     thenDo (manifoldClaim rt cl) (\<lambda>(mintFee, c). manifoldPrice rt cl mintFee c)"

definition defaultManifoldFee :: int where
  "defaultManifoldFee = 500000000000000"

text \<open>
  Its \<^verbatim>\<open>catch\<close> block: the fee alone, and the default fee when that read fails too. The
  block awaits the new fee promise as soon as it has created it; a promise left behind
  by the \<^verbatim>\<open>try\<close> block makes its fallback read in between, its first read having been
  answered before.
\<close>

definition manifoldFeeOnly :: "client \<Rightarrow> (pstate, Quote) prog" where
  "manifoldFeeOnly cl =
     thenDo getInfo (\<lambda>ci.
       tryCatch
         (thenDo (callManifoldWithFallback cl (extAddr ci) ''MINT_FEE'' [] ci) (\<lambda>retryPromise.
          thenDo (runDetached cl) (\<lambda>u.
          thenDo (await cl retryPromise) (\<lambda>mintFee.
            ret (quote (Some mintFee) mintFee)))))
         (\<lambda>fallbackErr. ret (quote None (JBigInt defaultManifoldFee))))"

definition manifoldBranch :: "runtime \<Rightarrow> client \<Rightarrow> (pstate, Quote) prog" where
  "manifoldBranch rt cl = tryCatch (manifoldBody rt cl) (\<lambda>err. manifoldFeeOnly cl)"


subsection \<open>Self-deploy\<close>

definition mintPriceCall :: "MintParams \<Rightarrow> call" where
  "mintPriceCall params = Call (JStr (contractAddress params)) (Inline [] [''uint256'']) ''mintPrice'' []"

definition mintFeeCall :: "MintParams \<Rightarrow> int \<Rightarrow> call" where
  "mintFeeCall params a =
     Call (JStr (contractAddress params)) (Inline [''uint256''] [''uint256'']) ''mintFee'' [JBigInt a]"

definition protocolFeeCall :: "MintParams \<Rightarrow> call" where
  "protocolFeeCall params = Call (JStr (contractAddress params)) (Inline [] [''uint256'']) ''protocolFee'' []"

text \<open>Pattern 1: the unit price accessor. \<open>None\<close> stands for leaving the \<^verbatim>\<open>try\<close> without
  a result, by a caught throw or by an undefined value.\<close>

definition nfts2mePattern1 :: "client \<Rightarrow> MintParams \<Rightarrow> (pstate, Quote option) prog" where
  "nfts2mePattern1 cl params =
     tryCatch
       (thenDo (read cl (mintPriceCall params))
          (\<lambda>price. if price \<noteq> JUndefined then
                      thenDo (lift (timesAmount price params)) (\<lambda>tc. ret (Some (quote (Some price) tc)))
                    else ret None))
       (\<lambda>err. ret None)"

text \<open>Pattern 2: the creator fee for the amount and the protocol fee, read together.\<close>

definition nfts2mePattern2 :: "runtime \<Rightarrow> client \<Rightarrow> MintParams \<Rightarrow> (pstate, Quote option) prog" where
  "nfts2mePattern2 rt cl params =
     tryCatch
       (thenDo (lift (amountBigInt params)) (\<lambda>a.
        thenDo (settle (read cl (mintFeeCall params a))) (\<lambda>r1.
        thenDo (settle (read cl (protocolFeeCall params))) (\<lambda>r2.
        thenDo (lift r1) (\<lambda>mintFee.
        thenDo (lift r2) (\<lambda>protocolFee.
          if mintFee \<noteq> JUndefined \<and> protocolFee \<noteq> JUndefined then
            thenDo (lift (timesAmount protocolFee params)) (\<lambda>fees.
            thenDo (lift (jsAdd rt mintFee fees)) (\<lambda>tc.
              ret (Some (quote (Some mintFee) tc))))
          else ret None))))))
       (\<lambda>err. ret None)"

text \<open>Pattern 3: the default fees, outside any \<^verbatim>\<open>try\<close>.\<close>

definition nfts2meDefault :: "MintParams \<Rightarrow> (pstate, Quote) prog" where
  "nfts2meDefault params =
     thenDo (lift (amountBigInt params)) (\<lambda>a.
       ret (quote (Some (JBigInt (100000000000000 * a)))
              (JBigInt ((100000000000000 + 100000000000000) * a))))"

definition nfts2meBranch :: "runtime \<Rightarrow> client \<Rightarrow> (pstate, Quote) prog" where
  "nfts2meBranch rt cl =
     thenDo getParams (\<lambda>params.
     thenDo (nfts2mePattern1 cl params) (\<lambda>r1.
       case r1 of
         Some q \<Rightarrow> ret q
       | None \<Rightarrow>
           thenDo (nfts2mePattern2 rt cl params) (\<lambda>r2.
             case r2 of
               Some q \<Rightarrow> ret q
             | None \<Rightarrow> nfts2meDefault params)))"

subsection \<open>Drop-claim, ERC1155 variant\<close>

text \<open>Patterns 1 and 2: a no-argument accessor whose non-zero BigInt is the unit price.\<close>

definition thirdwebAccessor :: "client \<Rightarrow> MintParams \<Rightarrow> string \<Rightarrow> (pstate, Quote option) prog" where
  "thirdwebAccessor cl params f =
     tryCatch
       (thenDo (read cl (Call (JStr (contractAddress params)) (Inline [] [''uint256'']) f []))
          (\<lambda>price. if truthy price \<and> typeof price = ''bigint'' then
                      thenDo (lift (timesAmount price params)) (\<lambda>mp.
                      thenDo (lift (timesAmount price params)) (\<lambda>tc.
                        ret (Some (quote (Some mp) tc))))
                    else ret None))
       (\<lambda>err. ret None)"

text \<open>Pattern 3: the claim condition of token 0; index 4 holds the price.\<close>

definition thirdwebTokenCondition :: "client \<Rightarrow> MintParams \<Rightarrow> (pstate, Quote option) prog" where
  "thirdwebTokenCondition cl params =
     tryCatch
       (thenDo (read cl (claimConditionByToken (contractAddress params)))
          (\<lambda>cond. case cond of
              JArr xs \<Rightarrow>
                if length xs \<ge> 5 then
                  (case xs ! 4 of
                     JBigInt pricePerToken \<Rightarrow>
                       if pricePerToken > 0 then
                         thenDo (lift (timesAmount (JBigInt pricePerToken) params)) (\<lambda>mp.
                         thenDo (lift (timesAmount (JBigInt pricePerToken) params)) (\<lambda>tc.
                           ret (Some (quote (Some mp) tc))))
                       else ret None
                   | _ \<Rightarrow> ret None)
                else ret None
            | _ \<Rightarrow> ret None))
       (\<lambda>err. ret None)"

text \<open>Pattern 4 and the end of the branch: the price of the known contract, outside any
  \<^verbatim>\<open>try\<close>, else free.\<close>

definition thirdwebKnownOrFree :: "MintParams \<Rightarrow> (pstate, Quote) prog" where
  "thirdwebKnownOrFree params =
     (if toLowerCase (contractAddress params) = overrideAddress then
        thenDo (lift (amountBigInt params)) (\<lambda>a1.
        thenDo (lift (amountBigInt params)) (\<lambda>a2.
          ret (quote (Some (JBigInt (1000000000000000000 * a1))) (JBigInt (1000000000000000000 * a2)))))
      else ret (quote (Some (JBigInt 0)) (JBigInt 0)))"

definition thirdweb1155Branch :: "client \<Rightarrow> (pstate, Quote) prog" where
  "thirdweb1155Branch cl =
     thenDo getParams (\<lambda>params.
     thenDo (thirdwebAccessor cl params ''price'') (\<lambda>r1.
       case r1 of Some q \<Rightarrow> ret q | None \<Rightarrow>
     thenDo (thirdwebAccessor cl params ''mintPrice'') (\<lambda>r2.
       case r2 of Some q \<Rightarrow> ret q | None \<Rightarrow>
     thenDo (thirdwebTokenCondition cl params) (\<lambda>r3.
       case r3 of Some q \<Rightarrow> ret q | None \<Rightarrow>
     thirdwebKnownOrFree params))))"

subsection \<open>Drop-claim, ERC721 variant\<close>

definition claimConditionCall :: "MintParams \<Rightarrow> call" where
  "claimConditionCall params =
     Call (JStr (contractAddress params)) THIRDWEB_OPENEDITONERC721_ABI ''claimCondition'' []"

definition getClaimConditionByIdCall :: "MintParams \<Rightarrow> jsval \<Rightarrow> call" where
  "getClaimConditionByIdCall params activeConditionId =
     Call (JStr (contractAddress params)) THIRDWEB_OPENEDITONERC721_ABI ''getClaimConditionById''
       [activeConditionId]"

text \<open>The part of the \<^verbatim>\<open>try\<close> block after the condition has been fetched.\<close>

definition thirdweb721Condition ::
  "runtime \<Rightarrow> standards \<Rightarrow> client \<Rightarrow> MintParams \<Rightarrow> jsval \<Rightarrow> jsval \<Rightarrow> (pstate, Quote) prog" where
  "thirdweb721Condition rt std cl params activeConditionId condition =
     (if \<not> truthy condition \<or> typeof condition \<noteq> ''object'' then
        raise (Error ''Invalid claim condition response'')
      else
        (let pricePerToken = getField condition ''pricePerToken'';
             currency = getField condition ''currency''
         in thenDo (setClaimCondition
                      \<lparr> cc_id = toNumber rt activeConditionId,
                        cc_pricePerToken = pricePerToken,
                        cc_currency = currency,
                        cc_maxClaimableSupply = getField condition ''maxClaimableSupply'',
                        cc_merkleRoot = getField condition ''merkleRoot'',
                        cc_startTimestamp = toNumber rt (getField condition ''startTimestamp''),
                        cc_quantityLimitPerWallet = getField condition ''quantityLimitPerWallet'' \<rparr>) (\<lambda>u.
            thenDo (if truthy currency then
                      thenDo (lift (jsToLowerCase currency)) (\<lambda>lc.
                        ret (lc \<noteq> toLowerCase (THIRDWEB_NATIVE_TOKEN std)))
                    else ret False) (\<lambda>isERC20.
              if isERC20 then
                thenDo (erc20Batch rt cl currency (recipient params) (JStr (contractAddress params))) (\<lambda>details.
                  ret \<lparr> mintPrice = Some pricePerToken, erc20Details = Some details,
                        totalCost = JBigInt 0, q_claim = None \<rparr>)
              else
                thenDo (lift (timesAmount pricePerToken params)) (\<lambda>tc.
                  ret (quote (Some pricePerToken) tc))))))"

text \<open>The \<^verbatim>\<open>try\<close> block.\<close>

definition thirdweb721Body :: "runtime \<Rightarrow> standards \<Rightarrow> client \<Rightarrow> (pstate, Quote) prog" where
  "thirdweb721Body rt std cl =
     thenDo getParams (\<lambda>params.
     thenDo (read cl (claimConditionCall params)) (\<lambda>cond.
       case cond of
         JArr [currentStartId, count] \<Rightarrow>
           if count = JBigInt 0 then ret (quote (Some (JBigInt 0)) (JBigInt 0))
           else
             thenDo (lift (jsAdd rt currentStartId count)) (\<lambda>sm.
             thenDo (lift (subBigInt sm 1)) (\<lambda>activeConditionId.
             thenDo (read cl (getClaimConditionByIdCall params activeConditionId)) (\<lambda>condition.
               thirdweb721Condition rt std cl params activeConditionId condition)))
       | _ \<Rightarrow> raise (Error ''Invalid claim condition response from contract'')))"

definition thirdweb721Branch :: "runtime \<Rightarrow> standards \<Rightarrow> client \<Rightarrow> (pstate, Quote) prog" where
  "thirdweb721Branch rt std cl =
     tryCatch (thirdweb721Body rt std cl) (\<lambda>err. ret (quote None (JBigInt 0)))"

subsection \<open>Every other provider\<close>

text \<open>The candidate accessors of the configuration, in order; every throw inside one
  round moves on to the next name.\<close>

fun genericLoop :: "client \<Rightarrow> ProviderConfig \<Rightarrow> MintParams \<Rightarrow> string list \<Rightarrow> (pstate, Quote) prog" where
  "genericLoop cl config params [] = ret (quote (Some (JBigInt 0)) (JBigInt 0))"
| "genericLoop cl config params (f # fs) =
     thenDo (tryCatch
               (thenDo (if requiresAmountParam (priceDiscovery config) = Some True then
                          thenDo (lift (amountBigInt params)) (\<lambda>a. ret [JBigInt a])
                        else ret []) (\<lambda>args.
                thenDo (case abis (priceDiscovery config) of
                          [] \<Rightarrow> raise TypeError
                        | a # rest \<Rightarrow> read cl (Call (JStr (contractAddress params)) a f args)) (\<lambda>price.
                  if price \<noteq> JUndefined then
                    thenDo (lift (calculateValue (mintConfig config) price params)) (\<lambda>tc.
                      ret (Some (quote (Some price) tc)))
                  else ret None)))
               (\<lambda>err. ret None))
       (\<lambda>r. case r of Some q \<Rightarrow> ret q | None \<Rightarrow> genericLoop cl config params fs)"

subsection \<open>The resolver\<close>

definition fetchPriceData :: "runtime \<Rightarrow> standards \<Rightarrow> client \<Rightarrow> (pstate, Quote) prog" where
  "fetchPriceData rt std cl =
     thenDo getParams (\<lambda>params.
     thenDo getInfo (\<lambda>contractInfo.
       (let config = getProviderConfig std (info_provider contractInfo) (Some contractInfo) None
        in if info_provider contractInfo = Manifold \<and> optTruthy (extensionAddress contractInfo) then
             manifoldBranch rt cl
           else if info_provider contractInfo = Nfts2me then nfts2meBranch rt cl
           else if info_provider contractInfo = Thirdweb then
             (if truthy (isERC1155 contractInfo) then thirdweb1155Branch cl
              else thirdweb721Branch rt std cl)
           else genericLoop cl config params (functionNames (priceDiscovery config)))))"


section \<open>Notions and data for the properties\<close>

text \<open>
  The predicates in which the properties are stated, and the data of the concrete runs.
  The sample runtime converts only the strings and numbers that the runs use (a BigInt
  of magnitude up to \<open>2\<^sup>5\<^sup>3\<close> is a double as it stands); the sample constants are the
  well-known values of the constants that \<^verbatim>\<open>~/lib/nft-standards\<close> exports.
\<close>

definition sampleRuntime :: runtime where
  "sampleRuntime =
     \<lparr> StringToBigInt = (\<lambda>s. if s = ''1'' then Some 1 else if s = ''7'' then Some 7 else None),
       StringToNumber = (\<lambda>s. NaN),
       NumberToString = (\<lambda>n. ''NaN''),
       BigIntToString = (\<lambda>i. if i = 42 then ''42'' else ''0''),
       parseInt = (\<lambda>s. if s = ''7'' then Finite 7 else NaN),
       BigIntToNumber = (\<lambda>i. if \<bar>i\<bar> \<le> 9007199254740992 then Finite (of_int i) else NaN),
       NumberAdd = (\<lambda>a b. NaN) \<rparr>"

definition sampleStandards :: standards where
  "sampleStandards =
     \<lparr> manifoldExtension = ''0x26BBEA7803DcAc346D5F5f135b57Cf2c752A02bE'',
       THIRDWEB_NATIVE_TOKEN = ''0xEeeeeEeeeEeEeeEeEeEeeEEEeeeeEeeeeeeeEEeE'',
       INTERFACE_ID_ERC721 = ''0x80ac58cd'',
       INTERFACE_ID_ERC1155 = ''0xd9b67a26'' \<rparr>"

definition failingClient :: client where
  "failingClient h c = None"

definition sampleParams :: MintParams where
  "sampleParams =
     \<lparr> contractAddress = ''0x1111111111111111111111111111111111111111'', chainId = Finite 1,
       provider = None, amount = None, instanceId = None, tokenId = None,
       recipient = None, merkleProof = None \<rparr>"

text \<open>The page of this repository mints from the known contract, written in mixed case.\<close>

definition knownContract :: string where
  "knownContract = ''0xcd0Bafa3BBa1b32869343fB69D2778daF4412181''"

text \<open>
  The native-currency test of the drop-claim ERC721 branch, read off its condition
  \<^verbatim>\<open>currency && currency.toLowerCase() !== THIRDWEB_NATIVE_TOKEN.toLowerCase()\<close>: the
  currency is native when it is falsy or is the sentinel up to letter case.
\<close>

definition isNative :: "standards \<Rightarrow> jsval \<Rightarrow> bool" where
  "isNative std currency =
     (case currency of
        JStr c \<Rightarrow> c = [] \<or> toLowerCase c = toLowerCase (THIRDWEB_NATIVE_TOKEN std)
      | v \<Rightarrow> \<not> truthy v)"

text \<open>A computation only ever appends to the list of calls made.\<close>

definition grows :: "(pstate, 'a) prog \<Rightarrow> bool" where
  "grows m = (\<forall>s r s'. m s = (r, s') \<longrightarrow> (\<exists>rest. calls s' = calls s @ rest))"

text \<open>A contract whose unit price accessor answers zero and which has nothing else.\<close>

definition freeMintClient :: client where
  "freeMintClient h c = (if c_functionName c = ''mintPrice'' then Some (JBigInt 0) else None)"

text \<open>An ERC721 drop with claim conditions 5, 6 and 7, the last one priced at 1000 in the
  native currency.\<close>

definition dropCondition :: jsval where
  "dropCondition =
     JObj [(''startTimestamp'', JBigInt 0), (''maxClaimableSupply'', JBigInt 100),
           (''supplyClaimed'', JBigInt 0), (''quantityLimitPerWallet'', JBigInt 10),
           (''merkleRoot'', JStr zeroBytes32), (''pricePerToken'', JBigInt 1000),
           (''currency'', JStr ''0xEeeeeEeeeEeEeeEeEeEeeEEEeeeeEeeeeeeeEEeE''),
           (''metadata'', JStr [])]"

definition dropState :: pstate where
  "dropState =
     \<lparr> calls = [], st_params = sampleParams, st_info = basicInfo Thirdweb (JBool False) (JBool True),
       st_detached = [], st_unhandled = [] \<rparr>"

definition dropClient :: client where
  "dropClient h c =
     (if c_functionName c = ''claimCondition'' then Some (JArr [JBigInt 5, JBigInt 3])
      else if c_functionName c = ''getClaimConditionById'' \<and> c_args c = [JBigInt 7]
        then Some dropCondition
      else None)"

text \<open>A computation that cannot throw: from every state it returns a value.\<close>

definition noThrow :: "('s, 'a) prog \<Rightarrow> bool" where
  "noThrow m = (\<forall>s. \<exists>x s'. m s = (Inr x, s'))"

text \<open>The value a probe of the first batch contributes: the answer, or the default of
  its \<^verbatim>\<open>catch\<close> when the call fails.\<close>

definition answerOr :: "jsval option \<Rightarrow> jsval \<Rightarrow> jsval" where
  "answerOr r d = (case r of None \<Rightarrow> d | Some v \<Rightarrow> v)"

definition batch721 :: "standards \<Rightarrow> client \<Rightarrow> string \<Rightarrow> call list \<Rightarrow> jsval" where
  "batch721 std cl addr tr = answerOr (cl tr (erc721Probe std addr)) (JBool False)"

definition batch1155 :: "standards \<Rightarrow> client \<Rightarrow> string \<Rightarrow> call list \<Rightarrow> jsval" where
  "batch1155 std cl addr tr =
     answerOr (cl (tr @ [erc721Probe std addr]) (erc1155Probe std addr)) (JBool False)"

definition batchExtensions :: "standards \<Rightarrow> client \<Rightarrow> string \<Rightarrow> call list \<Rightarrow> jsval" where
  "batchExtensions std cl addr tr =
     answerOr (cl (tr @ [erc721Probe std addr, erc1155Probe std addr]) (extensionsProbe addr)) JNull"

text \<open>The answer to the extensions accessor has the shape its ABI gives it: it is an
  array, or it has no positive length (null after a failed call, for one).\<close>

definition extensionsListed :: "runtime \<Rightarrow> jsval \<Rightarrow> bool" where
  "extensionsListed rt extensions =
     (isArray extensions \<or> \<not> (truthy extensions \<and> gtZero rt (jsLength extensions)))"

text \<open>The calls made once the three probes of the first batch are out.\<close>

definition afterBatch :: "standards \<Rightarrow> string \<Rightarrow> call list \<Rightarrow> call list" where
  "afterBatch std addr tr = tr @ [erc721Probe std addr, erc1155Probe std addr, extensionsProbe addr]"

text \<open>
  No heuristic of the cascade matches: the extensions list is absent or empty, the
  version query gives nothing, the ERC721 pattern does not match or is not tried (the
  ERC721 probe was not truthy), and no ERC1155 pattern matches or none is tried (the
  ERC1155 probe was not truthy). Each step is run on the calls made before it.
\<close>

definition noHeuristicMatches :: "runtime \<Rightarrow> standards \<Rightarrow> client \<Rightarrow> string \<Rightarrow> call list \<Rightarrow> bool" where
  "noHeuristicMatches rt std cl addr tr =
     (let extensions = batchExtensions std cl addr tr;
          step5 = n2mCheck cl addr (afterBatch std addr tr);
          step6 = (if truthy (batch721 std cl addr tr) then erc721Pattern cl addr else ret False) (snd step5);
          step7 = (if truthy (batch1155 std cl addr tr) then erc1155Patterns cl addr else ret False) (snd step6)
      in \<not> (truthy extensions \<and> gtZero rt (jsLength extensions)) \<and>
         fst step5 = Inr False \<and> fst step6 = Inr False \<and> fst step7 = Inr False)"

text \<open>A probe that does not match, whatever was called before.\<close>

definition misses :: "(call list, bool) prog \<Rightarrow> bool" where
  "misses m = (\<forall>tr. \<exists>tr'. m tr = (Inr False, tr'))"

text \<open>A contract that supports the ERC721 interface and answers nothing else.\<close>

definition bare721Client :: client where
  "bare721Client h c =
     (if c = erc721Probe sampleStandards (contractAddress sampleParams) then Some (JBool True) else None)"

text \<open>A computation that leaves the caller's \<^verbatim>\<open>params\<close> object as it is.\<close>

definition keepsParams :: "(pstate, 'a) prog \<Rightarrow> bool" where
  "keepsParams m = (\<forall>s r s'. m s = (r, s') \<longrightarrow> st_params s' = st_params s)"

text \<open>A claim paid in the native currency, and an extension that knows it under
  instance 42 and token 7 and charges a fee of 500.\<close>

definition nativeClaim :: jsval where
  "nativeClaim =
     JObj [(''total'', JNum (Finite 0)), (''totalMax'', JNum (Finite 100)),
           (''walletMax'', JNum (Finite 1)), (''startDate'', JNum (Finite 0)),
           (''endDate'', JNum (Finite 0)), (''merkleRoot'', JStr zeroBytes32),
           (''cost'', JBigInt 1000), (''erc20'', JStr zeroAddress)]"

definition tokenClaimClient :: client where
  "tokenClaimClient h c =
     (if c_functionName c = ''MINT_FEE'' then Some (JBigInt 500)
      else if c_functionName c = ''getClaimForToken'' then Some (JArr [JBigInt 42, nativeClaim])
      else None)"

definition manifoldInfo :: NFTContractInfo where
  "manifoldInfo =
     \<lparr> info_provider = Manifold, isERC1155 = JBool True, isERC721 = JBool False,
       extensionAddress = Some (JStr ''0x26BBEA7803DcAc346D5F5f135b57Cf2c752A02bE''),
       hasManifoldExtension = Some True, claim = None, claimCondition = None \<rparr>"

text \<open>A request by token id 7 against that extension, and the two calls it leads to.\<close>

definition tokenState :: pstate where
  "tokenState = \<lparr> calls = [], st_params = sampleParams\<lparr>tokenId := Some ''7''\<rparr>, st_info = manifoldInfo,
       st_detached = [], st_unhandled = [] \<rparr>"

definition tokenFeeCall :: call where
  "tokenFeeCall = Call (JStr ''0x26BBEA7803DcAc346D5F5f135b57Cf2c752A02bE'') MANIFOLD_ERC1155_EXTENSION_ABI ''MINT_FEE'' []"

definition tokenLookupCall :: call where
  "tokenLookupCall = Call (JStr ''0x26BBEA7803DcAc346D5F5f135b57Cf2c752A02bE'') MANIFOLD_ERC1155_EXTENSION_ABI
      ''getClaimForToken'' [JStr ''0x1111111111111111111111111111111111111111'', JBigInt 7]"

text \<open>The two fee reads of the extension, under the ABI of the detected standard and
  under the other one.\<close>

definition primaryFeeCall :: "NFTContractInfo \<Rightarrow> call" where
  "primaryFeeCall ci = Call (extAddr ci) (primaryABI ci) ''MINT_FEE'' []"

definition fallbackFeeCall :: "NFTContractInfo \<Rightarrow> call" where
  "fallbackFeeCall ci = Call (extAddr ci) (fallbackABI ci) ''MINT_FEE'' []"

text \<open>The id by which the claim is looked up, if the request has one, is an integer
  literal: \<^verbatim>\<open>BigInt\<close> accepts it.\<close>

definition claimIdAccepted :: "runtime \<Rightarrow> MintParams \<Rightarrow> bool" where
  "claimIdAccepted rt p =
     (if strTruthy (instanceId p) then StringToBigInt rt (strOf (instanceId p)) \<noteq> None
      else if strTruthy (tokenId p) then StringToBigInt rt (strOf (tokenId p)) \<noteq> None
      else True)"

text \<open>A computation that leaves no promise behind and lets no rejection go unhandled.\<close>

definition quiet :: "(pstate, 'a) prog \<Rightarrow> bool" where
  "quiet m = (\<forall>s r s'. m s = (r, s') \<longrightarrow>
                st_detached s' = st_detached s \<and> st_unhandled s' = st_unhandled s)"

text \<open>A self-deploy request with the default amount.\<close>

definition nfts2meState :: pstate where
  "nfts2meState = \<lparr> calls = [], st_params = sampleParams, st_info = basicInfo Nfts2me (JBool False) (JBool True),
       st_detached = [], st_unhandled = [] \<rparr>"

text \<open>An extension-claim request whose instance id is no integer literal, and the two
  fee reads of the extension under its two ABIs.\<close>

definition badIdState :: pstate where
  "badIdState = \<lparr> calls = [], st_params = sampleParams\<lparr>instanceId := Some ''abc''\<rparr>, st_info = manifoldInfo,
       st_detached = [], st_unhandled = [] \<rparr>"

definition manifoldFeePrimary :: call where
  "manifoldFeePrimary = Call (JStr ''0x26BBEA7803DcAc346D5F5f135b57Cf2c752A02bE'') MANIFOLD_ERC1155_EXTENSION_ABI ''MINT_FEE'' []"

definition manifoldFeeFallback :: call where
  "manifoldFeeFallback = Call (JStr ''0x26BBEA7803DcAc346D5F5f135b57Cf2c752A02bE'') MANIFOLD_ERC721_EXTENSION_ABI ''MINT_FEE'' []"

text \<open>A claim paid in an ERC20 token that reports 300 decimals, on an extension whose fee
  is 7, requested by instance id 7.\<close>

definition tokenAddress :: string where
  "tokenAddress = ''0x2222222222222222222222222222222222222222''"

definition erc20ClaimFields :: "(string \<times> jsval) list" where
  "erc20ClaimFields =
     [(''total'', JNum (Finite 0)), (''totalMax'', JNum (Finite 100)),
      (''walletMax'', JNum (Finite 1)), (''startDate'', JNum (Finite 0)),
      (''endDate'', JNum (Finite 0)), (''merkleRoot'', JStr zeroBytes32),
      (''cost'', JBigInt 1000), (''erc20'', JStr tokenAddress)]"

definition erc20Claim :: jsval where
  "erc20Claim = JObj erc20ClaimFields"

definition getClaimCall :: call where
  "getClaimCall = Call (JStr ''0x26BBEA7803DcAc346D5F5f135b57Cf2c752A02bE'') MANIFOLD_ERC1155_EXTENSION_ABI
      ''getClaim'' [JStr ''0x1111111111111111111111111111111111111111'', JBigInt 7]"



text \<open>A request by instance id 7 against the extension, and the lookup by instance
  under the other ABI.\<close>

definition instanceState :: pstate where
  "instanceState =
     \<lparr> calls = [], st_params = sampleParams\<lparr>instanceId := Some ''7''\<rparr>, st_info = manifoldInfo,
       st_detached = [], st_unhandled = [] \<rparr>"

definition getClaimFallbackCall :: call where
  "getClaimFallbackCall = Call (JStr ''0x26BBEA7803DcAc346D5F5f135b57Cf2c752A02bE'') MANIFOLD_ERC721_EXTENSION_ABI
      ''getClaim'' [JStr ''0x1111111111111111111111111111111111111111'', JBigInt 7]"




text \<open>The same claim requested by token id 7: the lookup by token answers the pair of the
  instance id 42 and the claim.\<close>

definition badDecimalsTokenClient :: client where
  "badDecimalsTokenClient h c =
     (if c_functionName c = ''MINT_FEE'' then Some (JBigInt 7)
      else if c_functionName c = ''getClaimForToken'' then Some (JArr [JBigInt 42, erc20Claim])
      else if c_functionName c = ''symbol'' then Some (JStr ''TKN'')
      else if c_functionName c = ''decimals'' then Some (JNum (Finite 300))
      else None)"

text \<open>An extension that answers its fee once, at the first call, and knows the claim; the
  token contract does not answer.\<close>

definition fadingClient :: client where
  "fadingClient h c =
     (if c_functionName c = ''MINT_FEE'' then (if h = [] then Some (JBigInt 7) else None)
      else if c_functionName c = ''getClaim'' then Some erc20Claim
      else None)"

text \<open>A request for one and a half tokens.\<close>

definition fractionalParams :: MintParams where
  "fractionalParams = sampleParams\<lparr>amount := Some (Finite (3 / 2))\<rparr>"

section \<open>Properties\<close>

lemma ret_apply [simp]: "ret x s = (Inr x, s)"
  by (simp add: ret_def)

lemma raise_apply [simp]: "raise e s = (Inl e, s)"
  by (simp add: raise_def)

lemma lift_apply [simp]: "lift r s = (r, s)"
  by (simp add: lift_def)

lemma knownContract_lower: "toLowerCase knownContract = overrideAddress"
  by (simp add: toLowerCase_def lowerChar_def overrideAddress_def knownContract_def)

lemma sampleParams_lower: "toLowerCase (contractAddress sampleParams) \<noteq> overrideAddress"
  by (simp add: toLowerCase_def lowerChar_def overrideAddress_def sampleParams_def)

subsection \<open>The validator\<close>

text \<open>
  C8. For an extension-claim (manifold) classification and a request that supplies
  neither an instance id nor a token id, the validator returns a value with
  \<open>isValid = False\<close>, whose \<open>missingParams\<close> holds the combined requirement
  \<^verbatim>\<open>instanceId or tokenId\<close> and whose \<open>errors\<close> holds the message about it. The validator
  is a total function: it has no failing path.
\<close>

theorem validateParameters_manifold_missing_ids:
  assumes "info_provider ci = Manifold"
    and "\<not> strTruthy (instanceId p)"
    and "\<not> strTruthy (tokenId p)"
  shows "\<not> isValid (validateParameters rt std now p ci)
       \<and> ''instanceId or tokenId'' \<in> set (missingParams (validateParameters rt std now p ci))
       \<and> manifoldMissingMessage \<in> set (errors (validateParameters rt std now p ci))"
  using assms by (simp add: validateParameters_def Let_def)

theorem validateParameters_manifold_missing_ids_witness:
  "validateParameters sampleRuntime sampleStandards 0 sampleParams
     (basicInfo Manifold (JBool True) (JBool False))
   = \<lparr> isValid = False, missingParams = [''instanceId or tokenId''],
       errors = [manifoldMissingMessage] \<rparr>"
proof -
  have "info_provider (basicInfo Manifold (JBool True) (JBool False)) = Manifold"
    by (simp add: basicInfo_def)
  moreover have "\<not> strTruthy (instanceId sampleParams)" "\<not> strTruthy (tokenId sampleParams)"
    by (simp_all add: sampleParams_def strTruthy_def)
  ultimately have "\<not> isValid (validateParameters sampleRuntime sampleStandards 0 sampleParams
                     (basicInfo Manifold (JBool True) (JBool False)))"
    using validateParameters_manifold_missing_ids by blast
  then show ?thesis
    by (simp add: validateParameters_def Let_def basicInfo_def sampleParams_def strTruthy_def
        PROVIDER_CONFIGS_def paramTruthy_def)
qed

subsection \<open>The detector: short circuits\<close>

text \<open>
  C3. A request whose contract address is the curated override address (compared in
  lower case) is classified at once: the detector returns the drop-claim ERC1155
  classification and the list of remote calls is unchanged, whatever the client would
  answer and whatever provider the caller named.
\<close>

theorem detectNFTProvider_override_no_call:
  "toLowerCase (contractAddress p) = overrideAddress \<Longrightarrow>
   detectNFTProvider rt std cl p tr = (Inr (basicInfo Thirdweb (JBool True) (JBool False)), tr)"
  by (simp add: detectNFTProvider_def)

theorem detectNFTProvider_override_no_call_witness:
  "toLowerCase (contractAddress (sampleParams\<lparr>contractAddress := knownContract\<rparr>)) = overrideAddress
   \<and> detectNFTProvider sampleRuntime sampleStandards failingClient
        (sampleParams\<lparr>contractAddress := knownContract\<rparr>) []
      = (Inr (basicInfo Thirdweb (JBool True) (JBool False)), [])"
  using detectNFTProvider_override_no_call
          [of "sampleParams\<lparr>contractAddress := knownContract\<rparr>" sampleRuntime sampleStandards
              failingClient "[]"]
  by (simp add: knownContract_lower)

text \<open>
  C10, as stated, fails: a request that names the provider \<^verbatim>\<open>generic\<close> for the override
  address gets the override's classification, whose ERC1155 flag is true.
\<close>

theorem detectNFTProvider_specified_counterexample:
  "provider (sampleParams\<lparr>contractAddress := knownContract, provider := Some Generic\<rparr>) = Some Generic
   \<and> Generic \<noteq> Manifold
   \<and> isERC1155 (projr (fst (detectNFTProvider sampleRuntime sampleStandards failingClient
        (sampleParams\<lparr>contractAddress := knownContract, provider := Some Generic\<rparr>) []))) = JBool True"
  by (simp add: detectNFTProvider_def knownContract_lower basicInfo_def)

text \<open>
  C10, amended. For a request whose address is not the override address and whose
  caller names a provider other than manifold, the detector returns that provider with
  both flags false and makes no remote call.
\<close>

theorem detectNFTProvider_specified_short_circuit:
  "provider p = Some sp \<Longrightarrow> sp \<noteq> Manifold \<Longrightarrow>
   toLowerCase (contractAddress p) \<noteq> overrideAddress \<Longrightarrow>
   detectNFTProvider rt std cl p tr = (Inr (basicInfo sp (JBool False) (JBool False)), tr)"
  by (simp add: detectNFTProvider_def Let_def)

theorem detectNFTProvider_specified_short_circuit_witness:
  "provider (sampleParams\<lparr>provider := Some Nfts2me\<rparr>) = Some Nfts2me \<and> Nfts2me \<noteq> Manifold
   \<and> toLowerCase (contractAddress (sampleParams\<lparr>provider := Some Nfts2me\<rparr>)) \<noteq> overrideAddress
   \<and> detectNFTProvider sampleRuntime sampleStandards failingClient
        (sampleParams\<lparr>provider := Some Nfts2me\<rparr>) []
      = (Inr (basicInfo Nfts2me (JBool False) (JBool False)), [])"
  using detectNFTProvider_specified_short_circuit
          [of "sampleParams\<lparr>provider := Some Nfts2me\<rparr>" Nfts2me sampleRuntime sampleStandards
              failingClient "[]"]
        sampleParams_lower
  by simp


subsection \<open>Running computations\<close>

lemma thenDo_Inr [simp]: "m s = (Inr x, s') \<Longrightarrow> thenDo m f s = f x s'"
  by (simp add: thenDo_def)

lemma thenDo_Inl [simp]: "m s = (Inl e, s') \<Longrightarrow> thenDo m f s = (Inl e, s')"
  by (simp add: thenDo_def)

lemma tryCatch_Inr [simp]: "m s = (Inr x, s') \<Longrightarrow> tryCatch m h s = (Inr x, s')"
  by (simp add: tryCatch_def)

lemma tryCatch_Inl [simp]: "m s = (Inl e, s') \<Longrightarrow> tryCatch m h s = h e s'"
  by (simp add: tryCatch_def)

lemma settle_apply [simp]: "m s = (r, s') \<Longrightarrow> settle m s = (Inr r, s')"
  by (simp add: settle_def)

lemma read_Some [simp]:
  "cl (calls s) c = Some v \<Longrightarrow> read cl c s = (Inr v, s\<lparr>calls := calls s @ [c]\<rparr>)"
  by (simp add: read_def onCalls_def readContract_def)

lemma read_None [simp]:
  "cl (calls s) c = None \<Longrightarrow> read cl c s = (Inl CallFailed, s\<lparr>calls := calls s @ [c]\<rparr>)"
  by (simp add: read_def onCalls_def readContract_def)

lemma getParams_apply [simp]: "getParams s = (Inr (st_params s), s)"
  by (simp add: getParams_def)

lemma getInfo_apply [simp]: "getInfo s = (Inr (st_info s), s)"
  by (simp add: getInfo_def)

subsection \<open>Calls are only appended\<close>

lemma growsI: "(\<And>s r s'. m s = (r, s') \<Longrightarrow> \<exists>rest. calls s' = calls s @ rest) \<Longrightarrow> grows m"
  by (simp add: grows_def)

lemma growsD: "grows m \<Longrightarrow> m s = (r, s') \<Longrightarrow> \<exists>rest. calls s' = calls s @ rest"
  by (simp add: grows_def)

lemma grows_ret [simp]: "grows (ret x)"
  by (simp add: grows_def)

lemma grows_raise [simp]: "grows (raise e)"
  by (simp add: grows_def)

lemma grows_lift [simp]: "grows (lift r)"
  by (simp add: grows_def)

lemma grows_read [simp]: "grows (read cl c)"
  by (auto simp add: grows_def read_def onCalls_def readContract_def)

lemma grows_setClaimCondition [simp]: "grows (setClaimCondition c)"
  by (auto simp add: grows_def setClaimCondition_def)

lemma grows_thenDo:
  assumes "grows m" and "\<And>x. grows (f x)"
  shows "grows (thenDo m f)"
proof (rule growsI)
  fix s r s'
  assume run: "thenDo m f s = (r, s')"
  obtain r1 s1 where m: "m s = (r1, s1)" by (cases "m s")
  from growsD[OF assms(1) m] obtain rest1 where c1: "calls s1 = calls s @ rest1" by blast
  show "\<exists>rest. calls s' = calls s @ rest"
  proof (cases r1)
    case (Inl e)
    with run m have "s' = s1" by simp
    with c1 show ?thesis by blast
  next
    case (Inr x)
    with run m have "f x s1 = (r, s')" by simp
    from growsD[OF assms(2) this] obtain rest2 where "calls s' = calls s1 @ rest2" by blast
    with c1 show ?thesis by simp
  qed
qed

lemma grows_tryCatch:
  assumes "grows m" and "\<And>e. grows (h e)"
  shows "grows (tryCatch m h)"
proof (rule growsI)
  fix s r s'
  assume run: "tryCatch m h s = (r, s')"
  obtain r1 s1 where m: "m s = (r1, s1)" by (cases "m s")
  from growsD[OF assms(1) m] obtain rest1 where c1: "calls s1 = calls s @ rest1" by blast
  show "\<exists>rest. calls s' = calls s @ rest"
  proof (cases r1)
    case (Inr x)
    with run m have "s' = s1" by simp
    with c1 show ?thesis by blast
  next
    case (Inl e)
    with run m have "h e s1 = (r, s')" by simp
    from growsD[OF assms(2) this] obtain rest2 where "calls s' = calls s1 @ rest2" by blast
    with c1 show ?thesis by simp
  qed
qed

lemma grows_settle: "grows m \<Longrightarrow> grows (settle m)"
  by (auto simp add: grows_def settle_def split: prod.splits)

lemma grows_orDefault: "grows m \<Longrightarrow> grows (orDefault m d)"
  unfolding orDefault_def by (rule grows_tryCatch) simp_all

lemma grows_if: "grows a \<Longrightarrow> grows b \<Longrightarrow> grows (if c then a else b)"
  by simp

lemma grows_erc20Batch [simp]: "grows (erc20Batch rt cl token rcpt spender)"
  unfolding erc20Batch_def
  by (intro grows_thenDo grows_settle grows_orDefault grows_if grows_read grows_ret grows_lift)

lemma grows_thirdweb721Condition [simp]: "grows (thirdweb721Condition rt std cl params aid cond)"
  unfolding thirdweb721Condition_def Let_def
  by (intro grows_thenDo grows_if grows_erc20Batch grows_setClaimCondition grows_raise grows_ret
        grows_lift)

subsection \<open>Self-deploy pricing\<close>

lemma nfts2me_unit_price:
  assumes "info_provider (st_info s) = Nfts2me" and "amountBigInt (st_params s) = Inr a"
    and "cl (calls s) (mintPriceCall (st_params s)) = Some (JBigInt price)"
  shows "fetchPriceData rt std cl s =
          (Inr (quote (Some (JBigInt price)) (JBigInt (price * a))),
           s\<lparr>calls := calls s @ [mintPriceCall (st_params s)]\<rparr>)"
  using assms
  by (simp add: fetchPriceData_def nfts2meBranch_def nfts2mePattern1_def timesAmount_def Let_def)

lemma nfts2me_paired_fees:
  assumes "info_provider (st_info s) = Nfts2me" and "amountBigInt (st_params s) = Inr a"
    and "cl (calls s) (mintPriceCall (st_params s)) = None"
    and "cl (calls s @ [mintPriceCall (st_params s)]) (mintFeeCall (st_params s) a) = Some (JBigInt fee)"
    and "cl (calls s @ [mintPriceCall (st_params s), mintFeeCall (st_params s) a])
           (protocolFeeCall (st_params s)) = Some (JBigInt pf)"
  shows "fetchPriceData rt std cl s =
          (Inr (quote (Some (JBigInt fee)) (JBigInt (fee + pf * a))),
           s\<lparr>calls := calls s @ [mintPriceCall (st_params s), mintFeeCall (st_params s) a,
                                 protocolFeeCall (st_params s)]\<rparr>)"
  using assms
  by (simp add: fetchPriceData_def nfts2meBranch_def nfts2mePattern1_def nfts2mePattern2_def
        timesAmount_def Let_def jsAdd_def)

lemma nfts2me_default_fees:
  assumes "info_provider (st_info s) = Nfts2me" and "amountBigInt (st_params s) = Inr a"
    and "cl (calls s) (mintPriceCall (st_params s)) = None"
    and "cl (calls s @ [mintPriceCall (st_params s)]) (mintFeeCall (st_params s) a) = None \<or>
         cl (calls s @ [mintPriceCall (st_params s), mintFeeCall (st_params s) a])
           (protocolFeeCall (st_params s)) = None"
  shows "fetchPriceData rt std cl s =
          (Inr (quote (Some (JBigInt (100000000000000 * a))) (JBigInt (200000000000000 * a))),
           s\<lparr>calls := calls s @ [mintPriceCall (st_params s), mintFeeCall (st_params s) a,
                                 protocolFeeCall (st_params s)]\<rparr>)"
proof -
  obtain r1 where r1: "cl (calls s @ [mintPriceCall (st_params s)]) (mintFeeCall (st_params s) a) = r1"
    by simp
  obtain r2 where r2: "cl (calls s @ [mintPriceCall (st_params s), mintFeeCall (st_params s) a])
                          (protocolFeeCall (st_params s)) = r2"
    by simp
  show ?thesis
    using assms r1 r2
    by (cases r1; cases r2)
       (simp_all add: fetchPriceData_def nfts2meBranch_def nfts2mePattern1_def nfts2mePattern2_def
          nfts2meDefault_def timesAmount_def Let_def jsAdd_def)
qed

text \<open>
  For a self-deploy (nfts2me) classification and an amount that is absent or whole, \<open>a\<close>
  as a BigInt, the patterns are tried in order and the first success ends the resolution:
  (a) when the unit price accessor \<^verbatim>\<open>mintPrice()\<close> answers a price, the total is the price
  times the amount and \<^verbatim>\<open>mintPrice()\<close> is the only call made, so that patterns (b) and
  (c) are not attempted;
  (b) when it fails and the creator fee and the protocol fee are both answered, the total
  is the creator fee plus the protocol fee times the amount, and the default fees are
  not used;
  (c) when it fails and one of the two fee reads fails, the default fees are used.
\<close>

lemma nfts2me_first_success_whole_amount:
  assumes "info_provider (st_info s) = Nfts2me" and "amountBigInt (st_params s) = Inr a"
  shows "(cl (calls s) (mintPriceCall (st_params s)) = Some (JBigInt price) \<longrightarrow>
            fetchPriceData rt std cl s =
              (Inr (quote (Some (JBigInt price)) (JBigInt (price * a))),
               s\<lparr>calls := calls s @ [mintPriceCall (st_params s)]\<rparr>))
       \<and> (cl (calls s) (mintPriceCall (st_params s)) = None \<and>
          cl (calls s @ [mintPriceCall (st_params s)]) (mintFeeCall (st_params s) a) = Some (JBigInt fee) \<and>
          cl (calls s @ [mintPriceCall (st_params s), mintFeeCall (st_params s) a])
             (protocolFeeCall (st_params s)) = Some (JBigInt pf) \<longrightarrow>
            fetchPriceData rt std cl s =
              (Inr (quote (Some (JBigInt fee)) (JBigInt (fee + pf * a))),
               s\<lparr>calls := calls s @ [mintPriceCall (st_params s), mintFeeCall (st_params s) a,
                                     protocolFeeCall (st_params s)]\<rparr>))
       \<and> (cl (calls s) (mintPriceCall (st_params s)) = None \<and>
          (cl (calls s @ [mintPriceCall (st_params s)]) (mintFeeCall (st_params s) a) = None \<or>
           cl (calls s @ [mintPriceCall (st_params s), mintFeeCall (st_params s) a])
             (protocolFeeCall (st_params s)) = None) \<longrightarrow>
            fetchPriceData rt std cl s =
              (Inr (quote (Some (JBigInt (100000000000000 * a))) (JBigInt (200000000000000 * a))),
               s\<lparr>calls := calls s @ [mintPriceCall (st_params s), mintFeeCall (st_params s) a,
                                     protocolFeeCall (st_params s)]\<rparr>))"
proof (intro conjI impI)
  assume "cl (calls s) (mintPriceCall (st_params s)) = Some (JBigInt price)"
  from nfts2me_unit_price[where cl=cl and s=s, OF assms this]
  show "fetchPriceData rt std cl s =
          (Inr (quote (Some (JBigInt price)) (JBigInt (price * a))),
           s\<lparr>calls := calls s @ [mintPriceCall (st_params s)]\<rparr>)" .
next
  assume h: "cl (calls s) (mintPriceCall (st_params s)) = None \<and>
          cl (calls s @ [mintPriceCall (st_params s)]) (mintFeeCall (st_params s) a) = Some (JBigInt fee) \<and>
          cl (calls s @ [mintPriceCall (st_params s), mintFeeCall (st_params s) a])
             (protocolFeeCall (st_params s)) = Some (JBigInt pf)"
  from nfts2me_paired_fees[where cl=cl and s=s, OF assms conjunct1[OF h] conjunct1[OF conjunct2[OF h]]
         conjunct2[OF conjunct2[OF h]]]
  show "fetchPriceData rt std cl s =
          (Inr (quote (Some (JBigInt fee)) (JBigInt (fee + pf * a))),
           s\<lparr>calls := calls s @ [mintPriceCall (st_params s), mintFeeCall (st_params s) a,
                                 protocolFeeCall (st_params s)]\<rparr>)" .
next
  assume h: "cl (calls s) (mintPriceCall (st_params s)) = None \<and>
          (cl (calls s @ [mintPriceCall (st_params s)]) (mintFeeCall (st_params s) a) = None \<or>
           cl (calls s @ [mintPriceCall (st_params s), mintFeeCall (st_params s) a])
             (protocolFeeCall (st_params s)) = None)"
  from nfts2me_default_fees[where cl=cl and s=s, OF assms conjunct1[OF h] conjunct2[OF h]]
  show "fetchPriceData rt std cl s =
          (Inr (quote (Some (JBigInt (100000000000000 * a))) (JBigInt (200000000000000 * a))),
           s\<lparr>calls := calls s @ [mintPriceCall (st_params s), mintFeeCall (st_params s) a,
                                 protocolFeeCall (st_params s)]\<rparr>)" .
qed

text \<open>The example of a free mint: price 0 and amount 3 give the total 0 after one call.\<close>

lemma nfts2me_free_mint_example:
  "fetchPriceData sampleRuntime sampleStandards freeMintClient
     \<lparr> calls = [], st_params = sampleParams\<lparr>amount := Some (Finite 3)\<rparr>,
       st_info = basicInfo Nfts2me (JBool False) (JBool True),
       st_detached = [], st_unhandled = [] \<rparr>
   = (Inr (quote (Some (JBigInt 0)) (JBigInt 0)),
      \<lparr> calls = [mintPriceCall (sampleParams\<lparr>amount := Some (Finite 3)\<rparr>)],
        st_params = sampleParams\<lparr>amount := Some (Finite 3)\<rparr>,
        st_info = basicInfo Nfts2me (JBool False) (JBool True),
       st_detached = [], st_unhandled = [] \<rparr>)"
proof -
  let ?s = "\<lparr> calls = [], st_params = sampleParams\<lparr>amount := Some (Finite 3)\<rparr>,
              st_info = basicInfo Nfts2me (JBool False) (JBool True),
       st_detached = [], st_unhandled = [] \<rparr>"
  have h1: "info_provider (st_info ?s) = Nfts2me"
    by (simp add: basicInfo_def)
  have h2: "amountBigInt (st_params ?s) = Inr 3"
    by (simp add: amountBigInt_def sampleParams_def)
  have h3: "freeMintClient (calls ?s) (mintPriceCall (st_params ?s)) = Some (JBigInt 0)"
    by (simp add: freeMintClient_def mintPriceCall_def)
  note run = nfts2me_first_success_whole_amount[where cl=freeMintClient and s="?s" and a=3
      and price=0 and rt=sampleRuntime and std=sampleStandards, OF h1 h2]
  from mp[OF conjunct1[OF run] h3] show ?thesis by simp
qed

lemma floor_three_halves: "\<lfloor>3 / 2 :: rat\<rfloor> = 1"
  by (rule floor_unique) simp_all

lemma three_halves_no_bigint: "numberToBigInt (Finite (3 / 2)) = Inl RangeError"
  by (simp only: numberToBigInt.simps floor_three_halves) simp

lemma fractional_amount: "amountBigInt fractionalParams = Inl RangeError"
  by (simp add: amountBigInt_def fractionalParams_def three_halves_no_bigint del: numberToBigInt.simps)

text \<open>
  C7 does not hold when the amount is not a whole number. Take a self-deploy contract
  whose unit price accessor \<^verbatim>\<open>mintPrice()\<close> answers 0, and the amount 1.5. Pattern (a) has
  its success, but \<^verbatim>\<open>BigInt(params.amount || 1)\<close> throws inside its \<^verbatim>\<open>try\<close>, so the first
  success does not win: the resolver goes on to pattern (b), which throws at the same
  conversion before it calls anything, and to pattern (c), whose conversion is outside
  any \<^verbatim>\<open>try\<close>. The resolver raises a RangeError instead of returning the total; the only
  call made is \<^verbatim>\<open>mintPrice()\<close>.
\<close>

theorem fetchPriceData_nfts2me_fractional_amount:
  "freeMintClient [] (mintPriceCall fractionalParams) = Some (JBigInt 0)
   \<and> fetchPriceData sampleRuntime sampleStandards freeMintClient
        (nfts2meState\<lparr>st_params := fractionalParams\<rparr>)
      = (Inl RangeError,
         nfts2meState\<lparr>st_params := fractionalParams, calls := [mintPriceCall fractionalParams]\<rparr>)"
  by (simp add: fetchPriceData_def Let_def nfts2meState_def basicInfo_def nfts2meBranch_def
        nfts2mePattern1_def nfts2mePattern2_def nfts2meDefault_def freeMintClient_def
        mintPriceCall_def timesAmount_def fractional_amount)

subsection \<open>Drop-claim pricing, ERC721 variant\<close>

lemma thirdweb721_no_conditions:
  assumes "info_provider (st_info s) = Thirdweb" and "\<not> truthy (isERC1155 (st_info s))"
    and "cl (calls s) (claimConditionCall (st_params s)) = Some (JArr [JBigInt startId, JBigInt 0])"
  shows "fetchPriceData rt std cl s =
           (Inr (quote (Some (JBigInt 0)) (JBigInt 0)),
            s\<lparr>calls := calls s @ [claimConditionCall (st_params s)]\<rparr>)"
  using assms
  by (simp add: fetchPriceData_def Let_def thirdweb721Branch_def thirdweb721Body_def)

lemma thirdweb721_fetches_condition:
  assumes "info_provider (st_info s) = Thirdweb" and "\<not> truthy (isERC1155 (st_info s))"
    and "cl (calls s) (claimConditionCall (st_params s)) = Some (JArr [JBigInt startId, JBigInt cnt])"
    and "cnt \<noteq> 0"
  shows "\<exists>rest. calls (snd (fetchPriceData rt std cl s)) =
           calls s @ [claimConditionCall (st_params s),
                      getClaimConditionByIdCall (st_params s) (JBigInt (startId + cnt - 1))] @ rest"
proof -
  let ?p = "st_params s"
  let ?c1 = "claimConditionCall ?p"
  let ?c2 = "getClaimConditionByIdCall ?p (JBigInt (startId + cnt - 1))"
  let ?s2 = "s\<lparr>calls := calls s @ [?c1, ?c2]\<rparr>"
  let ?h = "\<lambda>err. ret (quote None (JBigInt 0)) :: (pstate, Quote) prog"
  show ?thesis
  proof (cases "cl (calls s @ [?c1]) ?c2")
    case None
    then have "fetchPriceData rt std cl s = (Inr (quote None (JBigInt 0)), ?s2)"
      using assms
      by (simp add: fetchPriceData_def Let_def thirdweb721Branch_def thirdweb721Body_def jsAdd_def)
    then show ?thesis by simp
  next
    case (Some cond)
    then have eq: "fetchPriceData rt std cl s =
        tryCatch (thirdweb721Condition rt std cl ?p (JBigInt (startId + cnt - 1)) cond) ?h ?s2"
      using assms
      by (simp add: fetchPriceData_def Let_def thirdweb721Branch_def thirdweb721Body_def jsAdd_def
            tryCatch_def thenDo_def)
    have "grows (tryCatch (thirdweb721Condition rt std cl ?p (JBigInt (startId + cnt - 1)) cond) ?h)"
      by (rule grows_tryCatch) simp_all
    from growsD[OF this, of ?s2 "fst (fetchPriceData rt std cl s)" "snd (fetchPriceData rt std cl s)"] eq
    obtain rest where "calls (snd (fetchPriceData rt std cl s)) = calls ?s2 @ rest"
      by auto
    then show ?thesis by simp
  qed
qed

lemma thirdweb721_native_price:
  assumes "info_provider (st_info s) = Thirdweb" and "\<not> truthy (isERC1155 (st_info s))"
    and "cl (calls s) (claimConditionCall (st_params s)) = Some (JArr [JBigInt startId, JBigInt cnt])"
    and "cnt \<noteq> 0"
    and "cl (calls s @ [claimConditionCall (st_params s)])
            (getClaimConditionByIdCall (st_params s) (JBigInt (startId + cnt - 1))) = Some cond"
    and "truthy cond" and "typeof cond = ''object''"
    and "getField cond ''pricePerToken'' = JBigInt price"
    and "isNative std (getField cond ''currency'')"
    and "amountBigInt (st_params s) = Inr a"
  shows "fetchPriceData rt std cl s =
           (Inr (quote (Some (JBigInt price)) (JBigInt (price * a))),
            s\<lparr>calls := calls s @ [claimConditionCall (st_params s),
                                  getClaimConditionByIdCall (st_params s) (JBigInt (startId + cnt - 1))],
              st_info := (st_info s)\<lparr>claimCondition := Some
                 \<lparr> cc_id = toNumber rt (JBigInt (startId + cnt - 1)),
                   cc_pricePerToken = JBigInt price,
                   cc_currency = getField cond ''currency'',
                   cc_maxClaimableSupply = getField cond ''maxClaimableSupply'',
                   cc_merkleRoot = getField cond ''merkleRoot'',
                   cc_startTimestamp = toNumber rt (getField cond ''startTimestamp''),
                   cc_quantityLimitPerWallet = getField cond ''quantityLimitPerWallet'' \<rparr>\<rparr>\<rparr>)"
  using assms
  by (cases "getField cond ''currency''")
     (auto simp add: fetchPriceData_def Let_def thirdweb721Branch_def thirdweb721Body_def jsAdd_def
        thirdweb721Condition_def setClaimCondition_def isNative_def timesAmount_def quote_def)

text \<open>
  For a drop-claim classification that is not ERC1155, when the claim condition
  accessor answers the pair \<open>(startId, count)\<close>:
  if \<open>count = 0\<close> the quote is zero and the accessor is the only call made;
  otherwise the next call fetches the condition at index \<open>startId + count - 1\<close>; and when
  that condition is an object with a native currency and a price, and the amount is
  absent or whole (\<open>a\<close> as a BigInt), it is attached to the classification under the
  double nearest to its index, no other call is made, and the quote is the price times
  the amount with no ERC20 detail.
\<close>

lemma thirdweb721_condition_whole_amount:
  assumes "info_provider (st_info s) = Thirdweb" and "\<not> truthy (isERC1155 (st_info s))"
    and "cl (calls s) (claimConditionCall (st_params s)) = Some (JArr [JBigInt startId, JBigInt cnt])"
  shows "(cnt = 0 \<longrightarrow>
            fetchPriceData rt std cl s =
              (Inr (quote (Some (JBigInt 0)) (JBigInt 0)),
               s\<lparr>calls := calls s @ [claimConditionCall (st_params s)]\<rparr>))
       \<and> (cnt \<noteq> 0 \<longrightarrow>
            (\<exists>rest. calls (snd (fetchPriceData rt std cl s)) =
               calls s @ [claimConditionCall (st_params s),
                          getClaimConditionByIdCall (st_params s) (JBigInt (startId + cnt - 1))] @ rest))
       \<and> (cnt \<noteq> 0 \<and>
          cl (calls s @ [claimConditionCall (st_params s)])
             (getClaimConditionByIdCall (st_params s) (JBigInt (startId + cnt - 1))) = Some cond \<and>
          truthy cond \<and> typeof cond = ''object'' \<and>
          getField cond ''pricePerToken'' = JBigInt price \<and>
          isNative std (getField cond ''currency'') \<and>
          amountBigInt (st_params s) = Inr a \<longrightarrow>
            fetchPriceData rt std cl s =
              (Inr \<lparr> mintPrice = Some (JBigInt price), erc20Details = None,
                     totalCost = JBigInt (price * a), q_claim = None \<rparr>,
               s\<lparr>calls := calls s @ [claimConditionCall (st_params s),
                                     getClaimConditionByIdCall (st_params s) (JBigInt (startId + cnt - 1))],
                 st_info := (st_info s)\<lparr>claimCondition := Some
                    \<lparr> cc_id = toNumber rt (JBigInt (startId + cnt - 1)),
                      cc_pricePerToken = JBigInt price,
                      cc_currency = getField cond ''currency'',
                      cc_maxClaimableSupply = getField cond ''maxClaimableSupply'',
                      cc_merkleRoot = getField cond ''merkleRoot'',
                      cc_startTimestamp = toNumber rt (getField cond ''startTimestamp''),
                      cc_quantityLimitPerWallet = getField cond ''quantityLimitPerWallet'' \<rparr>\<rparr>\<rparr>))"
proof (intro conjI impI)
  assume "cnt = 0"
  with assms(3) have "cl (calls s) (claimConditionCall (st_params s)) = Some (JArr [JBigInt startId, JBigInt 0])"
    by simp
  from thirdweb721_no_conditions[where cl=cl and s=s, OF assms(1) assms(2) this]
  show "fetchPriceData rt std cl s =
      (Inr (quote (Some (JBigInt 0)) (JBigInt 0)), s\<lparr>calls := calls s @ [claimConditionCall (st_params s)]\<rparr>)" .
next
  assume c: "cnt \<noteq> 0"
  from thirdweb721_fetches_condition[where cl=cl and s=s, OF assms c]
  show "\<exists>rest. calls (snd (fetchPriceData rt std cl s)) =
               calls s @ [claimConditionCall (st_params s),
                          getClaimConditionByIdCall (st_params s) (JBigInt (startId + cnt - 1))] @ rest" .
next
  assume h: "cnt \<noteq> 0 \<and>
          cl (calls s @ [claimConditionCall (st_params s)])
             (getClaimConditionByIdCall (st_params s) (JBigInt (startId + cnt - 1))) = Some cond \<and>
          truthy cond \<and> typeof cond = ''object'' \<and>
          getField cond ''pricePerToken'' = JBigInt price \<and>
          isNative std (getField cond ''currency'') \<and>
          amountBigInt (st_params s) = Inr a"
  from h have a1: "cnt \<noteq> 0" by (rule conjunct1)
  from h have a2: "cl (calls s @ [claimConditionCall (st_params s)])
             (getClaimConditionByIdCall (st_params s) (JBigInt (startId + cnt - 1))) = Some cond"
    by (rule conjunct1[OF conjunct2])
  from h have a3: "truthy cond" by (rule conjunct1[OF conjunct2[OF conjunct2]])
  from h have a4: "typeof cond = ''object''" by (rule conjunct1[OF conjunct2[OF conjunct2[OF conjunct2]]])
  from h have a5: "getField cond ''pricePerToken'' = JBigInt price"
    by (rule conjunct1[OF conjunct2[OF conjunct2[OF conjunct2[OF conjunct2]]]])
  from h have a6: "isNative std (getField cond ''currency'')"
    by (rule conjunct1[OF conjunct2[OF conjunct2[OF conjunct2[OF conjunct2[OF conjunct2]]]]])
  from h have a7: "amountBigInt (st_params s) = Inr a"
    by (rule conjunct2[OF conjunct2[OF conjunct2[OF conjunct2[OF conjunct2[OF conjunct2]]]]])
  from thirdweb721_native_price[where cl=cl and s=s and rt=rt, OF assms a1 a2 a3 a4 a5 a6 a7]
  show "fetchPriceData rt std cl s =
              (Inr \<lparr> mintPrice = Some (JBigInt price), erc20Details = None,
                     totalCost = JBigInt (price * a), q_claim = None \<rparr>,
               s\<lparr>calls := calls s @ [claimConditionCall (st_params s),
                                     getClaimConditionByIdCall (st_params s) (JBigInt (startId + cnt - 1))],
                 st_info := (st_info s)\<lparr>claimCondition := Some
                    \<lparr> cc_id = toNumber rt (JBigInt (startId + cnt - 1)),
                      cc_pricePerToken = JBigInt price,
                      cc_currency = getField cond ''currency'',
                      cc_maxClaimableSupply = getField cond ''maxClaimableSupply'',
                      cc_merkleRoot = getField cond ''merkleRoot'',
                      cc_startTimestamp = toNumber rt (getField cond ''startTimestamp''),
                      cc_quantityLimitPerWallet = getField cond ''quantityLimitPerWallet'' \<rparr>\<rparr>\<rparr>)"
    unfolding quote_def .
qed

text \<open>The example of three conditions from index 5 on, the last one priced at 1000, and
  the amount 4: the condition of index 7 is fetched and the total is 4000.\<close>

lemma thirdweb721_condition_example:
  "fst (fetchPriceData sampleRuntime sampleStandards dropClient
     \<lparr> calls = [], st_params = sampleParams\<lparr>amount := Some (Finite 4)\<rparr>,
       st_info = basicInfo Thirdweb (JBool False) (JBool True),
       st_detached = [], st_unhandled = [] \<rparr>)
   = Inr \<lparr> mintPrice = Some (JBigInt 1000), erc20Details = None,
           totalCost = JBigInt 4000, q_claim = None \<rparr>
   \<and> calls (snd (fetchPriceData sampleRuntime sampleStandards dropClient
     \<lparr> calls = [], st_params = sampleParams\<lparr>amount := Some (Finite 4)\<rparr>,
       st_info = basicInfo Thirdweb (JBool False) (JBool True),
       st_detached = [], st_unhandled = [] \<rparr>))
   = [claimConditionCall sampleParams, getClaimConditionByIdCall sampleParams (JBigInt 7)]
   \<and> map_option cc_id (claimCondition (st_info (snd (fetchPriceData sampleRuntime sampleStandards dropClient
     \<lparr> calls = [], st_params = sampleParams\<lparr>amount := Some (Finite 4)\<rparr>,
       st_info = basicInfo Thirdweb (JBool False) (JBool True),
       st_detached = [], st_unhandled = [] \<rparr>)))) = Some (Finite 7)"
proof -
  let ?p = "sampleParams\<lparr>amount := Some (Finite 4)\<rparr>"
  let ?s = "\<lparr> calls = [], st_params = ?p, st_info = basicInfo Thirdweb (JBool False) (JBool True),
       st_detached = [], st_unhandled = [] \<rparr>"
  have h1: "info_provider (st_info ?s) = Thirdweb" "\<not> truthy (isERC1155 (st_info ?s))"
    by (simp_all add: basicInfo_def)
  have h2: "dropClient (calls ?s) (claimConditionCall (st_params ?s)) = Some (JArr [JBigInt 5, JBigInt 3])"
    by (simp add: dropClient_def claimConditionCall_def)
  have h3: "(3::int) \<noteq> 0 \<and>
          dropClient (calls ?s @ [claimConditionCall (st_params ?s)])
             (getClaimConditionByIdCall (st_params ?s) (JBigInt (5 + 3 - 1))) = Some dropCondition \<and>
          truthy dropCondition \<and> typeof dropCondition = ''object'' \<and>
          getField dropCondition ''pricePerToken'' = JBigInt 1000 \<and>
          isNative sampleStandards (getField dropCondition ''currency'') \<and>
          amountBigInt (st_params ?s) = Inr 4"
    by (simp add: dropClient_def getClaimConditionByIdCall_def dropCondition_def isNative_def
          sampleStandards_def amountBigInt_def sampleParams_def)
  note run = thirdweb721_condition_whole_amount[where cl=dropClient and s="?s" and startId=5 and cnt=3
      and cond=dropCondition and price=1000 and a=4 and std=sampleStandards and rt=sampleRuntime,
      OF h1 h2]
  from mp[OF conjunct2[OF conjunct2[OF run]] h3]
  have "fetchPriceData sampleRuntime sampleStandards dropClient ?s =
          (Inr \<lparr> mintPrice = Some (JBigInt 1000), erc20Details = None,
                 totalCost = JBigInt (1000 * 4), q_claim = None \<rparr>,
           ?s\<lparr>calls := calls ?s @ [claimConditionCall (st_params ?s),
                                  getClaimConditionByIdCall (st_params ?s) (JBigInt (5 + 3 - 1))],
              st_info := (st_info ?s)\<lparr>claimCondition := Some
                 \<lparr> cc_id = toNumber sampleRuntime (JBigInt (5 + 3 - 1)),
                   cc_pricePerToken = JBigInt 1000,
                   cc_currency = getField dropCondition ''currency'',
                   cc_maxClaimableSupply = getField dropCondition ''maxClaimableSupply'',
                   cc_merkleRoot = getField dropCondition ''merkleRoot'',
                   cc_startTimestamp = toNumber sampleRuntime (getField dropCondition ''startTimestamp''),
                   cc_quantityLimitPerWallet = getField dropCondition ''quantityLimitPerWallet'' \<rparr>\<rparr>\<rparr>)"
    .
  then show ?thesis
    by (simp add: claimConditionCall_def getClaimConditionByIdCall_def sampleParams_def
          sampleRuntime_def)
qed


lemma dropState_fractional_body:
  "thirdweb721Body sampleRuntime sampleStandards dropClient (dropState\<lparr>st_params := fractionalParams\<rparr>)
   = (Inl RangeError,
      dropState\<lparr>st_params := fractionalParams,
        calls := [claimConditionCall fractionalParams, getClaimConditionByIdCall fractionalParams (JBigInt 7)],
        st_info := (st_info dropState)\<lparr>claimCondition := Some
           \<lparr> cc_id = Finite 7, cc_pricePerToken = JBigInt 1000,
             cc_currency = JStr ''0xEeeeeEeeeEeEeeEeEeEeeEEEeeeeEeeeeeeeEEeE'',
             cc_maxClaimableSupply = JBigInt 100, cc_merkleRoot = JStr zeroBytes32,
             cc_startTimestamp = Finite 0, cc_quantityLimitPerWallet = JBigInt 10 \<rparr>\<rparr>\<rparr>)"
  apply (simp add: dropState_def basicInfo_def thirdweb721Body_def dropClient_def claimConditionCall_def
        getClaimConditionByIdCall_def jsAdd_def)
  apply (simp add: thirdweb721Condition_def dropCondition_def setClaimCondition_def Let_def)
  by (simp add: toLowerCase_def lowerChar_def sampleStandards_def timesAmount_def fractional_amount
        sampleRuntime_def)

text \<open>
  C6 does not hold when the amount is not a whole number. Take the drop of the example
  (conditions from index 5 on, three of them, the active one priced at 1000 in the native
  currency) and the amount 1.5. The pair is read, the condition of index 7 is fetched and
  attached to the classification; then \<^verbatim>\<open>BigInt(params.amount || 1)\<close> throws inside the
  \<^verbatim>\<open>try\<close> and the branch's \<^verbatim>\<open>catch\<close> returns its zero quote: the total is 0 and no price is
  reported, where the price times the amount is 1500.
\<close>

theorem fetchPriceData_thirdweb721_fractional_amount:
  "fst (fetchPriceData sampleRuntime sampleStandards dropClient (dropState\<lparr>st_params := fractionalParams\<rparr>))
     = Inr \<lparr> mintPrice = None, erc20Details = None, totalCost = JBigInt 0, q_claim = None \<rparr>
   \<and> calls (snd (fetchPriceData sampleRuntime sampleStandards dropClient
                    (dropState\<lparr>st_params := fractionalParams\<rparr>)))
     = [claimConditionCall fractionalParams, getClaimConditionByIdCall fractionalParams (JBigInt 7)]
   \<and> map_option (\<lambda>c. (cc_id c, cc_pricePerToken c, isNative sampleStandards (cc_currency c)))
        (claimCondition (st_info (snd (fetchPriceData sampleRuntime sampleStandards dropClient
                                         (dropState\<lparr>st_params := fractionalParams\<rparr>)))))
     = Some (Finite 7, JBigInt 1000, True)"
proof -
  let ?s = "dropState\<lparr>st_params := fractionalParams\<rparr>"
  have "fetchPriceData sampleRuntime sampleStandards dropClient ?s
        = thirdweb721Branch sampleRuntime sampleStandards dropClient ?s"
    by (simp add: fetchPriceData_def Let_def dropState_def basicInfo_def)
  also have "\<dots> = (Inr (quote None (JBigInt 0)),
      dropState\<lparr>st_params := fractionalParams,
        calls := [claimConditionCall fractionalParams, getClaimConditionByIdCall fractionalParams (JBigInt 7)],
        st_info := (st_info dropState)\<lparr>claimCondition := Some
           \<lparr> cc_id = Finite 7, cc_pricePerToken = JBigInt 1000,
             cc_currency = JStr ''0xEeeeeEeeeEeEeeEeEeEeeEEEeeeeEeeeeeeeEEeE'',
             cc_maxClaimableSupply = JBigInt 100, cc_merkleRoot = JStr zeroBytes32,
             cc_startTimestamp = Finite 0, cc_quantityLimitPerWallet = JBigInt 10 \<rparr>\<rparr>\<rparr>)"
    by (simp add: thirdweb721Branch_def dropState_fractional_body)
  finally show ?thesis
    by (simp add: quote_def isNative_def sampleStandards_def)
qed


subsection \<open>The detector: the cascade\<close>

lemma noThrowI: "(\<And>s. \<exists>x s'. m s = (Inr x, s')) \<Longrightarrow> noThrow m"
  by (simp add: noThrow_def)

lemma noThrowD: "noThrow m \<Longrightarrow> \<exists>x s'. m s = (Inr x, s')"
  by (simp add: noThrow_def)

lemma noThrow_ret [simp]: "noThrow (ret x)"
  by (simp add: noThrow_def)

lemma noThrow_Pair [simp]: "noThrow (Pair (Inr x))"
  by (simp add: noThrow_def)

lemma noThrow_thenDo:
  assumes "noThrow m" and "\<And>x. noThrow (f x)"
  shows "noThrow (thenDo m f)"
proof (rule noThrowI)
  fix s
  from noThrowD[OF assms(1)] obtain x s1 where m: "m s = (Inr x, s1)" by blast
  from noThrowD[OF assms(2)] obtain y s2 where "f x s1 = (Inr y, s2)" by blast
  with m show "\<exists>y s'. thenDo m f s = (Inr y, s')" by simp
qed

lemma noThrow_tryCatch:
  assumes "\<And>e. noThrow (h e)"
  shows "noThrow (tryCatch m h)"
proof (rule noThrowI)
  fix s
  obtain r s1 where m: "m s = (r, s1)" by (cases "m s")
  show "\<exists>y s'. tryCatch m h s = (Inr y, s')"
  proof (cases r)
    case (Inr x)
    with m show ?thesis by simp
  next
    case (Inl e)
    from noThrowD[OF assms] obtain y s2 where "h e s1 = (Inr y, s2)" by blast
    with m Inl show ?thesis by simp
  qed
qed

lemma noThrow_settle [simp]: "noThrow (settle m)"
  by (simp add: noThrow_def settle_def split: prod.splits)

lemma noThrow_orDefault [simp]: "noThrow (orDefault m d)"
  unfolding orDefault_def by (rule noThrow_tryCatch) simp

lemma noThrow_if: "noThrow a \<Longrightarrow> noThrow b \<Longrightarrow> noThrow (if c then a else b)"
  by simp

lemma noThrow_probe [simp]: "noThrow (probe cl c)"
  unfolding probe_def by (rule noThrow_tryCatch) simp

lemma noThrow_probeWith [simp]: "noThrow (probeWith cl c check)"
  unfolding probeWith_def by (rule noThrow_tryCatch) simp

lemma noThrow_firstMatch: "(\<And>m. m \<in> set ms \<Longrightarrow> noThrow m) \<Longrightarrow> noThrow (firstMatch ms)"
proof (induction ms)
  case Nil
  then show ?case by simp
next
  case (Cons m ms)
  show ?case
    unfolding firstMatch.simps
    by (rule noThrow_thenDo) (simp_all add: Cons)
qed

lemma noThrow_indicatorLoop [simp]: "noThrow (indicatorLoop cl mk fs found)"
proof (induction fs arbitrary: found)
  case Nil
  then show ?case by simp
next
  case (Cons f fs)
  show ?case
    unfolding indicatorLoop.simps
    by (rule noThrow_thenDo) (simp_all add: Cons split: sum.splits)
qed

lemma noThrow_dropLoop [simp]: "noThrow (dropLoop cl addr fs)"
proof (induction fs)
  case Nil
  then show ?case by simp
next
  case (Cons f fs)
  have inner: "\<And>c. noThrow (thenDo (settle (readContract cl c))
                    (\<lambda>r2. case r2 of Inr v \<Rightarrow> ret True | Inl e2 \<Rightarrow> dropLoop cl addr fs))"
    by (rule noThrow_thenDo) (simp_all add: Cons split: sum.splits)
  show ?case
    unfolding dropLoop.simps
    by (rule noThrow_thenDo) (simp_all add: Cons inner split: sum.splits)
qed

lemma noThrow_extensionLoop [simp]: "noThrow (extensionLoop cl addr fs)"
proof (induction fs)
  case Nil
  then show ?case by simp
next
  case (Cons f fs)
  have inner: "\<And>c. noThrow (thenDo (settle (readContract cl c))
                    (\<lambda>r2. case r2 of Inr v \<Rightarrow> ret True | Inl e2 \<Rightarrow> extensionLoop cl addr fs))"
    by (rule noThrow_thenDo) (simp_all add: Cons split: sum.splits)
  show ?case
    unfolding extensionLoop.simps
    by (rule noThrow_thenDo) (simp_all add: Cons inner split: sum.splits)
qed

lemma noThrow_n2mCheck [simp]: "noThrow (n2mCheck cl addr)"
  by (simp add: n2mCheck_def)

lemma noThrow_erc721Pattern [simp]: "noThrow (erc721Pattern cl addr)"
  unfolding erc721Pattern_def by (rule noThrow_tryCatch) simp

lemma noThrow_erc1155Patterns [simp]: "noThrow (erc1155Patterns cl addr)"
  unfolding erc1155Patterns_def
  by (rule noThrow_firstMatch)
     (auto simp del: indicatorLoop.simps dropLoop.simps extensionLoop.simps intro!: noThrow_thenDo)

lemma detectHeuristics_result:
  "\<exists>r tr'. detectHeuristics cl addr e1155 e721 tr = (Inr r, tr') \<and>
     (r = basicInfo Nfts2me e1155 e721 \<or> r = basicInfo Thirdweb e1155 e721 \<or>
      r = basicInfo Generic e1155 e721) \<and>
     (info_provider r = Generic \<longleftrightarrow>
        (let step5 = n2mCheck cl addr tr;
             step6 = (if truthy e721 then erc721Pattern cl addr else ret False) (snd step5);
             step7 = (if truthy e1155 then erc1155Patterns cl addr else ret False) (snd step6)
         in fst step5 = Inr False \<and> fst step6 = Inr False \<and> fst step7 = Inr False))"
proof -
  from noThrowD[where s=tr, OF noThrow_n2mCheck[of cl addr]]
  obtain b1 t1 where s1: "n2mCheck cl addr tr = (Inr b1, t1)"
    by (elim exE)
  have "noThrow (if truthy e721 then erc721Pattern cl addr else ret False)" by simp
  from noThrowD[where s=t1, OF this]
  obtain b2 t2 where s2: "(if truthy e721 then erc721Pattern cl addr else ret False) t1 = (Inr b2, t2)"
    by (elim exE)
  have "noThrow (if truthy e1155 then erc1155Patterns cl addr else ret False)" by simp
  from noThrowD[where s=t2, OF this]
  obtain b3 t3 where s3: "(if truthy e1155 then erc1155Patterns cl addr else ret False) t2 = (Inr b3, t3)"
    by (elim exE)
  show ?thesis
    using s1 s2 s3
    by (cases b1; cases b2; cases b3) (simp_all add: detectHeuristics_def basicInfo_def Let_def)
qed

lemma orDefault_readContract [simp]:
  "orDefault (readContract cl c) d tr = (Inr (answerOr (cl tr c) d), tr @ [c])"
  by (simp add: orDefault_def tryCatch_def readContract_def answerOr_def split: option.splits)

lemma manifoldCheck_none:
  "\<not> (truthy ext \<and> gtZero rt (jsLength ext)) \<Longrightarrow> manifoldCheck rt std ext e1155 e721 = Inr None"
  by (auto simp add: manifoldCheck_def)

lemma manifoldCheck_listed:
  assumes "extensionsListed rt ext" and "truthy ext \<and> gtZero rt (jsLength ext)"
  shows "\<exists>info. manifoldCheck rt std ext e1155 e721 = Inr (Some info) \<and> info_provider info = Manifold
            \<and> isERC1155 info = e1155 \<and> isERC721 info = e721"
  using assms
  by (cases ext) (auto simp add: manifoldCheck_def extensionsListed_def Let_def)

lemma detectCascade_run:
  "detectCascade rt std cl addr tr =
     (case manifoldCheck rt std (batchExtensions std cl addr tr) (batch1155 std cl addr tr)
             (batch721 std cl addr tr) of
        Inl e \<Rightarrow> (Inl e, afterBatch std addr tr)
      | Inr None \<Rightarrow> detectHeuristics cl addr (batch1155 std cl addr tr) (batch721 std cl addr tr)
                      (afterBatch std addr tr)
      | Inr (Some info) \<Rightarrow> (Inr info, afterBatch std addr tr))"
  by (simp add: detectCascade_def batch721_def batch1155_def batchExtensions_def afterBatch_def
        split: sum.splits option.splits)

lemma detectCascade_result:
  assumes "extensionsListed rt (batchExtensions std cl addr tr)"
  shows "\<exists>r tr'. detectCascade rt std cl addr tr = (Inr r, tr') \<and>
           isERC721 r = batch721 std cl addr tr \<and> isERC1155 r = batch1155 std cl addr tr \<and>
           (info_provider r = Generic \<longleftrightarrow> noHeuristicMatches rt std cl addr tr) \<and>
           (info_provider r = Generic \<longrightarrow>
              r = basicInfo Generic (batch1155 std cl addr tr) (batch721 std cl addr tr))"
proof -
  let ?e721 = "batch721 std cl addr tr"
  let ?e1155 = "batch1155 std cl addr tr"
  let ?ext = "batchExtensions std cl addr tr"
  let ?tr3 = "afterBatch std addr tr"
  show ?thesis
  proof (cases "truthy ?ext \<and> gtZero rt (jsLength ?ext)")
    case False
    then have none: "manifoldCheck rt std ?ext ?e1155 ?e721 = Inr None"
      by (rule manifoldCheck_none)
    from detectHeuristics_result[of cl addr ?e1155 ?e721 ?tr3]
    obtain r tr' where h: "detectHeuristics cl addr ?e1155 ?e721 ?tr3 = (Inr r, tr')"
      and shape: "r = basicInfo Nfts2me ?e1155 ?e721 \<or> r = basicInfo Thirdweb ?e1155 ?e721 \<or>
                  r = basicInfo Generic ?e1155 ?e721"
      and gen: "info_provider r = Generic \<longleftrightarrow>
        (let step5 = n2mCheck cl addr ?tr3;
             step6 = (if truthy ?e721 then erc721Pattern cl addr else ret False) (snd step5);
             step7 = (if truthy ?e1155 then erc1155Patterns cl addr else ret False) (snd step6)
         in fst step5 = Inr False \<and> fst step6 = Inr False \<and> fst step7 = Inr False)"
      by (elim exE conjE)
    from gen False have iff: "info_provider r = Generic \<longleftrightarrow> noHeuristicMatches rt std cl addr tr"
      by (simp add: noHeuristicMatches_def Let_def)
    from shape have "isERC721 r = ?e721 \<and> isERC1155 r = ?e1155 \<and>
        (info_provider r = Generic \<longrightarrow> r = basicInfo Generic ?e1155 ?e721)"
      by (auto simp add: basicInfo_def)
    with none h iff show ?thesis by (simp add: detectCascade_run)
  next
    case True
    from manifoldCheck_listed[OF assms True, of std ?e1155 ?e721]
    obtain info where "manifoldCheck rt std ?ext ?e1155 ?e721 = Inr (Some info)"
      "info_provider info = Manifold" "isERC1155 info = ?e1155" "isERC721 info = ?e721"
      by (elim exE conjE)
    moreover from True have "\<not> noHeuristicMatches rt std cl addr tr"
      by (simp add: noHeuristicMatches_def Let_def)
    ultimately show ?thesis by (simp add: detectCascade_run)
  qed
qed

lemma detectCascade_no_match:
  assumes "noHeuristicMatches rt std cl addr tr"
  shows "fst (detectCascade rt std cl addr tr) =
           Inr (basicInfo Generic (batch1155 std cl addr tr) (batch721 std cl addr tr))"
proof -
  let ?e721 = "batch721 std cl addr tr"
  let ?e1155 = "batch1155 std cl addr tr"
  let ?ext = "batchExtensions std cl addr tr"
  let ?tr3 = "afterBatch std addr tr"
  from assms have no: "\<not> (truthy ?ext \<and> gtZero rt (jsLength ?ext))"
    by (simp add: noHeuristicMatches_def Let_def)
  then have none: "manifoldCheck rt std ?ext ?e1155 ?e721 = Inr None"
    by (rule manifoldCheck_none)
  from detectHeuristics_result[of cl addr ?e1155 ?e721 ?tr3]
  obtain r tr' where h: "detectHeuristics cl addr ?e1155 ?e721 ?tr3 = (Inr r, tr')"
    and shape: "r = basicInfo Nfts2me ?e1155 ?e721 \<or> r = basicInfo Thirdweb ?e1155 ?e721 \<or>
                r = basicInfo Generic ?e1155 ?e721"
    and gen: "info_provider r = Generic \<longleftrightarrow>
      (let step5 = n2mCheck cl addr ?tr3;
           step6 = (if truthy ?e721 then erc721Pattern cl addr else ret False) (snd step5);
           step7 = (if truthy ?e1155 then erc1155Patterns cl addr else ret False) (snd step6)
       in fst step5 = Inr False \<and> fst step6 = Inr False \<and> fst step7 = Inr False)"
    by (elim exE conjE)
  from gen assms have "info_provider r = Generic"
    by (simp add: noHeuristicMatches_def Let_def)
  with shape have "r = basicInfo Generic ?e1155 ?e721"
    by (auto simp add: basicInfo_def)
  with none h show ?thesis by (simp add: detectCascade_run)
qed

subsection \<open>The detector: probes that find nothing\<close>

lemma missesI: "(\<And>tr. \<exists>tr'. m tr = (Inr False, tr')) \<Longrightarrow> misses m"
  by (simp add: misses_def)

lemma missesD: "misses m \<Longrightarrow> \<exists>tr'. m tr = (Inr False, tr')"
  by (simp add: misses_def)

lemma misses_ret [simp]: "misses (ret False)"
  by (simp add: misses_def)

lemma misses_Pair [simp]: "misses (Pair (Inr False))"
  by (simp add: misses_def)

lemma readContract_apply:
  "readContract cl c tr = (case cl tr c of None \<Rightarrow> Inl CallFailed | Some v \<Rightarrow> Inr v, tr @ [c])"
  by (simp add: readContract_def)

lemma misses_probe: "(\<And>h. cl h c = None) \<Longrightarrow> misses (probe cl c)"
  by (simp add: misses_def probe_def readContract_apply tryCatch_def thenDo_def)

lemma misses_probeWith: "(\<And>h. cl h c = None) \<Longrightarrow> misses (probeWith cl c check)"
  by (simp add: misses_def probeWith_def readContract_apply tryCatch_def thenDo_def)

lemma misses_firstMatch: "(\<And>m. m \<in> set ms \<Longrightarrow> misses m) \<Longrightarrow> misses (firstMatch ms)"
proof (induction ms)
  case Nil
  then show ?case by simp
next
  case (Cons m ms)
  show ?case
  proof (rule missesI)
    fix tr
    from missesD[OF Cons.prems[of m], of tr] obtain t1 where m: "m tr = (Inr False, t1)" by auto
    have "misses (firstMatch ms)" by (rule Cons.IH) (simp add: Cons.prems)
    from missesD[OF this, of t1] obtain t2 where "firstMatch ms t1 = (Inr False, t2)" by auto
    with m show "\<exists>tr'. firstMatch (m # ms) tr = (Inr False, tr')" by (simp add: thenDo_def)
  qed
qed

lemma misses_indicatorLoop:
  assumes "\<And>h f. cl h (mk f) = None"
  shows "misses (indicatorLoop cl mk fs found)"
proof (induction fs)
  case Nil
  then show ?case by simp
next
  case (Cons f fs)
  show ?case
  proof (rule missesI)
    fix tr
    from missesD[OF Cons, of "tr @ [mk f]"]
    obtain t2 where "indicatorLoop cl mk fs found (tr @ [mk f]) = (Inr False, t2)" by auto
    then show "\<exists>tr'. indicatorLoop cl mk (f # fs) found tr = (Inr False, tr')"
      using assms by (simp add: settle_def readContract_apply thenDo_def)
  qed
qed

lemma misses_dropLoop:
  assumes "\<And>h i out f. cl h (Call (JStr addr) (Inline i out) f []) = None"
  shows "misses (dropLoop cl addr fs)"
proof (induction fs)
  case Nil
  then show ?case by simp
next
  case (Cons f fs)
  show ?case
  proof (rule missesI)
    fix tr
    let ?c1 = "Call (JStr addr) (Inline [] [''uint256'']) f []"
    let ?c2 = "Call (JStr addr)
                 (Inline [''address'', ''uint256'', ''uint256'', ''address'', ''uint256''] []) f []"
    from missesD[OF Cons, of "tr @ [?c1]"]
    obtain t2 where a: "dropLoop cl addr fs (tr @ [?c1]) = (Inr False, t2)" by auto
    from missesD[OF Cons, of "tr @ [?c1, ?c2]"]
    obtain t3 where b: "dropLoop cl addr fs (tr @ [?c1, ?c2]) = (Inr False, t3)" by auto
    show "\<exists>tr'. dropLoop cl addr (f # fs) tr = (Inr False, tr')"
      using assms a b by (simp add: settle_def readContract_apply thenDo_def)
  qed
qed

lemma misses_extensionLoop:
  assumes "\<And>h i out f. cl h (Call (JStr addr) (Inline i out) f []) = None"
  shows "misses (extensionLoop cl addr fs)"
proof (induction fs)
  case Nil
  then show ?case by simp
next
  case (Cons f fs)
  show ?case
  proof (rule missesI)
    fix tr
    let ?c1 = "Call (JStr addr) (Inline [] [''address[]'']) f []"
    let ?c2 = "Call (JStr addr) (Inline [''string''] [''address'']) f []"
    from missesD[OF Cons, of "tr @ [?c1, ?c2]"]
    obtain t3 where b: "extensionLoop cl addr fs (tr @ [?c1, ?c2]) = (Inr False, t3)" by auto
    show "\<exists>tr'. extensionLoop cl addr (f # fs) tr = (Inr False, tr')"
      using assms b by (simp add: settle_def readContract_apply thenDo_def)
  qed
qed

lemma misses_n2mCheck:
  assumes "\<And>h a i out f args. cl h (Call a (Inline i out) f args) = None"
  shows "misses (n2mCheck cl addr)"
  unfolding n2mCheck_def by (rule misses_probeWith) (rule assms)

lemma misses_erc721Pattern:
  assumes "\<And>h a i out f args. cl h (Call a (Inline i out) f args) = None"
  shows "misses (erc721Pattern cl addr)"
  using assms by (simp add: misses_def erc721Pattern_def readContract_apply tryCatch_def thenDo_def)

lemma misses_erc1155Patterns:
  assumes "\<And>h a i out f args. cl h (Call a (Inline i out) f args) = None"
  shows "misses (erc1155Patterns cl addr)"
proof -
  have uri: "misses (thenDo (probe cl (Call (JStr addr) (Inline [''uint256''] [''string'']) ''uri'' [JBigInt 0]))
         (\<lambda>hasUri. if hasUri then
                      probe cl (Call (JStr addr) (Inline [''uint256''] [''uint256'']) ''totalSupply'' [JBigInt 0])
                    else ret False))"
    using assms by (simp add: misses_def probe_def readContract_apply tryCatch_def thenDo_def)
  show ?thesis
    unfolding erc1155Patterns_def claimConditionByToken_def verifyCall_def mintWithSignatureCall_def
    by (rule misses_firstMatch)
       (auto simp del: indicatorLoop.simps dropLoop.simps extensionLoop.simps
             intro!: misses_probe misses_probeWith misses_indicatorLoop misses_dropLoop
                     misses_extensionLoop assms uri)
qed

text \<open>When nothing but the two interface probes of the first batch is answered, no
  heuristic matches.\<close>

lemma only_probes_no_match:
  assumes "\<forall>h c. c \<noteq> erc721Probe std addr \<longrightarrow> c \<noteq> erc1155Probe std addr \<longrightarrow> cl h c = None"
  shows "noHeuristicMatches rt std cl addr tr"
proof -
  have inl: "\<And>h a i out f args. cl h (Call a (Inline i out) f args) = None"
    using assms by (simp add: erc721Probe_def erc1155Probe_def)
  have ext: "batchExtensions std cl addr tr = JNull"
    using assms by (simp add: batchExtensions_def extensionsProbe_def erc721Probe_def erc1155Probe_def
          answerOr_def)
  let ?e721 = "batch721 std cl addr tr"
  let ?e1155 = "batch1155 std cl addr tr"
  from missesD[OF misses_n2mCheck[where cl=cl and addr=addr, OF inl], of "afterBatch std addr tr"]
  obtain t1 where s1: "n2mCheck cl addr (afterBatch std addr tr) = (Inr False, t1)" by auto
  have "misses (if truthy ?e721 then erc721Pattern cl addr else ret False)"
    using misses_erc721Pattern[where cl=cl and addr=addr, OF inl] by simp
  from missesD[OF this, of t1]
  obtain t2 where s2: "(if truthy ?e721 then erc721Pattern cl addr else ret False) t1 = (Inr False, t2)"
    by auto
  have "misses (if truthy ?e1155 then erc1155Patterns cl addr else ret False)"
    using misses_erc1155Patterns[where cl=cl and addr=addr, OF inl] by simp
  from missesD[OF this, of t2]
  obtain t3 where s3: "(if truthy ?e1155 then erc1155Patterns cl addr else ret False) t2 = (Inr False, t3)"
    by auto
  show ?thesis
    using ext s1 s2 s3 by (simp add: noHeuristicMatches_def Let_def)
qed

subsection \<open>The detector: the result\<close>

lemma detectNFTProvider_returns:
  "\<exists>r tr'. detectNFTProvider rt std cl p tr = (Inr r, tr')"
proof (cases "toLowerCase (contractAddress p) = overrideAddress")
  case True
  then show ?thesis by (simp add: detectNFTProvider_def)
next
  case False
  show ?thesis
  proof (cases "provider p")
    case (Some sp)
    with False show ?thesis by (simp add: detectNFTProvider_def Let_def)
  next
    case None
    have "noThrow (tryCatch (detectCascade rt std cl (contractAddress p))
                     (\<lambda>e. ret (basicInfo Generic (JBool False) (JBool False))))"
      by (rule noThrow_tryCatch) simp
    from noThrowD[where s=tr, OF this] None False
    show ?thesis by (simp add: detectNFTProvider_def)
  qed
qed

lemma detectNFTProvider_cascade:
  assumes "provider p = None" and "toLowerCase (contractAddress p) \<noteq> overrideAddress"
    and "detectCascade rt std cl (contractAddress p) tr = (Inr r, tr')"
  shows "detectNFTProvider rt std cl p tr = (Inr r, tr')"
  using assms by (simp add: detectNFTProvider_def)

lemma detectNFTProvider_no_match:
  assumes n: "provider p = None" and o: "toLowerCase (contractAddress p) \<noteq> overrideAddress"
    and no: "noHeuristicMatches rt std cl (contractAddress p) tr"
  shows "fst (detectNFTProvider rt std cl p tr) =
           Inr (basicInfo Generic (batch1155 std cl (contractAddress p) tr)
                  (batch721 std cl (contractAddress p) tr))"
proof -
  let ?run = "detectCascade rt std cl (contractAddress p) tr"
  from detectCascade_no_match[OF no]
  have c: "?run = (Inr (basicInfo Generic (batch1155 std cl (contractAddress p) tr)
                          (batch721 std cl (contractAddress p) tr)), snd ?run)"
    by (cases ?run) simp
  from detectNFTProvider_cascade[OF n o c] show ?thesis by simp
qed

text \<open>
  C2. The detector never fails: for every client, every request and every list of
  earlier calls it returns a classification.

  For a request that names no provider, at an address outside the override table, and
  whose extensions accessor answers with a list (or fails, or answers an empty value):
  the cascade itself does not throw, every failed probe counting as an absent
  capability; the flags of the result are the answers of the two interface probes of
  the first batch (false where the probe failed); the provider of the result is the
  unclassified one exactly when no heuristic matches; and the unclassified result
  carries those two flags and nothing else.

  For such a request, when no heuristic matches, the result is the unclassified
  classification with the flags of the two interface probes. This is the case, in
  particular, whenever the contract answers nothing but the two interface probes: every
  other probe of the cascade then fails, and none of them matches.
\<close>

theorem detectNFTProvider_never_fails:
  "(\<exists>r tr'. detectNFTProvider rt std cl p tr = (Inr r, tr'))
   \<and> (provider p = None \<and> toLowerCase (contractAddress p) \<noteq> overrideAddress \<and>
      extensionsListed rt (batchExtensions std cl (contractAddress p) tr) \<longrightarrow>
        (\<exists>r tr'. detectCascade rt std cl (contractAddress p) tr = (Inr r, tr') \<and>
                 detectNFTProvider rt std cl p tr = (Inr r, tr') \<and>
                 isERC721 r = batch721 std cl (contractAddress p) tr \<and>
                 isERC1155 r = batch1155 std cl (contractAddress p) tr \<and>
                 (info_provider r = Generic \<longleftrightarrow>
                    noHeuristicMatches rt std cl (contractAddress p) tr) \<and>
                 (info_provider r = Generic \<longrightarrow>
                    r = basicInfo Generic (batch1155 std cl (contractAddress p) tr)
                          (batch721 std cl (contractAddress p) tr))))
   \<and> (provider p = None \<and> toLowerCase (contractAddress p) \<noteq> overrideAddress \<and>
      noHeuristicMatches rt std cl (contractAddress p) tr \<longrightarrow>
        fst (detectNFTProvider rt std cl p tr) =
          Inr (basicInfo Generic (batch1155 std cl (contractAddress p) tr)
                 (batch721 std cl (contractAddress p) tr)))
   \<and> (provider p = None \<and> toLowerCase (contractAddress p) \<noteq> overrideAddress \<and>
      (\<forall>h c. c \<noteq> erc721Probe std (contractAddress p) \<longrightarrow>
             c \<noteq> erc1155Probe std (contractAddress p) \<longrightarrow> cl h c = None) \<longrightarrow>
        noHeuristicMatches rt std cl (contractAddress p) tr \<and>
        fst (detectNFTProvider rt std cl p tr) =
          Inr (basicInfo Generic (batch1155 std cl (contractAddress p) tr)
                 (batch721 std cl (contractAddress p) tr)))"
proof (intro conjI impI)
  show "\<exists>r tr'. detectNFTProvider rt std cl p tr = (Inr r, tr')"
    by (rule detectNFTProvider_returns)
next
  assume h: "provider p = None \<and> toLowerCase (contractAddress p) \<noteq> overrideAddress \<and>
      extensionsListed rt (batchExtensions std cl (contractAddress p) tr)"
  from detectCascade_result[where rt=rt and std=std and cl=cl and tr=tr and addr="contractAddress p",
         OF conjunct2[OF conjunct2[OF h]]]
  obtain r tr' where run: "detectCascade rt std cl (contractAddress p) tr = (Inr r, tr')"
    and flags: "isERC721 r = batch721 std cl (contractAddress p) tr"
               "isERC1155 r = batch1155 std cl (contractAddress p) tr"
               "info_provider r = Generic \<longleftrightarrow> noHeuristicMatches rt std cl (contractAddress p) tr"
               "info_provider r = Generic \<longrightarrow>
                    r = basicInfo Generic (batch1155 std cl (contractAddress p) tr)
                          (batch721 std cl (contractAddress p) tr)"
    by (elim exE conjE)
  from h run have "detectNFTProvider rt std cl p tr = (Inr r, tr')"
    by (simp add: detectNFTProvider_def)
  with run flags
  show "\<exists>r tr'. detectCascade rt std cl (contractAddress p) tr = (Inr r, tr') \<and>
                 detectNFTProvider rt std cl p tr = (Inr r, tr') \<and>
                 isERC721 r = batch721 std cl (contractAddress p) tr \<and>
                 isERC1155 r = batch1155 std cl (contractAddress p) tr \<and>
                 (info_provider r = Generic \<longleftrightarrow>
                    noHeuristicMatches rt std cl (contractAddress p) tr) \<and>
                 (info_provider r = Generic \<longrightarrow>
                    r = basicInfo Generic (batch1155 std cl (contractAddress p) tr)
                          (batch721 std cl (contractAddress p) tr))"
    by (intro exI[of _ r] exI[of _ tr'] conjI)
next
  assume h: "provider p = None \<and> toLowerCase (contractAddress p) \<noteq> overrideAddress \<and>
      noHeuristicMatches rt std cl (contractAddress p) tr"
  show "fst (detectNFTProvider rt std cl p tr) =
          Inr (basicInfo Generic (batch1155 std cl (contractAddress p) tr)
                 (batch721 std cl (contractAddress p) tr))"
    by (rule detectNFTProvider_no_match[where cl=cl, OF conjunct1[OF h] conjunct1[OF conjunct2[OF h]]
          conjunct2[OF conjunct2[OF h]]])
next
  assume h: "provider p = None \<and> toLowerCase (contractAddress p) \<noteq> overrideAddress \<and>
      (\<forall>h c. c \<noteq> erc721Probe std (contractAddress p) \<longrightarrow>
             c \<noteq> erc1155Probe std (contractAddress p) \<longrightarrow> cl h c = None)"
  show "noHeuristicMatches rt std cl (contractAddress p) tr"
    by (rule only_probes_no_match[where cl=cl, OF conjunct2[OF conjunct2[OF h]]])
next
  assume h: "provider p = None \<and> toLowerCase (contractAddress p) \<noteq> overrideAddress \<and>
      (\<forall>h c. c \<noteq> erc721Probe std (contractAddress p) \<longrightarrow>
             c \<noteq> erc1155Probe std (contractAddress p) \<longrightarrow> cl h c = None)"
  have no: "noHeuristicMatches rt std cl (contractAddress p) tr"
    by (rule only_probes_no_match[where cl=cl, OF conjunct2[OF conjunct2[OF h]]])
  show "fst (detectNFTProvider rt std cl p tr) =
          Inr (basicInfo Generic (batch1155 std cl (contractAddress p) tr)
                 (batch721 std cl (contractAddress p) tr))"
    by (rule detectNFTProvider_no_match[where cl=cl, OF conjunct1[OF h] conjunct1[OF conjunct2[OF h]] no])
qed

text \<open>A contract that answers the ERC721 interface probe and nothing else: the detector
  asks the three probes of the first batch, the version query and the claim condition,
  and returns the unclassified result with the ERC721 flag.\<close>

lemma bare721_run:
  "detectNFTProvider sampleRuntime sampleStandards bare721Client sampleParams [] =
     (Inr (basicInfo Generic (JBool False) (JBool True)),
      [erc721Probe sampleStandards (contractAddress sampleParams),
       erc1155Probe sampleStandards (contractAddress sampleParams),
       extensionsProbe (contractAddress sampleParams),
       Call (JStr (contractAddress sampleParams)) (Inline [] [''uint256'']) ''n2mVersion'' [],
       Call (JStr (contractAddress sampleParams)) (Inline [] [''uint256'', ''uint256'']) ''claimCondition'' []])"
  using sampleParams_lower
  by (simp add: detectNFTProvider_def detectCascade_def detectHeuristics_def n2mCheck_def
        erc721Pattern_def probeWith_def readContract_apply bare721Client_def sampleParams_def
        sampleStandards_def erc721Probe_def erc1155Probe_def extensionsProbe_def answerOr_def
        manifoldCheck_def)

theorem detectNFTProvider_never_fails_witness:
  "provider sampleParams = None \<and> toLowerCase (contractAddress sampleParams) \<noteq> overrideAddress
   \<and> fst (detectNFTProvider sampleRuntime sampleStandards bare721Client sampleParams [])
       = Inr (basicInfo Generic (JBool False) (JBool True))"
proof -
  have h: "provider sampleParams = None \<and> toLowerCase (contractAddress sampleParams) \<noteq> overrideAddress \<and>
      (\<forall>h c. c \<noteq> erc721Probe sampleStandards (contractAddress sampleParams) \<longrightarrow>
             c \<noteq> erc1155Probe sampleStandards (contractAddress sampleParams) \<longrightarrow>
             bare721Client h c = None)"
    using sampleParams_lower by (simp add: bare721Client_def) (simp add: sampleParams_def)
  from mp[OF conjunct2[OF conjunct2[OF conjunct2[OF detectNFTProvider_never_fails[where rt=sampleRuntime
         and std=sampleStandards and cl=bare721Client and p=sampleParams and tr="[]"]]]] h]
  have "fst (detectNFTProvider sampleRuntime sampleStandards bare721Client sampleParams []) =
          Inr (basicInfo Generic
                 (batch1155 sampleStandards bare721Client (contractAddress sampleParams) [])
                 (batch721 sampleStandards bare721Client (contractAddress sampleParams) []))"
    by (rule conjunct2)
  moreover have "batch1155 sampleStandards bare721Client (contractAddress sampleParams) [] = JBool False"
    by (simp add: batch1155_def bare721Client_def erc721Probe_def erc1155Probe_def sampleStandards_def
          answerOr_def)
  moreover have "batch721 sampleStandards bare721Client (contractAddress sampleParams) [] = JBool True"
    by (simp add: batch721_def bare721Client_def answerOr_def)
  ultimately show ?thesis using h by simp
qed


subsection \<open>Extension-claim pricing: the token-id lookup\<close>

lemma keepsParamsI: "(\<And>s r s'. m s = (r, s') \<Longrightarrow> st_params s' = st_params s) \<Longrightarrow> keepsParams m"
  by (simp add: keepsParams_def)

lemma keepsParamsD: "keepsParams m \<Longrightarrow> m s = (r, s') \<Longrightarrow> st_params s' = st_params s"
  by (simp add: keepsParams_def)

lemma keepsParams_ret [simp]: "keepsParams (ret x)"
  by (simp add: keepsParams_def)

lemma keepsParams_Pair [simp]: "keepsParams (Pair r)"
  by (simp add: keepsParams_def)

lemma keepsParams_raise [simp]: "keepsParams (raise e)"
  by (simp add: keepsParams_def)

lemma keepsParams_lift [simp]: "keepsParams (lift r)"
  by (simp add: keepsParams_def)

lemma keepsParams_read [simp]: "keepsParams (read cl c)"
  by (auto simp add: keepsParams_def read_def onCalls_def readContract_def)

lemma keepsParams_getParams [simp]: "keepsParams getParams"
  by (simp add: keepsParams_def)

lemma keepsParams_getInfo [simp]: "keepsParams getInfo"
  by (simp add: keepsParams_def)

lemma keepsParams_setClaim [simp]: "keepsParams (setClaim c)"
  by (auto simp add: keepsParams_def setClaim_def)

lemma keepsParams_thenDo:
  assumes "keepsParams m" and "\<And>x. keepsParams (f x)"
  shows "keepsParams (thenDo m f)"
proof (rule keepsParamsI)
  fix s r s'
  assume run: "thenDo m f s = (r, s')"
  obtain r1 s1 where m: "m s = (r1, s1)" by (cases "m s")
  from keepsParamsD[OF assms(1) m] have p1: "st_params s1 = st_params s" .
  show "st_params s' = st_params s"
  proof (cases r1)
    case (Inl e)
    with run m have "s' = s1" by simp
    with p1 show ?thesis by simp
  next
    case (Inr x)
    with run m have "f x s1 = (r, s')" by simp
    from keepsParamsD[OF assms(2) this] p1 show ?thesis by simp
  qed
qed

lemma keepsParams_tryCatch:
  assumes "keepsParams m" and "\<And>e. keepsParams (h e)"
  shows "keepsParams (tryCatch m h)"
proof (rule keepsParamsI)
  fix s r s'
  assume run: "tryCatch m h s = (r, s')"
  obtain r1 s1 where m: "m s = (r1, s1)" by (cases "m s")
  from keepsParamsD[OF assms(1) m] have p1: "st_params s1 = st_params s" .
  show "st_params s' = st_params s"
  proof (cases r1)
    case (Inr x)
    with run m have "s' = s1" by simp
    with p1 show ?thesis by simp
  next
    case (Inl e)
    with run m have "h e s1 = (r, s')" by simp
    from keepsParamsD[OF assms(2) this] p1 show ?thesis by simp
  qed
qed

lemma keepsParams_settle: "keepsParams m \<Longrightarrow> keepsParams (settle m)"
  by (auto simp add: keepsParams_def settle_def split: prod.splits)

lemma keepsParams_orDefault: "keepsParams m \<Longrightarrow> keepsParams (orDefault m d)"
  unfolding orDefault_def by (rule keepsParams_tryCatch) simp_all

lemma keepsParams_if: "keepsParams a \<Longrightarrow> keepsParams b \<Longrightarrow> keepsParams (if c then a else b)"
  by simp

lemma keepsParams_callManifoldWithFallback [simp]:
  "keepsParams (callManifoldWithFallback cl addr f args ci)"
  unfolding callManifoldWithFallback_def
  by (intro keepsParams_thenDo keepsParams_settle keepsParams_read keepsParams_ret)

lemma keepsParams_await [simp]: "keepsParams (await cl p)"
  by (cases p) (simp_all add: await_def)

lemma keepsParams_abandon [simp]: "keepsParams (abandon p)"
  by (cases p) (simp_all add: keepsParams_def abandon_def)

lemma keepsParams_reject [simp]: "keepsParams (reject e)"
  by (simp add: keepsParams_def reject_def)

lemma keepsParams_runCalls [simp]: "keepsParams (runCalls cl cs)"
proof (induction cs)
  case Nil
  then show ?case by simp
next
  case (Cons c cs)
  have "\<And>r. keepsParams (case r of Inl e \<Rightarrow> reject e | Inr v \<Rightarrow> ret ())"
    by (simp split: sum.splits)
  then show ?case
    unfolding runCalls.simps
    by (intro keepsParams_thenDo keepsParams_settle keepsParams_read Cons)
qed

lemma keepsParams_runDetached [simp]: "keepsParams (runDetached cl)"
proof (rule keepsParamsI)
  fix s r s'
  assume "runDetached cl s = (r, s')"
  then have "runCalls cl (st_detached s) (s\<lparr>st_detached := []\<rparr>) = (r, s')"
    by (simp add: runDetached_def)
  from keepsParamsD[OF keepsParams_runCalls this] show "st_params s' = st_params s"
    by simp
qed

lemma keepsParams_claimDispatch [simp]: "keepsParams (claimDispatch rt cl p ci)"
  unfolding claimDispatch_def
  by (intro keepsParams_if keepsParams_thenDo keepsParams_callManifoldWithFallback keepsParams_lift
        keepsParams_ret)

lemma keepsParams_manifoldLookups [simp]: "keepsParams (manifoldLookups rt cl)"
proof -
  have "\<And>cp. keepsParams (case cp of None \<Rightarrow> ret JNull | Some p \<Rightarrow> orDefault (await cl p) JNull)"
    by (simp add: keepsParams_orDefault split: option.splits)
  then show ?thesis
    unfolding manifoldLookups_def
    by (intro keepsParams_thenDo keepsParams_tryCatch keepsParams_orDefault keepsParams_getParams
          keepsParams_getInfo keepsParams_callManifoldWithFallback keepsParams_claimDispatch
          keepsParams_abandon keepsParams_raise keepsParams_await keepsParams_ret)
qed

lemma keepsParams_erc20Batch [simp]: "keepsParams (erc20Batch rt cl token rcpt spender)"
  unfolding erc20Batch_def
  by (intro keepsParams_thenDo keepsParams_settle keepsParams_orDefault keepsParams_if
        keepsParams_read keepsParams_ret keepsParams_lift)

lemma keepsParams_manifoldPrice [simp]: "keepsParams (manifoldPrice rt cl mintFee c)"
  unfolding manifoldPrice_def
  by (intro keepsParams_thenDo keepsParams_if keepsParams_erc20Batch keepsParams_setClaim
        keepsParams_getParams keepsParams_getInfo keepsParams_ret keepsParams_lift)

lemma keepsParams_manifoldFeeOnly [simp]: "keepsParams (manifoldFeeOnly cl)"
  unfolding manifoldFeeOnly_def
  by (intro keepsParams_thenDo keepsParams_tryCatch keepsParams_callManifoldWithFallback
        keepsParams_runDetached keepsParams_await keepsParams_getInfo keepsParams_ret)

lemma extractClaim_adopts:
  assumes "strTruthy (tokenId (st_params s))" and "\<not> strTruthy (instanceId (st_params s))"
    and "a \<noteq> JUndefined" and "a \<noteq> JNull"
  shows "extractClaim rt (JArr [a, b]) s =
           (Inr b, s\<lparr>st_params := (st_params s)\<lparr>instanceId := Some (jsToString rt a)\<rparr>\<rparr>)"
  using assms by (simp add: extractClaim_def toStringMethod_def setInstanceId_def)

lemma extractClaim_keeps:
  assumes "strTruthy (tokenId (st_params s))" and "strTruthy (instanceId (st_params s))"
  shows "extractClaim rt (JArr [a, b]) s = (Inr b, s)"
  using assms by (simp add: extractClaim_def)

text \<open>The run of the two lookups for a request by token id, read off the four steps
  of the source: the fee promise is created, the claim promise is created, the fee
  promise is awaited with its \<^verbatim>\<open>catch\<close>, the claim promise is awaited.\<close>

lemma manifoldLookups_token:
  assumes t1: "strTruthy (tokenId (st_params s))" and t2: "\<not> strTruthy (instanceId (st_params s))"
    and parse: "StringToBigInt rt (strOf (tokenId (st_params s))) = Some n"
    and fee: "callManifoldWithFallback cl (extAddr (st_info s)) ''MINT_FEE'' [] (st_info s) s
                = (Inr feePromise, sf)"
    and look: "callManifoldWithFallback cl (extAddr (st_info s)) ''getClaimForToken''
                 [JStr (contractAddress (st_params s)), JBigInt n] (st_info s) sf = (Inr claimPromise, sg)"
    and feeAwait: "orDefault (await cl feePromise) JNull sg = (Inr mintFee, sh)"
    and lookAwait: "await cl claimPromise sh = (Inr claimData, sl)"
  shows "manifoldLookups rt cl s = (Inr (mintFee, claimData), sl)"
proof -
  have d: "claimDispatch rt cl (st_params s) (st_info s) sf = (Inr (Some claimPromise), sg)"
    using t1 t2 parse look by (simp add: claimDispatch_def stringToBigInt_def)
  have la: "orDefault (await cl claimPromise) JNull sh = (Inr claimData, sl)"
    using lookAwait by (simp add: orDefault_def)
  show ?thesis
    using fee d feeAwait la by (simp add: manifoldLookups_def)
qed

lemma manifold_token_lookup:
  assumes m1: "info_provider (st_info s) = Manifold" and m2: "optTruthy (extensionAddress (st_info s))"
    and t1: "strTruthy (tokenId (st_params s))" and t2: "\<not> strTruthy (instanceId (st_params s))"
    and parse: "StringToBigInt rt (strOf (tokenId (st_params s))) = Some n"
    and fee: "callManifoldWithFallback cl (extAddr (st_info s)) ''MINT_FEE'' [] (st_info s) s
                = (Inr feePromise, sf)"
    and look: "callManifoldWithFallback cl (extAddr (st_info s)) ''getClaimForToken''
                 [JStr (contractAddress (st_params s)), JBigInt n] (st_info s) sf = (Inr claimPromise, sg)"
    and feeAwait: "orDefault (await cl feePromise) JNull sg = (Inr mintFee, sh)"
    and lookAwait: "await cl claimPromise sh = (Inr (JArr [a, b]), sl)"
    and a: "a \<noteq> JUndefined" "a \<noteq> JNull"
  shows "fetchPriceData rt std cl s =
           tryCatch (manifoldPrice rt cl mintFee b) (\<lambda>err. manifoldFeeOnly cl)
             (sl\<lparr>st_params := (st_params s)\<lparr>instanceId := Some (jsToString rt a)\<rparr>\<rparr>)"
proof -
  have lk: "manifoldLookups rt cl s = (Inr (mintFee, JArr [a, b]), sl)"
    by (rule manifoldLookups_token[OF t1 t2 parse fee look feeAwait lookAwait])
  have p2: "st_params sl = st_params s"
    by (rule keepsParamsD[OF keepsParams_manifoldLookups lk])
  have ex: "extractClaim rt (JArr [a, b]) sl =
           (Inr b, sl\<lparr>st_params := (st_params s)\<lparr>instanceId := Some (jsToString rt a)\<rparr>\<rparr>)"
    using extractClaim_adopts[of sl a rt b] t1 t2 a p2 by simp
  have body: "manifoldBody rt cl s =
      manifoldPrice rt cl mintFee b (sl\<lparr>st_params := (st_params s)\<lparr>instanceId := Some (jsToString rt a)\<rparr>\<rparr>)"
    using lk ex by (simp add: manifoldBody_def manifoldClaim_def)
  have "fetchPriceData rt std cl s = manifoldBranch rt cl s"
    using m1 m2 by (simp add: fetchPriceData_def Let_def)
  also have "\<dots> = tryCatch (manifoldPrice rt cl mintFee b) (\<lambda>err. manifoldFeeOnly cl)
             (sl\<lparr>st_params := (st_params s)\<lparr>instanceId := Some (jsToString rt a)\<rparr>\<rparr>)"
    using body by (simp add: manifoldBranch_def tryCatch_def)
  finally show ?thesis .
qed

lemma manifold_token_lookup_params:
  assumes m1: "info_provider (st_info s) = Manifold" and m2: "optTruthy (extensionAddress (st_info s))"
    and t1: "strTruthy (tokenId (st_params s))" and t2: "\<not> strTruthy (instanceId (st_params s))"
    and parse: "StringToBigInt rt (strOf (tokenId (st_params s))) = Some n"
    and fee: "callManifoldWithFallback cl (extAddr (st_info s)) ''MINT_FEE'' [] (st_info s) s
                = (Inr feePromise, sf)"
    and look: "callManifoldWithFallback cl (extAddr (st_info s)) ''getClaimForToken''
                 [JStr (contractAddress (st_params s)), JBigInt n] (st_info s) sf = (Inr claimPromise, sg)"
    and feeAwait: "orDefault (await cl feePromise) JNull sg = (Inr mintFee, sh)"
    and lookAwait: "await cl claimPromise sh = (Inr (JArr [a, b]), sl)"
    and a: "a \<noteq> JUndefined" "a \<noteq> JNull"
  shows "st_params (snd (fetchPriceData rt std cl s)) =
           (st_params s)\<lparr>instanceId := Some (jsToString rt a)\<rparr>"
proof -
  let ?s3 = "sl\<lparr>st_params := (st_params s)\<lparr>instanceId := Some (jsToString rt a)\<rparr>\<rparr>"
  have kp: "keepsParams (tryCatch (manifoldPrice rt cl mintFee b) (\<lambda>err. manifoldFeeOnly cl))"
    by (rule keepsParams_tryCatch) simp_all
  have eq: "fetchPriceData rt std cl s =
      tryCatch (manifoldPrice rt cl mintFee b) (\<lambda>err. manifoldFeeOnly cl) ?s3"
    by (rule manifold_token_lookup[OF m1 m2 t1 t2 parse fee look feeAwait lookAwait a])
  let ?run = "tryCatch (manifoldPrice rt cl mintFee b) (\<lambda>err. manifoldFeeOnly cl) ?s3"
  have "?run = (fst ?run, snd ?run)" by simp
  from keepsParamsD[OF kp this] have "st_params (snd ?run) = st_params ?s3" .
  with eq show ?thesis by simp
qed


text \<open>
  C5. For a request with a token id, when the claim data is a 2-tuple whose first
  element is not null or undefined, the resolver takes the second element as the claim
  record, and writes the string form of the first element to the instance id exactly
  when the caller supplied no instance id. In the whole resolver: for an
  extension-claim classification with an extension address, a token id that
  \<^verbatim>\<open>BigInt\<close> accepts and no instance id, when the token-id lookup
  \<^verbatim>\<open>getClaimForToken\<close> (under either ABI) returns such a 2-tuple, the rest of the
  protocol runs on the second element as the claim and with the first element as the
  instance id. The lookup is the source's: the fee promise and the lookup promise are
  created in this order and awaited in this order.
\<close>

theorem fetchPriceData_token_lookup_tuple:
  assumes "strTruthy (tokenId (st_params s))" and "a \<noteq> JUndefined" and "a \<noteq> JNull"
  shows "extractClaim rt (JArr [a, b]) s =
           (Inr b, if strTruthy (instanceId (st_params s)) then s
                   else s\<lparr>st_params := (st_params s)\<lparr>instanceId := Some (jsToString rt a)\<rparr>\<rparr>)
       \<and> (info_provider (st_info s) = Manifold \<and> optTruthy (extensionAddress (st_info s)) \<and>
          \<not> strTruthy (instanceId (st_params s)) \<and>
          StringToBigInt rt (strOf (tokenId (st_params s))) = Some n \<and>
          callManifoldWithFallback cl (extAddr (st_info s)) ''MINT_FEE'' [] (st_info s) s
            = (Inr feePromise, sf) \<and>
          callManifoldWithFallback cl (extAddr (st_info s)) ''getClaimForToken''
            [JStr (contractAddress (st_params s)), JBigInt n] (st_info s) sf = (Inr claimPromise, sg) \<and>
          orDefault (await cl feePromise) JNull sg = (Inr mintFee, sh) \<and>
          await cl claimPromise sh = (Inr (JArr [a, b]), sl) \<longrightarrow>
            fetchPriceData rt std cl s =
              tryCatch (manifoldPrice rt cl mintFee b) (\<lambda>err. manifoldFeeOnly cl)
                (sl\<lparr>st_params := (st_params s)\<lparr>instanceId := Some (jsToString rt a)\<rparr>\<rparr>))"
proof (intro conjI impI)
  show "extractClaim rt (JArr [a, b]) s =
           (Inr b, if strTruthy (instanceId (st_params s)) then s
                   else s\<lparr>st_params := (st_params s)\<lparr>instanceId := Some (jsToString rt a)\<rparr>\<rparr>)"
    using assms extractClaim_adopts[of s a rt b] extractClaim_keeps[of s rt a b] by simp
next
  assume h: "info_provider (st_info s) = Manifold \<and> optTruthy (extensionAddress (st_info s)) \<and>
          \<not> strTruthy (instanceId (st_params s)) \<and>
          StringToBigInt rt (strOf (tokenId (st_params s))) = Some n \<and>
          callManifoldWithFallback cl (extAddr (st_info s)) ''MINT_FEE'' [] (st_info s) s
            = (Inr feePromise, sf) \<and>
          callManifoldWithFallback cl (extAddr (st_info s)) ''getClaimForToken''
            [JStr (contractAddress (st_params s)), JBigInt n] (st_info s) sf = (Inr claimPromise, sg) \<and>
          orDefault (await cl feePromise) JNull sg = (Inr mintFee, sh) \<and>
          await cl claimPromise sh = (Inr (JArr [a, b]), sl)"
  show "fetchPriceData rt std cl s =
              tryCatch (manifoldPrice rt cl mintFee b) (\<lambda>err. manifoldFeeOnly cl)
                (sl\<lparr>st_params := (st_params s)\<lparr>instanceId := Some (jsToString rt a)\<rparr>\<rparr>)"
    by (rule manifold_token_lookup[where sf=sf and sg=sg and sh=sh and feePromise=feePromise
          and claimPromise=claimPromise,
          OF h[THEN conjunct1]
          h[THEN conjunct2, THEN conjunct1]
          assms(1)
          h[THEN conjunct2, THEN conjunct2, THEN conjunct1]
          h[THEN conjunct2, THEN conjunct2, THEN conjunct2, THEN conjunct1]
          h[THEN conjunct2, THEN conjunct2, THEN conjunct2, THEN conjunct2, THEN conjunct1]
          h[THEN conjunct2, THEN conjunct2, THEN conjunct2, THEN conjunct2, THEN conjunct2, THEN conjunct1]
          h[THEN conjunct2, THEN conjunct2, THEN conjunct2, THEN conjunct2, THEN conjunct2, THEN conjunct2,
            THEN conjunct1]
          h[THEN conjunct2, THEN conjunct2, THEN conjunct2, THEN conjunct2, THEN conjunct2, THEN conjunct2,
            THEN conjunct2]
          assms(2) assms(3)])
qed

lemma tokenState_facts:
  "strTruthy (tokenId (st_params tokenState))"
  "\<not> strTruthy (instanceId (st_params tokenState))"
  "info_provider (st_info tokenState) = Manifold"
  "optTruthy (extensionAddress (st_info tokenState))"
  "StringToBigInt sampleRuntime (strOf (tokenId (st_params tokenState))) = Some 7"
  by (simp_all add: tokenState_def sampleParams_def manifoldInfo_def strTruthy_def optTruthy_def
        strOf_def sampleRuntime_def)

lemma tokenState_fee:
  "callManifoldWithFallback tokenClaimClient (extAddr (st_info tokenState)) ''MINT_FEE'' []
      (st_info tokenState) tokenState
   = (Inr (Resolved (JBigInt 500)), tokenState\<lparr>calls := [tokenFeeCall]\<rparr>)"
  by (simp add: callManifoldWithFallback_def primaryABI_def tokenClaimClient_def
        tokenState_def manifoldInfo_def extAddr_def tokenFeeCall_def)

lemma tokenState_lookup:
  "callManifoldWithFallback tokenClaimClient (extAddr (st_info tokenState)) ''getClaimForToken''
      [JStr (contractAddress (st_params tokenState)), JBigInt 7] (st_info tokenState)
      (tokenState\<lparr>calls := [tokenFeeCall]\<rparr>)
   = (Inr (Resolved (JArr [JBigInt 42, nativeClaim])), tokenState\<lparr>calls := [tokenFeeCall, tokenLookupCall]\<rparr>)"
  by (simp add: callManifoldWithFallback_def primaryABI_def tokenClaimClient_def
        tokenState_def manifoldInfo_def extAddr_def tokenFeeCall_def tokenLookupCall_def sampleParams_def)

lemma tokenState_fee_await:
  "orDefault (await tokenClaimClient (Resolved (JBigInt 500))) JNull
      (tokenState\<lparr>calls := [tokenFeeCall, tokenLookupCall]\<rparr>)
   = (Inr (JBigInt 500), tokenState\<lparr>calls := [tokenFeeCall, tokenLookupCall]\<rparr>)"
  by (simp add: orDefault_def await_def)

lemma tokenState_lookup_await:
  "await tokenClaimClient (Resolved (JArr [JBigInt 42, nativeClaim]))
      (tokenState\<lparr>calls := [tokenFeeCall, tokenLookupCall]\<rparr>)
   = (Inr (JArr [JBigInt 42, nativeClaim]), tokenState\<lparr>calls := [tokenFeeCall, tokenLookupCall]\<rparr>)"
  by (simp add: await_def)

theorem fetchPriceData_token_lookup_tuple_witness:
  "fst (fetchPriceData sampleRuntime sampleStandards tokenClaimClient tokenState)
     = Inr \<lparr> mintPrice = Some (JBigInt 500), erc20Details = None, totalCost = JBigInt 1500,
             q_claim = Some \<lparr> cost = JBigInt 1000, merkleRoot = JStr zeroBytes32, erc20 = JStr zeroAddress,
                               startDate = JNum (Finite 0), endDate = JNum (Finite 0),
                               walletMax = JNum (Finite 1) \<rparr> \<rparr>"
proof -
  have a: "JBigInt 42 \<noteq> JUndefined" "JBigInt 42 \<noteq> JNull" by simp_all
  note inst = fetchPriceData_token_lookup_tuple[where s=tokenState and a="JBigInt 42" and b=nativeClaim
      and rt=sampleRuntime and std=sampleStandards and cl=tokenClaimClient and n=7
      and mintFee="JBigInt 500" and feePromise="Resolved (JBigInt 500)"
      and claimPromise="Resolved (JArr [JBigInt 42, nativeClaim])"
      and sf="tokenState\<lparr>calls := [tokenFeeCall]\<rparr>"
      and sg="tokenState\<lparr>calls := [tokenFeeCall, tokenLookupCall]\<rparr>"
      and sh="tokenState\<lparr>calls := [tokenFeeCall, tokenLookupCall]\<rparr>"
      and sl="tokenState\<lparr>calls := [tokenFeeCall, tokenLookupCall]\<rparr>",
      OF tokenState_facts(1) a]
  have h: "info_provider (st_info tokenState) = Manifold \<and> optTruthy (extensionAddress (st_info tokenState)) \<and>
          \<not> strTruthy (instanceId (st_params tokenState)) \<and>
          StringToBigInt sampleRuntime (strOf (tokenId (st_params tokenState))) = Some 7 \<and>
          callManifoldWithFallback tokenClaimClient (extAddr (st_info tokenState)) ''MINT_FEE'' []
             (st_info tokenState) tokenState
            = (Inr (Resolved (JBigInt 500)), tokenState\<lparr>calls := [tokenFeeCall]\<rparr>) \<and>
          callManifoldWithFallback tokenClaimClient (extAddr (st_info tokenState)) ''getClaimForToken''
            [JStr (contractAddress (st_params tokenState)), JBigInt 7] (st_info tokenState)
            (tokenState\<lparr>calls := [tokenFeeCall]\<rparr>)
            = (Inr (Resolved (JArr [JBigInt 42, nativeClaim])),
               tokenState\<lparr>calls := [tokenFeeCall, tokenLookupCall]\<rparr>) \<and>
          orDefault (await tokenClaimClient (Resolved (JBigInt 500))) JNull
             (tokenState\<lparr>calls := [tokenFeeCall, tokenLookupCall]\<rparr>)
            = (Inr (JBigInt 500), tokenState\<lparr>calls := [tokenFeeCall, tokenLookupCall]\<rparr>) \<and>
          await tokenClaimClient (Resolved (JArr [JBigInt 42, nativeClaim]))
             (tokenState\<lparr>calls := [tokenFeeCall, tokenLookupCall]\<rparr>)
            = (Inr (JArr [JBigInt 42, nativeClaim]), tokenState\<lparr>calls := [tokenFeeCall, tokenLookupCall]\<rparr>)"
    by (intro conjI tokenState_facts tokenState_fee tokenState_lookup tokenState_fee_await
          tokenState_lookup_await)
  from mp[OF conjunct2[OF inst] h]
  have "fetchPriceData sampleRuntime sampleStandards tokenClaimClient tokenState =
          tryCatch (manifoldPrice sampleRuntime tokenClaimClient (JBigInt 500) nativeClaim)
            (\<lambda>err. manifoldFeeOnly tokenClaimClient)
            (tokenState\<lparr>calls := [tokenFeeCall, tokenLookupCall],
               st_params := (st_params tokenState)\<lparr>instanceId := Some (jsToString sampleRuntime (JBigInt 42))\<rparr>\<rparr>)"
    by simp
  then show ?thesis
    by (simp add: manifoldPrice_def tokenState_def claimInvalid_def nativeClaim_def setClaim_def
          feeOrZero_def jsAdd_def zeroAddress_def strTruthy_def sampleParams_def)
qed

text \<open>
  C9. Under the same conditions (extension-claim classification with an extension
  address, a token id and no instance id from the caller, a token-id lookup that returns
  a 2-tuple whose first element is not null or undefined), when the resolver returns,
  the caller's \<^verbatim>\<open>params\<close> object differs from the one passed in only in its instance
  id, which holds the string form of the tuple's first element. This holds whatever
  happens after the lookup, whether the protocol completes, degrades to the fee, or
  falls back.
\<close>

theorem fetchPriceData_writes_instanceId:
  assumes "info_provider (st_info s) = Manifold" and "optTruthy (extensionAddress (st_info s))"
    and "strTruthy (tokenId (st_params s))" and "\<not> strTruthy (instanceId (st_params s))"
    and "StringToBigInt rt (strOf (tokenId (st_params s))) = Some n"
    and "callManifoldWithFallback cl (extAddr (st_info s)) ''MINT_FEE'' [] (st_info s) s
           = (Inr feePromise, sf)"
    and "callManifoldWithFallback cl (extAddr (st_info s)) ''getClaimForToken''
           [JStr (contractAddress (st_params s)), JBigInt n] (st_info s) sf = (Inr claimPromise, sg)"
    and "orDefault (await cl feePromise) JNull sg = (Inr mintFee, sh)"
    and "await cl claimPromise sh = (Inr (JArr [a, b]), sl)"
    and "a \<noteq> JUndefined" and "a \<noteq> JNull"
  shows "st_params (snd (fetchPriceData rt std cl s)) =
           (st_params s)\<lparr>instanceId := Some (jsToString rt a)\<rparr>"
  by (rule manifold_token_lookup_params[OF assms])

theorem fetchPriceData_writes_instanceId_witness:
  "st_params (snd (fetchPriceData sampleRuntime sampleStandards tokenClaimClient tokenState))
     = sampleParams\<lparr>tokenId := Some ''7'', instanceId := Some ''42''\<rparr>"
proof -
  have a: "JBigInt 42 \<noteq> JUndefined" "JBigInt 42 \<noteq> JNull" by simp_all
  from fetchPriceData_writes_instanceId[where s=tokenState and rt=sampleRuntime and std=sampleStandards
      and cl=tokenClaimClient,
      OF tokenState_facts(3) tokenState_facts(4) tokenState_facts(1) tokenState_facts(2)
         tokenState_facts(5) tokenState_fee tokenState_lookup tokenState_fee_await
         tokenState_lookup_await a]
  show ?thesis
    by (simp add: tokenState_def sampleRuntime_def)
qed


subsection \<open>The resolver: fallbacks\<close>

lemma noThrow_getInfo [simp]: "noThrow getInfo"
  by (simp add: noThrow_def)

lemma noThrow_getParams [simp]: "noThrow getParams"
  by (simp add: noThrow_def)

lemma noThrow_manifoldFeeOnly [simp]: "noThrow (manifoldFeeOnly cl)"
  unfolding manifoldFeeOnly_def
  by (intro noThrow_thenDo noThrow_tryCatch noThrow_getInfo noThrow_ret)

lemma noThrow_manifoldBranch [simp]: "noThrow (manifoldBranch rt cl)"
  unfolding manifoldBranch_def by (rule noThrow_tryCatch) simp

lemma noThrow_thirdweb721Branch [simp]: "noThrow (thirdweb721Branch rt std cl)"
  unfolding thirdweb721Branch_def by (rule noThrow_tryCatch) simp

lemma noThrow_nfts2mePattern1 [simp]: "noThrow (nfts2mePattern1 cl p)"
  unfolding nfts2mePattern1_def by (rule noThrow_tryCatch) simp

lemma noThrow_nfts2mePattern2 [simp]: "noThrow (nfts2mePattern2 rt cl p)"
  unfolding nfts2mePattern2_def by (rule noThrow_tryCatch) simp

lemma noThrow_nfts2meDefault: "amountBigInt p = Inr a \<Longrightarrow> noThrow (nfts2meDefault p)"
  by (simp add: nfts2meDefault_def noThrow_def)

lemma noThrow_thirdwebAccessor [simp]: "noThrow (thirdwebAccessor cl p f)"
  unfolding thirdwebAccessor_def by (rule noThrow_tryCatch) simp

lemma noThrow_thirdwebTokenCondition [simp]: "noThrow (thirdwebTokenCondition cl p)"
  unfolding thirdwebTokenCondition_def by (rule noThrow_tryCatch) simp

lemma noThrow_thirdwebKnownOrFree:
  "(toLowerCase (contractAddress p) = overrideAddress \<longrightarrow> amountBigInt p = Inr a) \<Longrightarrow>
   noThrow (thirdwebKnownOrFree p)"
  by (simp add: thirdwebKnownOrFree_def noThrow_def)

lemma noThrow_case_option:
  "noThrow n \<Longrightarrow> (\<And>q. noThrow (f q)) \<Longrightarrow> noThrow (case r of None \<Rightarrow> n | Some q \<Rightarrow> f q)"
  by (cases r) simp_all

lemma noThrow_genericLoop [simp]: "noThrow (genericLoop cl config p fs)"
proof (induction fs)
  case Nil
  then show ?case by simp
next
  case (Cons f fs)
  show ?case
    unfolding genericLoop.simps
    by (intro noThrow_thenDo noThrow_tryCatch noThrow_case_option noThrow_ret Cons)
qed

lemma nfts2meBranch_returns:
  assumes "amountBigInt (st_params s) = Inr a"
  shows "\<exists>q s'. nfts2meBranch rt cl s = (Inr q, s')"
proof -
  let ?p = "st_params s"
  have nt: "noThrow (thenDo (nfts2mePattern1 cl ?p) (\<lambda>r1.
       case r1 of
         Some q \<Rightarrow> ret q
       | None \<Rightarrow>
           thenDo (nfts2mePattern2 rt cl ?p) (\<lambda>r2.
             case r2 of
               Some q \<Rightarrow> ret q
             | None \<Rightarrow> nfts2meDefault ?p)))"
    by (intro noThrow_thenDo noThrow_case_option noThrow_ret noThrow_nfts2mePattern1
          noThrow_nfts2mePattern2 noThrow_nfts2meDefault[OF assms])
  from noThrowD[OF nt, of s] show ?thesis
    by (simp add: nfts2meBranch_def)
qed

lemma thirdweb1155Branch_returns:
  assumes "toLowerCase (contractAddress (st_params s)) = overrideAddress \<longrightarrow>
           amountBigInt (st_params s) = Inr a"
  shows "\<exists>q s'. thirdweb1155Branch cl s = (Inr q, s')"
proof -
  let ?p = "st_params s"
  have nt: "noThrow (thenDo (thirdwebAccessor cl ?p ''price'') (\<lambda>r1.
       case r1 of Some q \<Rightarrow> ret q | None \<Rightarrow>
     thenDo (thirdwebAccessor cl ?p ''mintPrice'') (\<lambda>r2.
       case r2 of Some q \<Rightarrow> ret q | None \<Rightarrow>
     thenDo (thirdwebTokenCondition cl ?p) (\<lambda>r3.
       case r3 of Some q \<Rightarrow> ret q | None \<Rightarrow>
     thirdwebKnownOrFree ?p))))"
    by (intro noThrow_thenDo noThrow_case_option noThrow_ret noThrow_thirdwebAccessor
          noThrow_thirdwebTokenCondition noThrow_thirdwebKnownOrFree[OF assms])
  from noThrowD[OF nt, of s] show ?thesis
    by (simp add: thirdweb1155Branch_def)
qed

text \<open>The resolver returns a quote. Only two places convert the amount outside any
  \<^verbatim>\<open>try\<close>: the default fees of the self-deploy branch and the fixed price of the known
  contract; everywhere else the amount plays no part in whether a quote is returned.\<close>

lemma fetchPriceData_returns:
  assumes "info_provider (st_info s) = Nfts2me \<or>
           (info_provider (st_info s) = Thirdweb \<and> truthy (isERC1155 (st_info s)) \<and>
            toLowerCase (contractAddress (st_params s)) = overrideAddress)
           \<longrightarrow> amountBigInt (st_params s) = Inr a"
  shows "\<exists>q s'. fetchPriceData rt std cl s = (Inr q, s')"
proof -
  let ?ci = "st_info s"
  let ?config = "getProviderConfig std (info_provider ?ci) (Some ?ci) None"
  consider (m) "info_provider ?ci = Manifold \<and> optTruthy (extensionAddress ?ci)"
    | (n) "\<not> (info_provider ?ci = Manifold \<and> optTruthy (extensionAddress ?ci))" "info_provider ?ci = Nfts2me"
    | (t1) "info_provider ?ci = Thirdweb" "truthy (isERC1155 ?ci)"
    | (t2) "info_provider ?ci = Thirdweb" "\<not> truthy (isERC1155 ?ci)"
    | (g) "\<not> (info_provider ?ci = Manifold \<and> optTruthy (extensionAddress ?ci))"
          "info_provider ?ci \<noteq> Nfts2me" "info_provider ?ci \<noteq> Thirdweb"
    by blast
  then show ?thesis
  proof cases
    case m
    then have "fetchPriceData rt std cl s = manifoldBranch rt cl s"
      by (simp add: fetchPriceData_def Let_def)
    with noThrowD[OF noThrow_manifoldBranch, of rt cl s] show ?thesis by simp
  next
    case n
    with assms have amt: "amountBigInt (st_params s) = Inr a" by simp
    from n have "fetchPriceData rt std cl s = nfts2meBranch rt cl s"
      by (simp add: fetchPriceData_def Let_def)
    with nfts2meBranch_returns[OF amt, of rt cl] show ?thesis by simp
  next
    case t1
    with assms have amt: "toLowerCase (contractAddress (st_params s)) = overrideAddress \<longrightarrow>
           amountBigInt (st_params s) = Inr a" by simp
    from t1 have "fetchPriceData rt std cl s = thirdweb1155Branch cl s"
      by (simp add: fetchPriceData_def Let_def)
    with thirdweb1155Branch_returns[OF amt, of cl] show ?thesis by simp
  next
    case t2
    then have "fetchPriceData rt std cl s = thirdweb721Branch rt std cl s"
      by (simp add: fetchPriceData_def Let_def)
    with noThrowD[OF noThrow_thirdweb721Branch, of rt std cl s] show ?thesis by simp
  next
    case g
    then have "fetchPriceData rt std cl s =
        genericLoop cl ?config (st_params s) (functionNames (priceDiscovery ?config)) s"
      by (auto simp add: fetchPriceData_def Let_def)
    with noThrowD[OF noThrow_genericLoop, of cl ?config "st_params s" "functionNames (priceDiscovery ?config)" s]
    show ?thesis by simp
  qed
qed

subsection \<open>Extension-claim pricing: the catch block\<close>

lemma settle_read:
  "settle (read cl c) s =
     (Inr (case cl (calls s) c of None \<Rightarrow> Inl CallFailed | Some v \<Rightarrow> Inr v), s\<lparr>calls := calls s @ [c]\<rparr>)"
  by (simp add: settle_def read_def onCalls_def readContract_def)


lemma callManifoldWithFallback_Some:
  "cl (calls s) (Call addr (primaryABI ci) f args) = Some v \<Longrightarrow>
   callManifoldWithFallback cl addr f args ci s =
     (Inr (Resolved v), s\<lparr>calls := calls s @ [Call addr (primaryABI ci) f args]\<rparr>)"
  by (simp add: callManifoldWithFallback_def settle_read)

lemma callManifoldWithFallback_None:
  "cl (calls s) (Call addr (primaryABI ci) f args) = None \<Longrightarrow>
   callManifoldWithFallback cl addr f args ci s =
     (Inr (Fallback (Call addr (fallbackABI ci) f args)),
      s\<lparr>calls := calls s @ [Call addr (primaryABI ci) f args]\<rparr>)"
  by (simp add: callManifoldWithFallback_def settle_read)

lemma runDetached_none: "st_detached s = [] \<Longrightarrow> runDetached cl s = (Inr (), s)"
  by (cases s) (simp add: runDetached_def)

lemma manifold_retry:
  assumes "info_provider (st_info s) = Manifold" and "optTruthy (extensionAddress (st_info s))"
    and "manifoldBody rt cl s = (Inl e, sb)"
  shows "fetchPriceData rt std cl s = manifoldFeeOnly cl sb"
  using assms by (simp add: fetchPriceData_def Let_def manifoldBranch_def)

lemma manifoldFeeOnly_primary:
  assumes "st_detached sb = []"
    and "cl (calls sb) (primaryFeeCall (st_info sb)) = Some fee"
  shows "manifoldFeeOnly cl sb =
           (Inr (quote (Some fee) fee), sb\<lparr>calls := calls sb @ [primaryFeeCall (st_info sb)]\<rparr>)"
  using assms
  by (simp add: manifoldFeeOnly_def primaryFeeCall_def callManifoldWithFallback_Some
        runDetached_none await_def)

lemma manifoldFeeOnly_fallback:
  assumes "st_detached sb = []"
    and "cl (calls sb) (primaryFeeCall (st_info sb)) = None"
    and "cl (calls sb @ [primaryFeeCall (st_info sb)]) (fallbackFeeCall (st_info sb)) = Some fee"
  shows "manifoldFeeOnly cl sb =
           (Inr (quote (Some fee) fee),
            sb\<lparr>calls := calls sb @ [primaryFeeCall (st_info sb), fallbackFeeCall (st_info sb)]\<rparr>)"
  using assms
  by (simp add: manifoldFeeOnly_def primaryFeeCall_def fallbackFeeCall_def
        callManifoldWithFallback_None runDetached_none await_def)

lemma manifoldFeeOnly_default:
  assumes "st_detached sb = []"
    and "cl (calls sb) (primaryFeeCall (st_info sb)) = None"
    and "cl (calls sb @ [primaryFeeCall (st_info sb)]) (fallbackFeeCall (st_info sb)) = None"
  shows "manifoldFeeOnly cl sb =
           (Inr (quote None (JBigInt 500000000000000)),
            sb\<lparr>calls := calls sb @ [primaryFeeCall (st_info sb), fallbackFeeCall (st_info sb)]\<rparr>)"
  using assms
  by (simp add: manifoldFeeOnly_def primaryFeeCall_def fallbackFeeCall_def
        callManifoldWithFallback_None runDetached_none await_def defaultManifoldFee_def)

lemma manifoldFeeOnly_shape:
  "\<exists>q sc. manifoldFeeOnly cl sb = (Inr q, sc) \<and> erc20Details q = None \<and> q_claim q = None \<and>
      ((\<exists>fee. q = quote (Some fee) fee) \<or> q = quote None (JBigInt defaultManifoldFee))"
  by (auto simp add: manifoldFeeOnly_def thenDo_def tryCatch_def quote_def
        split: prod.splits sum.splits)

subsection \<open>No promise is left behind\<close>

lemma quietI:
  "(\<And>s r s'. m s = (r, s') \<Longrightarrow> st_detached s' = st_detached s \<and> st_unhandled s' = st_unhandled s)
   \<Longrightarrow> quiet m"
  by (simp add: quiet_def)

lemma quietD:
  "quiet m \<Longrightarrow> m s = (r, s') \<Longrightarrow> st_detached s' = st_detached s \<and> st_unhandled s' = st_unhandled s"
  by (simp add: quiet_def)

lemma quiet_ret [simp]: "quiet (ret x)"
  by (simp add: quiet_def)

lemma quiet_Pair [simp]: "quiet (Pair r)"
  by (simp add: quiet_def)

lemma quiet_raise [simp]: "quiet (raise e)"
  by (simp add: quiet_def)

lemma quiet_lift [simp]: "quiet (lift r)"
  by (simp add: quiet_def)

lemma quiet_read [simp]: "quiet (read cl c)"
  by (auto simp add: quiet_def read_def onCalls_def readContract_def)

lemma quiet_getParams [simp]: "quiet getParams"
  by (simp add: quiet_def)

lemma quiet_getInfo [simp]: "quiet getInfo"
  by (simp add: quiet_def)

lemma quiet_setInstanceId [simp]: "quiet (setInstanceId str)"
  by (auto simp add: quiet_def setInstanceId_def)

lemma quiet_setClaim [simp]: "quiet (setClaim c)"
  by (auto simp add: quiet_def setClaim_def)

lemma quiet_setClaimCondition [simp]: "quiet (setClaimCondition c)"
  by (auto simp add: quiet_def setClaimCondition_def)

lemma quiet_thenDo:
  assumes "quiet m" and "\<And>x. quiet (f x)"
  shows "quiet (thenDo m f)"
proof (rule quietI)
  fix s r s'
  assume run: "thenDo m f s = (r, s')"
  obtain r1 s1 where m: "m s = (r1, s1)" by (cases "m s")
  from quietD[OF assms(1) m]
  have p1: "st_detached s1 = st_detached s \<and> st_unhandled s1 = st_unhandled s" .
  show "st_detached s' = st_detached s \<and> st_unhandled s' = st_unhandled s"
  proof (cases r1)
    case (Inl e)
    with run m have "s' = s1" by simp
    with p1 show ?thesis by simp
  next
    case (Inr x)
    with run m have "f x s1 = (r, s')" by simp
    from quietD[OF assms(2) this] p1 show ?thesis by simp
  qed
qed

lemma quiet_tryCatch:
  assumes "quiet m" and "\<And>e. quiet (h e)"
  shows "quiet (tryCatch m h)"
proof (rule quietI)
  fix s r s'
  assume run: "tryCatch m h s = (r, s')"
  obtain r1 s1 where m: "m s = (r1, s1)" by (cases "m s")
  from quietD[OF assms(1) m]
  have p1: "st_detached s1 = st_detached s \<and> st_unhandled s1 = st_unhandled s" .
  show "st_detached s' = st_detached s \<and> st_unhandled s' = st_unhandled s"
  proof (cases r1)
    case (Inr x)
    with run m have "s' = s1" by simp
    with p1 show ?thesis by simp
  next
    case (Inl e)
    with run m have "h e s1 = (r, s')" by simp
    from quietD[OF assms(2) this] p1 show ?thesis by simp
  qed
qed

lemma quiet_settle: "quiet m \<Longrightarrow> quiet (settle m)"
  by (auto simp add: quiet_def settle_def split: prod.splits)

lemma quiet_orDefault: "quiet m \<Longrightarrow> quiet (orDefault m d)"
  unfolding orDefault_def by (rule quiet_tryCatch) simp_all

lemma quiet_if: "quiet a \<Longrightarrow> quiet b \<Longrightarrow> quiet (if c then a else b)"
  by simp

lemma quiet_case_option:
  "quiet n \<Longrightarrow> (\<And>q. quiet (f q)) \<Longrightarrow> quiet (case r of None \<Rightarrow> n | Some q \<Rightarrow> f q)"
  by (cases r) simp_all

lemma quiet_erc20Batch [simp]: "quiet (erc20Batch rt cl token rcpt spender)"
  unfolding erc20Batch_def
  by (intro quiet_thenDo quiet_settle quiet_orDefault quiet_if quiet_read quiet_ret quiet_lift)

lemma quiet_callManifoldWithFallback [simp]: "quiet (callManifoldWithFallback cl addr f args ci)"
  unfolding callManifoldWithFallback_def
  by (intro quiet_thenDo quiet_settle quiet_read quiet_ret)

lemma quiet_await [simp]: "quiet (await cl p)"
  by (cases p) (simp_all add: await_def)

lemma quiet_extractClaim [simp]: "quiet (extractClaim rt claimData)"
  unfolding extractClaim_def
  by (intro quiet_thenDo quiet_getParams)
     (auto split: jsval.splits list.splits intro!: quiet_thenDo)

lemma quiet_manifoldPrice [simp]: "quiet (manifoldPrice rt cl mintFee c)"
  unfolding manifoldPrice_def
  by (intro quiet_thenDo quiet_if quiet_erc20Batch quiet_setClaim quiet_getParams quiet_getInfo
        quiet_ret quiet_lift)

lemma quiet_claimDispatch [simp]: "quiet (claimDispatch rt cl p ci)"
  unfolding claimDispatch_def
  by (intro quiet_if quiet_thenDo quiet_callManifoldWithFallback quiet_lift quiet_ret)

lemma quiet_nfts2meBranch [simp]: "quiet (nfts2meBranch rt cl)"
  unfolding nfts2meBranch_def nfts2mePattern1_def nfts2mePattern2_def nfts2meDefault_def
  by (intro quiet_thenDo quiet_tryCatch quiet_case_option quiet_if quiet_settle quiet_read
        quiet_getParams quiet_lift quiet_ret)

lemma quiet_thirdwebTokenCondition [simp]: "quiet (thirdwebTokenCondition cl p)"
  unfolding thirdwebTokenCondition_def
  by (intro quiet_tryCatch quiet_thenDo quiet_read quiet_ret)
     (auto split: jsval.splits intro!: quiet_thenDo)

lemma quiet_thirdweb1155Branch [simp]: "quiet (thirdweb1155Branch cl)"
  unfolding thirdweb1155Branch_def thirdwebAccessor_def thirdwebKnownOrFree_def
  by (intro quiet_thenDo quiet_tryCatch quiet_case_option quiet_if quiet_read
        quiet_thirdwebTokenCondition quiet_getParams quiet_lift quiet_ret)

lemma quiet_thirdweb721Condition [simp]: "quiet (thirdweb721Condition rt std cl p aid cond)"
  unfolding thirdweb721Condition_def Let_def
  by (intro quiet_thenDo quiet_if quiet_erc20Batch quiet_setClaimCondition quiet_raise quiet_ret
        quiet_lift)

lemma quiet_thirdweb721Branch [simp]: "quiet (thirdweb721Branch rt std cl)"
  unfolding thirdweb721Branch_def thirdweb721Body_def
  by (intro quiet_tryCatch quiet_thenDo quiet_getParams quiet_read quiet_ret)
     (auto split: jsval.splits list.splits intro!: quiet_thenDo)

lemma quiet_genericLoop [simp]: "quiet (genericLoop cl config p fs)"
proof (induction fs)
  case Nil
  then show ?case by simp
next
  case (Cons f fs)
  have "quiet (case abis (priceDiscovery config) of
                    [] \<Rightarrow> raise TypeError
                  | a # rest \<Rightarrow> read cl (Call (JStr (contractAddress p)) a f args))" for args
    by (simp split: list.splits)
  then show ?case
    unfolding genericLoop.simps
    by (intro quiet_thenDo quiet_tryCatch quiet_case_option quiet_if quiet_lift quiet_ret Cons)
qed

lemma claimDispatch_accepted:
  assumes "claimIdAccepted rt p"
  shows "tryCatch (claimDispatch rt cl p ci) h s = claimDispatch rt cl p ci s"
  using assms
  by (auto simp add: tryCatch_def thenDo_def claimDispatch_def claimIdAccepted_def stringToBigInt_def
        callManifoldWithFallback_def settle_def split: prod.splits sum.splits option.splits if_splits)

lemma manifoldLookups_quiet:
  assumes acc: "claimIdAccepted rt (st_params s)"
    and run: "manifoldLookups rt cl s = (r, s')"
  shows "st_detached s' = st_detached s \<and> st_unhandled s' = st_unhandled s"
proof -
  let ?p = "st_params s"
  let ?ci = "st_info s"
  let ?m = "thenDo (callManifoldWithFallback cl (extAddr ?ci) ''MINT_FEE'' [] ?ci) (\<lambda>mintFeePromise.
     thenDo (claimDispatch rt cl ?p ?ci) (\<lambda>claimPromise.
     thenDo (orDefault (await cl mintFeePromise) JNull) (\<lambda>mintFee.
     thenDo (case claimPromise of
               None \<Rightarrow> ret JNull
             | Some p \<Rightarrow> orDefault (await cl p) JNull) (\<lambda>claimData.
       ret (mintFee, claimData)))))"
  have eq: "manifoldLookups rt cl s = ?m s"
    by (simp add: manifoldLookups_def thenDo_def claimDispatch_accepted[OF acc] split: prod.splits sum.splits)
  have "quiet ?m"
    by (intro quiet_thenDo quiet_callManifoldWithFallback quiet_claimDispatch quiet_orDefault
          quiet_await quiet_case_option quiet_ret)
  from quietD[OF this, of s r s'] eq run show ?thesis by simp
qed

lemma manifoldFeeOnly_quiet:
  assumes d: "st_detached sb = []"
    and run: "manifoldFeeOnly cl sb = (r, sc)"
  shows "st_detached sc = [] \<and> st_unhandled sc = st_unhandled sb"
proof -
  let ?ci = "st_info sb"
  let ?m = "tryCatch
         (thenDo (callManifoldWithFallback cl (extAddr ?ci) ''MINT_FEE'' [] ?ci) (\<lambda>retryPromise.
          thenDo (ret ()) (\<lambda>u.
          thenDo (await cl retryPromise) (\<lambda>mintFee.
            ret (quote (Some mintFee) mintFee)))))
         (\<lambda>fallbackErr. ret (quote None (JBigInt defaultManifoldFee)))"
  obtain p s1 where c: "callManifoldWithFallback cl (extAddr ?ci) ''MINT_FEE'' [] ?ci sb = (Inr p, s1)"
    by (cases "cl (calls sb) (Call (extAddr ?ci) (primaryABI ?ci) ''MINT_FEE'' [])")
       (simp_all add: callManifoldWithFallback_Some callManifoldWithFallback_None)
  from quietD[OF quiet_callManifoldWithFallback c] d have "st_detached s1 = []" by simp
  then have rd: "runDetached cl s1 = (Inr (), s1)" by (rule runDetached_none)
  have eq: "manifoldFeeOnly cl sb = ?m sb"
    using c rd by (simp add: manifoldFeeOnly_def tryCatch_def)
  have "quiet ?m"
    by (intro quiet_tryCatch quiet_thenDo quiet_callManifoldWithFallback quiet_await quiet_ret)
  from quietD[OF this, of sb r sc] eq run d show ?thesis by simp
qed

lemma manifoldBranch_quiet:
  assumes d: "st_detached s = []" and acc: "claimIdAccepted rt (st_params s)"
    and run: "manifoldBranch rt cl s = (r, s')"
  shows "st_unhandled s' = st_unhandled s"
proof -
  obtain r1 s1 where l: "manifoldLookups rt cl s = (r1, s1)" by (cases "manifoldLookups rt cl s")
  from manifoldLookups_quiet[OF acc l]
  have q1: "st_detached s1 = st_detached s \<and> st_unhandled s1 = st_unhandled s" .
  let ?rest = "\<lambda>x. thenDo (case x of (mintFee, claimData) \<Rightarrow>
                   thenDo (extractClaim rt claimData) (\<lambda>c. ret (mintFee, c)))
                 (\<lambda>(mintFee, c). manifoldPrice rt cl mintFee c)"
  have qrest: "quiet (?rest x)" for x
    by (cases x) (auto intro!: quiet_thenDo)
  obtain r2 s2 where b: "manifoldBody rt cl s = (r2, s2)" by (cases "manifoldBody rt cl s")
  have q2: "st_detached s2 = st_detached s \<and> st_unhandled s2 = st_unhandled s"
  proof (cases r1)
    case (Inl e)
    with l b have "s2 = s1" by (simp add: manifoldBody_def manifoldClaim_def)
    with q1 show ?thesis by simp
  next
    case (Inr x)
    with l b have "?rest x s1 = (r2, s2)"
      by (simp add: manifoldBody_def manifoldClaim_def thenDo_def split: prod.splits sum.splits)
    from quietD[OF qrest this] q1 show ?thesis by simp
  qed
  show ?thesis
  proof (cases r2)
    case (Inr q)
    with b run have "s' = s2" by (simp add: manifoldBranch_def)
    with q2 show ?thesis by simp
  next
    case (Inl e)
    with b run have h: "manifoldFeeOnly cl s2 = (r, s')" by (simp add: manifoldBranch_def)
    from q2 d have "st_detached s2 = []" by simp
    from manifoldFeeOnly_quiet[OF this h] q2 show ?thesis by simp
  qed
qed

text \<open>No rejection goes unhandled, provided the id of the claim lookup is one that
  \<^verbatim>\<open>BigInt\<close> accepts.\<close>

lemma fetchPriceData_handles_rejections:
  assumes d: "st_detached s = []"
    and acc: "info_provider (st_info s) = Manifold \<and> optTruthy (extensionAddress (st_info s)) \<longrightarrow>
              claimIdAccepted rt (st_params s)"
  shows "st_unhandled (snd (fetchPriceData rt std cl s)) = st_unhandled s"
proof -
  let ?ci = "st_info s"
  let ?config = "getProviderConfig std (info_provider ?ci) (Some ?ci) None"
  let ?run = "fetchPriceData rt std cl s"
  have pair: "\<And>m. m s = (fst (m s), snd (m s))" by simp
  consider (m) "info_provider ?ci = Manifold \<and> optTruthy (extensionAddress ?ci)"
    | (n) "\<not> (info_provider ?ci = Manifold \<and> optTruthy (extensionAddress ?ci))" "info_provider ?ci = Nfts2me"
    | (t1) "info_provider ?ci = Thirdweb" "truthy (isERC1155 ?ci)"
    | (t2) "info_provider ?ci = Thirdweb" "\<not> truthy (isERC1155 ?ci)"
    | (g) "\<not> (info_provider ?ci = Manifold \<and> optTruthy (extensionAddress ?ci))"
          "info_provider ?ci \<noteq> Nfts2me" "info_provider ?ci \<noteq> Thirdweb"
    by blast
  then show ?thesis
  proof cases
    case m
    then have eq: "?run = manifoldBranch rt cl s"
      by (simp add: fetchPriceData_def Let_def)
    from m acc have a: "claimIdAccepted rt (st_params s)" by simp
    from manifoldBranch_quiet[OF d a pair[of "manifoldBranch rt cl"]] eq show ?thesis by simp
  next
    case n
    then have eq: "?run = nfts2meBranch rt cl s"
      by (simp add: fetchPriceData_def Let_def)
    from quietD[OF quiet_nfts2meBranch pair[of "nfts2meBranch rt cl"]] eq show ?thesis by simp
  next
    case t1
    then have eq: "?run = thirdweb1155Branch cl s"
      by (simp add: fetchPriceData_def Let_def)
    from quietD[OF quiet_thirdweb1155Branch pair[of "thirdweb1155Branch cl"]] eq show ?thesis by simp
  next
    case t2
    then have eq: "?run = thirdweb721Branch rt std cl s"
      by (simp add: fetchPriceData_def Let_def)
    from quietD[OF quiet_thirdweb721Branch pair[of "thirdweb721Branch rt std cl"]] eq show ?thesis by simp
  next
    case g
    then have eq: "?run =
        genericLoop cl ?config (st_params s) (functionNames (priceDiscovery ?config)) s"
      by (auto simp add: fetchPriceData_def Let_def)
    from quietD[OF quiet_genericLoop
           pair[of "genericLoop cl ?config (st_params s) (functionNames (priceDiscovery ?config))"]] eq
    show ?thesis by simp
  qed
qed

subsection \<open>The resolver: terminal fallbacks\<close>

lemma genericLoop_all_fail:
  assumes "\<forall>h c. cl h c = None"
  shows "fst (genericLoop cl config p fs s) = Inr (quote (Some (JBigInt 0)) (JBigInt 0))"
proof (induction fs arbitrary: s)
  case Nil
  then show ?case by simp
next
  case (Cons f fs)
  let ?round = "tryCatch
               (thenDo (if requiresAmountParam (priceDiscovery config) = Some True then
                          thenDo (lift (amountBigInt p)) (\<lambda>a. ret [JBigInt a])
                        else ret []) (\<lambda>args.
                thenDo (case abis (priceDiscovery config) of
                          [] \<Rightarrow> raise TypeError
                        | a # rest \<Rightarrow> read cl (Call (JStr (contractAddress p)) a f args)) (\<lambda>price.
                  if price \<noteq> JUndefined then
                    thenDo (lift (calculateValue (mintConfig config) price p)) (\<lambda>tc.
                      ret (Some (quote (Some price) tc)))
                  else ret None)))
               (\<lambda>err. ret None)"
  have "\<exists>s1. ?round s = (Inr None, s1)"
    using assms
    by (cases "amountBigInt p"; cases "abis (priceDiscovery config)")
       (simp_all add: tryCatch_def thenDo_def read_def onCalls_def readContract_def)
  then obtain s1 where "?round s = (Inr None, s1)" by (elim exE)
  then have "genericLoop cl config p (f # fs) s = genericLoop cl config p fs s1"
    by (simp del: thenDo_Inr thenDo_Inl tryCatch_Inr tryCatch_Inl add: thenDo_def)
  with Cons show ?case by simp
qed

lemma nfts2me_all_fail:
  assumes "\<forall>h c. cl h c = None"
    and "info_provider (st_info s) = Nfts2me" and "amountBigInt (st_params s) = Inr a"
  shows "fst (fetchPriceData rt std cl s) =
           Inr (quote (Some (JBigInt (100000000000000 * a))) (JBigInt (200000000000000 * a)))"
proof -
  have "fetchPriceData rt std cl s =
          (Inr (quote (Some (JBigInt (100000000000000 * a))) (JBigInt (200000000000000 * a))),
           s\<lparr>calls := calls s @ [mintPriceCall (st_params s), mintFeeCall (st_params s) a,
                                 protocolFeeCall (st_params s)]\<rparr>)"
    using assms(1) by (intro nfts2me_default_fees assms(2) assms(3)) simp_all
  then show ?thesis by simp
qed

lemma thirdweb721_all_fail:
  assumes "\<forall>h c. cl h c = None"
    and "info_provider (st_info s) = Thirdweb" and "\<not> truthy (isERC1155 (st_info s))"
  shows "fst (fetchPriceData rt std cl s) = Inr (quote None (JBigInt 0))"
  using assms
  by (simp add: fetchPriceData_def Let_def thirdweb721Branch_def thirdweb721Body_def)

lemma thirdweb1155_all_fail:
  assumes "\<forall>h c. cl h c = None"
    and "info_provider (st_info s) = Thirdweb" and "truthy (isERC1155 (st_info s))"
    and "toLowerCase (contractAddress (st_params s)) \<noteq> overrideAddress"
  shows "fst (fetchPriceData rt std cl s) = Inr (quote (Some (JBigInt 0)) (JBigInt 0))"
  using assms
  by (simp add: fetchPriceData_def Let_def thirdweb1155Branch_def thirdwebAccessor_def
        thirdwebTokenCondition_def thirdwebKnownOrFree_def)

lemma known_contract_all_fail:
  assumes "\<forall>h c. cl h c = None"
    and "info_provider (st_info s) = Thirdweb" and "truthy (isERC1155 (st_info s))"
    and "toLowerCase (contractAddress (st_params s)) = overrideAddress"
    and "amountBigInt (st_params s) = Inr a"
  shows "fst (fetchPriceData rt std cl s) =
           Inr (quote (Some (JBigInt (1000000000000000000 * a))) (JBigInt (1000000000000000000 * a)))"
  using assms
  by (simp add: fetchPriceData_def Let_def thirdweb1155Branch_def thirdwebAccessor_def
        thirdwebTokenCondition_def thirdwebKnownOrFree_def)

lemma other_all_fail:
  assumes "\<forall>h c. cl h c = None"
    and "info_provider (st_info s) \<noteq> Nfts2me" and "info_provider (st_info s) \<noteq> Thirdweb"
    and "\<not> (info_provider (st_info s) = Manifold \<and> optTruthy (extensionAddress (st_info s)))"
  shows "fst (fetchPriceData rt std cl s) = Inr (quote (Some (JBigInt 0)) (JBigInt 0))"
proof -
  let ?ci = "st_info s"
  let ?config = "getProviderConfig std (info_provider ?ci) (Some ?ci) None"
  from assms(2,3,4) have "fetchPriceData rt std cl s =
        genericLoop cl ?config (st_params s) (functionNames (priceDiscovery ?config)) s"
    by (auto simp add: fetchPriceData_def Let_def)
  with genericLoop_all_fail[OF assms(1), of ?config "st_params s" "functionNames (priceDiscovery ?config)" s]
  show ?thesis by simp
qed

text \<open>
  Three behaviours of the code are slips rather than fallbacks, and the statement on
  fallbacks below neither promises nor denies them; they are recorded here on concrete
  runs.

  First, an amount that is not whole: the self-deploy branch converts it outside any
  \<^verbatim>\<open>try\<close> and the resolver raises.
\<close>

lemma fetchPriceData_fractional_amount_raises:
  "fst (fetchPriceData sampleRuntime sampleStandards failingClient
          (nfts2meState\<lparr>st_params := fractionalParams\<rparr>)) = Inl RangeError"
  by (simp add: fetchPriceData_def Let_def nfts2meState_def basicInfo_def nfts2meBranch_def
        nfts2mePattern1_def nfts2mePattern2_def nfts2meDefault_def failingClient_def
        timesAmount_def fractional_amount)

text \<open>
  Second, an extension that cannot be reached at all, asked with a well-formed instance
  id. Both lookups swallow their failure, so nothing reaches the \<^verbatim>\<open>catch\<close> block, whose
  comments promise the fee-only retry and the default fee of 0.0005 ETH for a protocol
  that could not be completed: the fee is not read again and the default fee is not
  used. The quote is zero, after the four reads of the two lookups.
\<close>

lemma fetchPriceData_unreachable_extension:
  "fetchPriceData sampleRuntime sampleStandards failingClient instanceState
     = (Inr (quote (Some (JBigInt 0)) (JBigInt 0)),
        instanceState\<lparr>calls := [manifoldFeePrimary, getClaimCall, manifoldFeeFallback,
                                 getClaimFallbackCall]\<rparr>)"
  by (simp add: fetchPriceData_def Let_def instanceState_def manifoldInfo_def optTruthy_def
        manifoldBranch_def manifoldBody_def manifoldClaim_def manifoldLookups_def
        callManifoldWithFallback_def settle_read claimDispatch_def strTruthy_def strOf_def
        stringToBigInt_def sampleRuntime_def sampleParams_def failingClient_def orDefault_def
        await_def extractClaim_def manifoldPrice_def feeOrZero_def quote_def primaryABI_def
        fallbackABI_def extAddr_def manifoldFeePrimary_def manifoldFeeFallback_def getClaimCall_def
        getClaimFallbackCall_def)

text \<open>
  Third, an instance id that is no integer literal, with the same unreachable extension.
  The conversion throws when the fee promise exists and has no handler yet. The
  \<^verbatim>\<open>catch\<close> block does its retry and returns the default fee; the promise left behind
  makes its fallback read and its rejection is handled by nobody.
\<close>

lemma fetchPriceData_malformed_id:
  "fetchPriceData sampleRuntime sampleStandards failingClient badIdState
     = (Inr (quote None (JBigInt 500000000000000)),
        badIdState\<lparr>calls := [manifoldFeePrimary, manifoldFeePrimary, manifoldFeeFallback,
                              manifoldFeeFallback],
                    st_unhandled := [CallFailed]\<rparr>)"
  by (simp add: fetchPriceData_def Let_def badIdState_def manifoldInfo_def optTruthy_def
        manifoldBranch_def manifoldBody_def manifoldClaim_def manifoldLookups_def
        callManifoldWithFallback_def settle_read claimDispatch_def strTruthy_def strOf_def
        stringToBigInt_def sampleRuntime_def sampleParams_def failingClient_def abandon_def
        manifoldFeeOnly_def runDetached_def reject_def await_def defaultManifoldFee_def
        primaryABI_def fallbackABI_def extAddr_def manifoldFeePrimary_def manifoldFeeFallback_def)

text \<open>
  C1, as stated, fails: a branch need not end in a zero-cost fallback. For a self-deploy
  classification, with every remote call failing and the default amount of one, the
  quote is the default creator fee with a total of 0.0002 ETH, not zero.
\<close>

theorem fetchPriceData_zero_fallback_counterexample:
  "fst (fetchPriceData sampleRuntime sampleStandards failingClient nfts2meState)
     = Inr (quote (Some (JBigInt 100000000000000)) (JBigInt 200000000000000))
   \<and> totalCost (quote (Some (JBigInt 100000000000000)) (JBigInt 200000000000000)) \<noteq> JBigInt 0"
  by (simp add: fetchPriceData_def Let_def nfts2meState_def basicInfo_def nfts2meBranch_def
        nfts2mePattern1_def nfts2mePattern2_def nfts2meDefault_def failingClient_def amountBigInt_def
        sampleParams_def quote_def)

text \<open>
  C1, amended. The amount \<open>a\<close> is asked to be absent or whole only where the code
  converts it outside any \<^verbatim>\<open>try\<close>: in the self-deploy branch and for the known contract
  of the drop-claim ERC1155 branch.

  For every classification, every client and every request, the resolver returns a
  quote, which has a total; and, given an id of the claim lookup that \<^verbatim>\<open>BigInt\<close>
  accepts, no promise of the resolver is rejected without a handler.

  For the extension-claim provider with an extension address: when the protocol fails
  with an error, the result is that of the \<^verbatim>\<open>catch\<close> block, which is always the fee-only
  quote or the default fee; the block reads the fee again, under the primary ABI and
  then under the other one, returns the fee that it reads as price and total, and
  returns the default fee of 0.0005 ETH as the total when both reads fail. (A fee read
  or a claim lookup that fails on its own is swallowed and does not reach the
  \<^verbatim>\<open>catch\<close> block; what the branch returns then is left out of this statement, see
  \<open>fetchPriceData_unreachable_extension\<close> above.)

  For the other branches, when every remote call fails, the quote is the terminal
  fallback of the branch: the default fees of 0.0001 ETH each, times the amount, for
  self-deploy; zero without a price for drop-claim ERC721; zero for drop-claim ERC1155,
  except for the known contract, whose fixed price of 1 ETH times the amount is used;
  zero for every other provider, and for the extension-claim provider without an
  extension address.
\<close>

theorem fetchPriceData_always_quotes:
  assumes "info_provider (st_info s) = Nfts2me \<or>
           (info_provider (st_info s) = Thirdweb \<and> truthy (isERC1155 (st_info s)) \<and>
            toLowerCase (contractAddress (st_params s)) = overrideAddress)
           \<longrightarrow> amountBigInt (st_params s) = Inr a"
  shows "(\<exists>q s'. fetchPriceData rt std cl s = (Inr q, s'))
       \<and> (st_detached s = [] \<and>
          (info_provider (st_info s) = Manifold \<and> optTruthy (extensionAddress (st_info s)) \<longrightarrow>
             claimIdAccepted rt (st_params s)) \<longrightarrow>
            st_unhandled (snd (fetchPriceData rt std cl s)) = st_unhandled s)
       \<and> (info_provider (st_info s) = Manifold \<and> optTruthy (extensionAddress (st_info s)) \<and>
          manifoldBody rt cl s = (Inl e, sb) \<longrightarrow>
            fetchPriceData rt std cl s = manifoldFeeOnly cl sb)
       \<and> (\<exists>q sc. manifoldFeeOnly cl sb = (Inr q, sc) \<and>
            ((\<exists>fee. q = quote (Some fee) fee) \<or> q = quote None (JBigInt 500000000000000)))
       \<and> (st_detached sb = [] \<and> cl (calls sb) (primaryFeeCall (st_info sb)) = Some fee \<longrightarrow>
            manifoldFeeOnly cl sb =
              (Inr (quote (Some fee) fee), sb\<lparr>calls := calls sb @ [primaryFeeCall (st_info sb)]\<rparr>))
       \<and> (st_detached sb = [] \<and> cl (calls sb) (primaryFeeCall (st_info sb)) = None \<and>
          cl (calls sb @ [primaryFeeCall (st_info sb)]) (fallbackFeeCall (st_info sb)) = Some fee \<longrightarrow>
            manifoldFeeOnly cl sb =
              (Inr (quote (Some fee) fee),
               sb\<lparr>calls := calls sb @ [primaryFeeCall (st_info sb), fallbackFeeCall (st_info sb)]\<rparr>))
       \<and> (st_detached sb = [] \<and> cl (calls sb) (primaryFeeCall (st_info sb)) = None \<and>
          cl (calls sb @ [primaryFeeCall (st_info sb)]) (fallbackFeeCall (st_info sb)) = None \<longrightarrow>
            manifoldFeeOnly cl sb =
              (Inr (quote None (JBigInt 500000000000000)),
               sb\<lparr>calls := calls sb @ [primaryFeeCall (st_info sb), fallbackFeeCall (st_info sb)]\<rparr>))
       \<and> ((\<forall>h c. cl h c = None) \<and> info_provider (st_info s) = Nfts2me \<longrightarrow>
            fst (fetchPriceData rt std cl s) =
              Inr (quote (Some (JBigInt (100000000000000 * a))) (JBigInt (200000000000000 * a))))
       \<and> ((\<forall>h c. cl h c = None) \<and> info_provider (st_info s) = Thirdweb \<and>
          \<not> truthy (isERC1155 (st_info s)) \<longrightarrow>
            fst (fetchPriceData rt std cl s) = Inr (quote None (JBigInt 0)))
       \<and> ((\<forall>h c. cl h c = None) \<and> info_provider (st_info s) = Thirdweb \<and>
          truthy (isERC1155 (st_info s)) \<and>
          toLowerCase (contractAddress (st_params s)) \<noteq> overrideAddress \<longrightarrow>
            fst (fetchPriceData rt std cl s) = Inr (quote (Some (JBigInt 0)) (JBigInt 0)))
       \<and> ((\<forall>h c. cl h c = None) \<and> info_provider (st_info s) = Thirdweb \<and>
          truthy (isERC1155 (st_info s)) \<and>
          toLowerCase (contractAddress (st_params s)) = overrideAddress \<longrightarrow>
            fst (fetchPriceData rt std cl s) =
              Inr (quote (Some (JBigInt (1000000000000000000 * a))) (JBigInt (1000000000000000000 * a))))
       \<and> ((\<forall>h c. cl h c = None) \<and> info_provider (st_info s) \<noteq> Nfts2me \<and>
          info_provider (st_info s) \<noteq> Thirdweb \<and>
          \<not> (info_provider (st_info s) = Manifold \<and> optTruthy (extensionAddress (st_info s))) \<longrightarrow>
            fst (fetchPriceData rt std cl s) = Inr (quote (Some (JBigInt 0)) (JBigInt 0)))"
proof (intro conjI impI)
  show "\<exists>q s'. fetchPriceData rt std cl s = (Inr q, s')"
    by (rule fetchPriceData_returns[OF assms])
next
  assume h: "st_detached s = [] \<and>
          (info_provider (st_info s) = Manifold \<and> optTruthy (extensionAddress (st_info s)) \<longrightarrow>
             claimIdAccepted rt (st_params s))"
  show "st_unhandled (snd (fetchPriceData rt std cl s)) = st_unhandled s"
    by (rule fetchPriceData_handles_rejections[OF conjunct1[OF h] conjunct2[OF h]])
next
  assume h: "info_provider (st_info s) = Manifold \<and> optTruthy (extensionAddress (st_info s)) \<and>
          manifoldBody rt cl s = (Inl e, sb)"
  show "fetchPriceData rt std cl s = manifoldFeeOnly cl sb"
    by (rule manifold_retry[OF conjunct1[OF h] conjunct1[OF conjunct2[OF h]] conjunct2[OF conjunct2[OF h]]])
next
  from manifoldFeeOnly_shape[of cl sb]
  show "\<exists>q sc. manifoldFeeOnly cl sb = (Inr q, sc) \<and>
            ((\<exists>fee. q = quote (Some fee) fee) \<or> q = quote None (JBigInt 500000000000000))"
    by (auto simp add: defaultManifoldFee_def)
next
  assume h: "st_detached sb = [] \<and> cl (calls sb) (primaryFeeCall (st_info sb)) = Some fee"
  show "manifoldFeeOnly cl sb =
          (Inr (quote (Some fee) fee), sb\<lparr>calls := calls sb @ [primaryFeeCall (st_info sb)]\<rparr>)"
    by (rule manifoldFeeOnly_primary[where cl=cl and sb=sb, OF conjunct1[OF h] conjunct2[OF h]])
next
  assume h: "st_detached sb = [] \<and> cl (calls sb) (primaryFeeCall (st_info sb)) = None \<and>
          cl (calls sb @ [primaryFeeCall (st_info sb)]) (fallbackFeeCall (st_info sb)) = Some fee"
  show "manifoldFeeOnly cl sb =
          (Inr (quote (Some fee) fee),
           sb\<lparr>calls := calls sb @ [primaryFeeCall (st_info sb), fallbackFeeCall (st_info sb)]\<rparr>)"
    by (rule manifoldFeeOnly_fallback[where cl=cl and sb=sb, OF conjunct1[OF h] conjunct1[OF conjunct2[OF h]]
          conjunct2[OF conjunct2[OF h]]])
next
  assume h: "st_detached sb = [] \<and> cl (calls sb) (primaryFeeCall (st_info sb)) = None \<and>
          cl (calls sb @ [primaryFeeCall (st_info sb)]) (fallbackFeeCall (st_info sb)) = None"
  show "manifoldFeeOnly cl sb =
          (Inr (quote None (JBigInt 500000000000000)),
           sb\<lparr>calls := calls sb @ [primaryFeeCall (st_info sb), fallbackFeeCall (st_info sb)]\<rparr>)"
    by (rule manifoldFeeOnly_default[where cl=cl and sb=sb, OF conjunct1[OF h] conjunct1[OF conjunct2[OF h]]
          conjunct2[OF conjunct2[OF h]]])
next
  assume h: "(\<forall>h c. cl h c = None) \<and> info_provider (st_info s) = Nfts2me"
  with assms have amt: "amountBigInt (st_params s) = Inr a" by simp
  show "fst (fetchPriceData rt std cl s) =
          Inr (quote (Some (JBigInt (100000000000000 * a))) (JBigInt (200000000000000 * a)))"
    by (rule nfts2me_all_fail[where cl=cl and s=s, OF conjunct1[OF h] conjunct2[OF h] amt])
next
  assume h: "(\<forall>h c. cl h c = None) \<and> info_provider (st_info s) = Thirdweb \<and>
          \<not> truthy (isERC1155 (st_info s))"
  show "fst (fetchPriceData rt std cl s) = Inr (quote None (JBigInt 0))"
    by (rule thirdweb721_all_fail[where cl=cl and s=s, OF conjunct1[OF h] conjunct1[OF conjunct2[OF h]]
          conjunct2[OF conjunct2[OF h]]])
next
  assume h: "(\<forall>h c. cl h c = None) \<and> info_provider (st_info s) = Thirdweb \<and>
          truthy (isERC1155 (st_info s)) \<and>
          toLowerCase (contractAddress (st_params s)) \<noteq> overrideAddress"
  show "fst (fetchPriceData rt std cl s) = Inr (quote (Some (JBigInt 0)) (JBigInt 0))"
    by (rule thirdweb1155_all_fail[where cl=cl and s=s, OF conjunct1[OF h] conjunct1[OF conjunct2[OF h]]
          conjunct1[OF conjunct2[OF conjunct2[OF h]]] conjunct2[OF conjunct2[OF conjunct2[OF h]]]])
next
  assume h: "(\<forall>h c. cl h c = None) \<and> info_provider (st_info s) = Thirdweb \<and>
          truthy (isERC1155 (st_info s)) \<and>
          toLowerCase (contractAddress (st_params s)) = overrideAddress"
  with assms have amt: "amountBigInt (st_params s) = Inr a" by simp
  show "fst (fetchPriceData rt std cl s) =
          Inr (quote (Some (JBigInt (1000000000000000000 * a))) (JBigInt (1000000000000000000 * a)))"
    by (rule known_contract_all_fail[where cl=cl and s=s, OF conjunct1[OF h] conjunct1[OF conjunct2[OF h]]
          conjunct1[OF conjunct2[OF conjunct2[OF h]]] conjunct2[OF conjunct2[OF conjunct2[OF h]]] amt])
next
  assume h: "(\<forall>h c. cl h c = None) \<and> info_provider (st_info s) \<noteq> Nfts2me \<and>
          info_provider (st_info s) \<noteq> Thirdweb \<and>
          \<not> (info_provider (st_info s) = Manifold \<and> optTruthy (extensionAddress (st_info s)))"
  show "fst (fetchPriceData rt std cl s) = Inr (quote (Some (JBigInt 0)) (JBigInt 0))"
    by (rule other_all_fail[where cl=cl and s=s, OF conjunct1[OF h] conjunct1[OF conjunct2[OF h]]
          conjunct1[OF conjunct2[OF conjunct2[OF h]]] conjunct2[OF conjunct2[OF conjunct2[OF h]]]])
qed

text \<open>A run in which the protocol fails on a remote read: the fee and the claim are
  read, the token contract does not answer, and by then the extension has stopped
  answering. The retry fails and the default fee is the total.\<close>

lemma fading_body:
  "manifoldBody sampleRuntime fadingClient instanceState =
     (Inl CallFailed,
      instanceState\<lparr>calls := [manifoldFeePrimary, getClaimCall, symbolCall (JStr tokenAddress),
                               decimalsCall (JStr tokenAddress)],
        st_info := manifoldInfo\<lparr>claim := Some
          \<lparr> cost = JBigInt 1000, merkleRoot = JStr zeroBytes32, erc20 = JStr tokenAddress,
            startDate = JNum (Finite 0), endDate = JNum (Finite 0), walletMax = JNum (Finite 1) \<rparr>\<rparr>\<rparr>)"
  apply (simp add: instanceState_def manifoldInfo_def manifoldBody_def manifoldClaim_def
        manifoldLookups_def callManifoldWithFallback_def settle_read claimDispatch_def strTruthy_def
        strOf_def stringToBigInt_def sampleRuntime_def sampleParams_def fadingClient_def
        orDefault_def await_def extractClaim_def erc20Claim_def erc20ClaimFields_def primaryABI_def
        extAddr_def manifoldFeePrimary_def getClaimCall_def)
  by (simp add: manifoldPrice_def claimInvalid_def setClaim_def tokenAddress_def zeroAddress_def
        optTruthy_def erc20Batch_def settle_read symbolCall_def decimalsCall_def strTruthy_def
        fadingClient_def extAddr_def)

theorem fetchPriceData_always_quotes_witness:
  "fst (fetchPriceData sampleRuntime sampleStandards fadingClient instanceState)
     = Inr (quote None (JBigInt 500000000000000))
   \<and> calls (snd (fetchPriceData sampleRuntime sampleStandards fadingClient instanceState))
     = [manifoldFeePrimary, getClaimCall, symbolCall (JStr tokenAddress), decimalsCall (JStr tokenAddress),
        manifoldFeePrimary, manifoldFeeFallback]
   \<and> st_unhandled (snd (fetchPriceData sampleRuntime sampleStandards fadingClient instanceState)) = []"
proof -
  let ?sb = "instanceState\<lparr>calls := [manifoldFeePrimary, getClaimCall, symbolCall (JStr tokenAddress),
                               decimalsCall (JStr tokenAddress)],
        st_info := manifoldInfo\<lparr>claim := Some
          \<lparr> cost = JBigInt 1000, merkleRoot = JStr zeroBytes32, erc20 = JStr tokenAddress,
            startDate = JNum (Finite 0), endDate = JNum (Finite 0), walletMax = JNum (Finite 1) \<rparr>\<rparr>\<rparr>"
  have amt: "info_provider (st_info instanceState) = Nfts2me \<or>
           (info_provider (st_info instanceState) = Thirdweb \<and> truthy (isERC1155 (st_info instanceState)) \<and>
            toLowerCase (contractAddress (st_params instanceState)) = overrideAddress)
           \<longrightarrow> amountBigInt (st_params instanceState) = Inr 1"
    by (simp add: instanceState_def manifoldInfo_def)
  note inst = fetchPriceData_always_quotes[where s=instanceState and a=1 and rt=sampleRuntime
      and std=sampleStandards and cl=fadingClient and e=CallFailed and sb="?sb", OF amt]
  have m: "info_provider (st_info instanceState) = Manifold \<and>
           optTruthy (extensionAddress (st_info instanceState)) \<and>
           manifoldBody sampleRuntime fadingClient instanceState = (Inl CallFailed, ?sb)"
    using fading_body by (simp add: instanceState_def manifoldInfo_def optTruthy_def)
  have acc: "st_detached instanceState = [] \<and>
          (info_provider (st_info instanceState) = Manifold \<and>
           optTruthy (extensionAddress (st_info instanceState)) \<longrightarrow>
             claimIdAccepted sampleRuntime (st_params instanceState))"
    by (simp add: instanceState_def claimIdAccepted_def strTruthy_def strOf_def sampleParams_def
          sampleRuntime_def)
  have retry: "st_detached ?sb = [] \<and> fadingClient (calls ?sb) (primaryFeeCall (st_info ?sb)) = None \<and>
          fadingClient (calls ?sb @ [primaryFeeCall (st_info ?sb)]) (fallbackFeeCall (st_info ?sb)) = None"
    by (simp add: instanceState_def fadingClient_def primaryFeeCall_def fallbackFeeCall_def)
  from mp[OF inst[THEN conjunct2, THEN conjunct2, THEN conjunct1] m]
  have r1: "fetchPriceData sampleRuntime sampleStandards fadingClient instanceState =
          manifoldFeeOnly fadingClient ?sb" .
  from mp[OF inst[THEN conjunct2, THEN conjunct2, THEN conjunct2, THEN conjunct2, THEN conjunct2,
                  THEN conjunct2, THEN conjunct1] retry]
  have r2: "manifoldFeeOnly fadingClient ?sb =
          (Inr (quote None (JBigInt 500000000000000)),
           ?sb\<lparr>calls := calls ?sb @ [primaryFeeCall (st_info ?sb), fallbackFeeCall (st_info ?sb)]\<rparr>)" .
  from mp[OF inst[THEN conjunct2, THEN conjunct1] acc]
  have r3: "st_unhandled (snd (fetchPriceData sampleRuntime sampleStandards fadingClient instanceState))
          = st_unhandled instanceState" .
  from r1 r2 r3 show ?thesis
    by (simp add: instanceState_def primaryFeeCall_def fallbackFeeCall_def manifoldInfo_def extAddr_def
          primaryABI_def fallbackABI_def manifoldFeePrimary_def manifoldFeeFallback_def)
qed

subsection \<open>ERC20 decimals\<close>


lemma extractClaim_object [simp]: "extractClaim rt (JObj kvs) s = (Inr (JObj kvs), s)"
  by (simp add: extractClaim_def)











text \<open>On that run the retry reads the fee, and the quote is the fee alone.\<close>

lemma badDecimalsToken_run:
  "fst (fetchPriceData sampleRuntime sampleStandards badDecimalsTokenClient tokenState)
     = Inr (quote (Some (JBigInt 7)) (JBigInt 7))"
  by (simp add: validateDecimals_def fetchPriceData_def Let_def tokenState_def manifoldInfo_def
        optTruthy_def manifoldBranch_def manifoldBody_def manifoldClaim_def manifoldLookups_def
        orDefault_def callManifoldWithFallback_def await_def runDetached_def
        primaryABI_def extAddr_def badDecimalsTokenClient_def claimDispatch_def strTruthy_def strOf_def
        stringToBigInt_def sampleRuntime_def sampleParams_def extractClaim_def erc20Claim_def
        erc20ClaimFields_def manifoldPrice_def claimInvalid_def setClaim_def tokenAddress_def
        zeroAddress_def erc20Batch_def settle_read symbolCall_def decimalsCall_def
        manifoldFeeOnly_def quote_def toStringMethod_def setInstanceId_def)

end
